theory Spec2Isabelle
  imports Main
begin

section \<open>Values, errors and the store\<close>

text \<open>
  JavaScript objects are shared by reference: a layer keeps its output tensor, hands the
  same object to its caller and mutates it in place. Tensor objects therefore live in a
  store (the list \<open>heap\<close>; a reference is an index into it, \<open>new\<close> appends), and
  every operation passes the store explicitly. Exceptions are values of type \<open>error\<close>
  on the left of a sum.
\<close>

datatype error =
    ConfigurationError string
  | TypeError string
  | ModuleNotFound string
  | Unmodelled string

text \<open>
  \<open>TypeError\<close> is what JavaScript raises on calling or dereferencing \<open>undefined\<close>;
  \<open>ModuleNotFound\<close> is the failure of a dynamic \<open>require\<close>. \<open>Unmodelled\<close> is not an
  exception of the source: it marks the places where the source goes on computing with
  \<open>undefined\<close> or \<open>NaN\<close> (a slice read out of range, operands of different shapes
  handed to \<open>ops.assign\<close>), which this model does not follow.
\<close>

type_synonym ref = nat

record 'a ndarray =
  data :: "'a list"
  shape :: "nat list"

record indices =
  row :: "int ndarray"
  col :: "int ndarray"

record 'a Tensor =
  tensor :: "'a ndarray"
  glTexture :: "nat option"
  glTextureShape :: "nat list option"
  is1D :: bool
  is2DReshaped :: bool
  originalShape :: "nat list option"
  indicesForReshaped :: "indices option"

datatype 'a texels = Floats "'a list" | Ints "int list"

datatype program = Program string

datatype event =
    CompileProgram string
  | RunProgram "program option" "nat option"
  | CreateGLTexture nat
  | TransferFromGLTexture ref
  | ReshapeFrom2D ref
  | ReshapeFrom2DSquare ref
  | ApplyActivation string

text \<open>
  The world: the tensor objects, the device allocations (a texture handle is an index
  into \<open>textures\<close>) and the record of every backend invocation made so far.
\<close>

record 'a world =
  heap :: "'a Tensor list"
  textures :: "'a texels list"
  log :: "event list"

text \<open>
  The external collaborators: the elementwise function catalog
  (\<open>import * as activations\<close>), the shader sources reachable by the dynamic
  \<open>require\<close> of the Activation constructor (keyed by activation name), what a
  device program computes (program, named input textures, named integer uniforms and the
  current content of the target give the new content of the target), and the Tensor
  method \<open>reshapeFrom2D\<close>. That method is called by \<open>Activation._callGPU\<close>; Tensor.js is
  not under src/ and the spec does not describe the method, so it is a parameter: what
  the method leaves in \<open>this.tensor\<close>, or the error it throws.
\<close>

record 'a env =
  activations :: "string \<Rightarrow> ('a Tensor \<Rightarrow> 'a Tensor) option"
  shaders :: "string \<Rightarrow> string option"
  kernel :: "program option \<Rightarrow> (string \<times> 'a texels option) list \<Rightarrow> (string \<times> int) list
               \<Rightarrow> 'a texels \<Rightarrow> 'a texels"
  tensor_reshapeFrom2D :: "'a Tensor \<Rightarrow> error + 'a ndarray"

definition bindE :: "error + 'x \<Rightarrow> ('x \<Rightarrow> error + 'y) \<Rightarrow> error + 'y" where
  "bindE m f = (case m of Inl e \<Rightarrow> Inl e | Inr v \<Rightarrow> f v)"

definition new_events :: "'a world \<Rightarrow> 'a world \<Rightarrow> event list" where
  "new_events \<sigma> \<sigma>' = drop (length (log \<sigma>)) (log \<sigma>')"

fun offdevice :: "event \<Rightarrow> bool" where
  "offdevice (TransferFromGLTexture r) = True"
| "offdevice (ReshapeFrom2D r) = True"
| "offdevice (ReshapeFrom2DSquare r) = True"
| "offdevice e = False"

section \<open>Tensor\<close>

text \<open>
  Modelled from the spec: the class Tensor (Tensor.js is not under src/). A tensor
  created without data is a zero-filled row-major buffer of \<open>product(shape)\<close> cells; one
  created from a buffer takes the buffer as it is.
\<close>

definition new_Tensor :: "'a::zero list \<Rightarrow> nat list \<Rightarrow> 'a Tensor" where
  "new_Tensor d s =
     \<lparr> tensor = \<lparr> data = (if d = [] then replicate (prod_list s) 0 else d), shape = s \<rparr>,
       glTexture = None, glTextureShape = None, is1D = False, is2DReshaped = False,
       originalShape = None, indicesForReshaped = None \<rparr>"

definition alloc :: "'a Tensor \<Rightarrow> 'a world \<Rightarrow> ref \<times> 'a world" where
  "alloc t \<sigma> = (length (heap \<sigma>), \<sigma>\<lparr> heap := heap \<sigma> @ [t] \<rparr>)"

definition emit :: "event \<Rightarrow> 'a world \<Rightarrow> 'a world" where
  "emit e \<sigma> = \<sigma>\<lparr> log := log \<sigma> @ [e] \<rparr>"

text \<open>
  Modelled from the spec: \<open>webgl2.compileProgram\<close> (WebGL2.js is not under src/), the
  opaque service that turns a source text into a program handle.
\<close>

definition compileProgram :: "string \<Rightarrow> 'a world \<Rightarrow> program \<times> 'a world" where
  "compileProgram src \<sigma> = (Program src, emit (CompileProgram src) \<sigma>)"

text \<open>
  The side of the square layout: the least \<open>s\<close> with \<open>n \<le> s * s\<close>, that is
  \<open>ceil(sqrt(n))\<close>.
\<close>

definition ceil_sqrt :: "nat \<Rightarrow> nat" where
  "ceil_sqrt n = length (takeWhile (\<lambda>s. s * s < n) [0..<n])"

text \<open>
  Modelled from the spec: \<open>reshapeTo2DSquare\<close> (Tensor.js is not under src/). The
  buffer becomes a \<open>side \<times> side\<close> layout whose first \<open>E\<close> cells are the original
  row-major data and whose other cells are zero; the original shape is retained, with an
  index map giving the row and the column of every original cell in the square.
\<close>

definition Tensor_reshapeTo2DSquare :: "'e::zero Tensor \<Rightarrow> 'e Tensor" where
  "Tensor_reshapeTo2DSquare t =
    (let s = shape (tensor t);
         E = prod_list s;
         side = ceil_sqrt E;
         d = take E (data (tensor t))
     in t\<lparr> tensor := \<lparr> data = d @ replicate (side * side - length d) 0, shape = [side, side] \<rparr>,
           is2DReshaped := True,
           originalShape := Some s,
           indicesForReshaped :=
             Some \<lparr> row = \<lparr> data = map (\<lambda>i. int (i div side)) [0..<E], shape = s \<rparr>,
                    col = \<lparr> data = map (\<lambda>i. int (i mod side)) [0..<E], shape = s \<rparr> \<rparr> \<rparr>)"

text \<open>
  Modelled from the spec: \<open>reshapeFrom2DSquare\<close> (Tensor.js is not under src/): the
  first \<open>E\<close> cells of the square buffer, under the retained original shape. Without a
  retained shape there is nothing to read the shape from, a TypeError.
\<close>

definition Tensor_reshapeFrom2DSquare :: "'e Tensor \<Rightarrow> error + 'e Tensor" where
  "Tensor_reshapeFrom2DSquare t =
    (case originalShape t of
       None \<Rightarrow> Inl (TypeError ''originalShape is undefined'')
     | Some s \<Rightarrow> Inr (t\<lparr> tensor := \<lparr> data = take (prod_list s) (data (tensor t)), shape = s \<rparr> \<rparr>))"

text \<open>
  Modelled from the spec: \<open>createGLTexture\<close> (Tensor.js is not under src/), the
  acquisition of a device allocation mirroring the current buffer. The spec leaves the
  on-device shape open; the layers under src/ read \<open>glTextureShape[1]\<close> of the texture
  of a rank-1 slice and pass \<open>is1D\<close> on, so a rank-1 tensor is stored as one row and
  flagged \<open>is1D\<close>, and any other tensor under its own shape.
\<close>

definition Tensor_createGLTexture ::
  "('e list \<Rightarrow> 'a texels) \<Rightarrow> 'e Tensor \<Rightarrow> 'a world \<Rightarrow> 'e Tensor \<times> 'a world" where
  "Tensor_createGLTexture wrap t \<sigma> =
    (let h = length (textures \<sigma>);
         s = shape (tensor t)
     in (t\<lparr> glTexture := Some h,
            glTextureShape := Some (case s of [n] \<Rightarrow> [1, n] | _ \<Rightarrow> s),
            is1D := (case s of [n] \<Rightarrow> True | _ \<Rightarrow> is1D t) \<rparr>,
         emit (CreateGLTexture h) (\<sigma>\<lparr> textures := textures \<sigma> @ [wrap (data (tensor t))] \<rparr>)))"

text \<open>The methods above, called on a tensor object of the store.\<close>

definition createGLTexture :: "ref \<Rightarrow> 'a world \<Rightarrow> 'a world" where
  "createGLTexture r \<sigma> =
    (let (t, \<sigma>1) = Tensor_createGLTexture Floats (heap \<sigma> ! r) \<sigma>
     in \<sigma>1\<lparr> heap := (heap \<sigma>1)[r := t] \<rparr>)"

definition reshapeTo2DSquare :: "ref \<Rightarrow> 'a::zero world \<Rightarrow> 'a world" where
  "reshapeTo2DSquare r \<sigma> = \<sigma>\<lparr> heap := (heap \<sigma>)[r := Tensor_reshapeTo2DSquare (heap \<sigma> ! r)] \<rparr>"

definition reshapeFrom2DSquare :: "ref \<Rightarrow> 'a world \<Rightarrow> error + 'a world" where
  "reshapeFrom2DSquare r \<sigma> =
    (case Tensor_reshapeFrom2DSquare (heap \<sigma> ! r) of
       Inl e \<Rightarrow> Inl e
     | Inr t \<Rightarrow> Inr (emit (ReshapeFrom2DSquare r) (\<sigma>\<lparr> heap := (heap \<sigma>)[r := t] \<rparr>)))"

text \<open>
  \<open>reshapeFrom2D\<close>, the other inversion, called on a tensor object of the store: the
  environment's \<open>tensor_reshapeFrom2D\<close> decides what becomes of \<open>this.tensor\<close>.
\<close>

definition reshapeFrom2D :: "'a env \<Rightarrow> ref \<Rightarrow> 'a world \<Rightarrow> error + 'a world" where
  "reshapeFrom2D E r \<sigma> =
    (case tensor_reshapeFrom2D E (heap \<sigma> ! r) of
       Inl e \<Rightarrow> Inl e
     | Inr a \<Rightarrow>
         Inr (emit (ReshapeFrom2D r) (\<sigma>\<lparr> heap := (heap \<sigma>)[r := (heap \<sigma> ! r)\<lparr> tensor := a \<rparr>] \<rparr>)))"

definition readTexture :: "'a world \<Rightarrow> nat \<Rightarrow> 'a list option" where
  "readTexture \<sigma> h =
    (if h < length (textures \<sigma>)
     then (case textures \<sigma> ! h of Floats d \<Rightarrow> Some d | Ints d \<Rightarrow> None)
     else None)"

text \<open>
  Modelled from the spec: \<open>transferFromGLTexture\<close> (Tensor.js is not under src/), the
  inverse of the acquisition: the buffer becomes the content of the device allocation,
  under the on-device shape (one row flagged \<open>is1D\<close> is read back as rank 1). It acts
  only on a tensor that holds a device allocation.
\<close>

definition transferFromGLTexture :: "ref \<Rightarrow> 'a world \<Rightarrow> 'a world" where
  "transferFromGLTexture r \<sigma> =
    (let t = heap \<sigma> ! r;
         \<sigma>1 = emit (TransferFromGLTexture r) \<sigma>
     in case glTexture t of
          None \<Rightarrow> \<sigma>1
        | Some h \<Rightarrow>
            (case readTexture \<sigma> h of
               None \<Rightarrow> \<sigma>1
             | Some d \<Rightarrow>
                 (let s = (case glTextureShape t of None \<Rightarrow> shape (tensor t) | Some s \<Rightarrow> s);
                      s1 = (case s of [a, n] \<Rightarrow> if is1D t \<and> a = 1 then [n] else s | _ \<Rightarrow> s)
                  in \<sigma>1\<lparr> heap := (heap \<sigma>1)[r := t\<lparr> tensor := \<lparr> data = d, shape = s1 \<rparr> \<rparr>] \<rparr>)))"

text \<open>
  Modelled from the spec: \<open>webgl2.runProgram\<close> (WebGL2.js is not under src/), the
  opaque service that binds the named inputs and uniforms, executes, and writes into the
  device allocation of \<open>output\<close>. What is written is the environment's \<open>kernel\<close>.
\<close>

definition lookupTexture :: "'a world \<Rightarrow> nat option \<Rightarrow> 'a texels option" where
  "lookupTexture \<sigma> tx =
    (case tx of
       None \<Rightarrow> None
     | Some h \<Rightarrow> if h < length (textures \<sigma>) then Some (textures \<sigma> ! h) else None)"

definition runProgram ::
  "'a env \<Rightarrow> program option \<Rightarrow> nat option \<Rightarrow> (string \<times> nat option) list \<Rightarrow> (string \<times> int) list
     \<Rightarrow> 'a world \<Rightarrow> 'a world" where
  "runProgram E p target inputs uniforms \<sigma> =
    (let \<sigma>1 = emit (RunProgram p target) \<sigma>
     in case target of
          None \<Rightarrow> \<sigma>1
        | Some h \<Rightarrow>
            \<sigma>1\<lparr> textures := (textures \<sigma>)
                   [h := kernel E p (map (\<lambda>(n, tx). (n, lookupTexture \<sigma> tx)) inputs) uniforms
                           (textures \<sigma> ! h)] \<rparr>)"

section \<open>Layer\<close>

text \<open>
  Modelled from the spec: the base class Layer (Layer.js is not under src/). Its
  constructor fixes the backend from the configuration and starts with no downstream
  consumer and no output; \<open>throwError\<close> raises a ConfigurationError carrying the text it
  is given.
\<close>

record Layer =
  layerClass :: string
  gpu :: bool
  outbound :: "string option list"
  layerOutput :: "ref option"

definition Layer_new :: "bool \<Rightarrow> Layer" where
  "Layer_new g = \<lparr> layerClass = ''Layer'', gpu = g, outbound = [], layerOutput = None \<rparr>"

definition throwError :: "string \<Rightarrow> error" where
  "throwError message = ConfigurationError message"

section \<open>Activation\<close>

record 'a Activation = Layer +
  activation :: string
  activationFunc :: "('a Tensor \<Rightarrow> 'a Tensor) option"
  program :: "program option"

record Activation_attrs =
  attrs_activation :: "string option"
  attrs_gpu :: bool

definition Activation_new ::
  "'a env \<Rightarrow> Activation_attrs \<Rightarrow> 'a world \<Rightarrow> error + ('a Activation \<times> 'a world)" where
  "Activation_new E attrs \<sigma> =
    (let base = (Layer_new (attrs_gpu attrs))\<lparr> layerClass := ''Activation'' \<rparr>;
         a = (case attrs_activation attrs of None \<Rightarrow> ''linear'' | Some n \<Rightarrow> n);
         this = Layer.extend base (Activation.fields a (activations E a) None)
     in if gpu this then
          (case shaders E (activation this) of
             None \<Rightarrow> Inl (ModuleNotFound (activation this))
           | Some src \<Rightarrow>
               (let (p, \<sigma>1) = compileProgram src \<sigma>
                in Inr (this\<lparr> program := Some p \<rparr>, \<sigma>1)))
        else Inr (this, \<sigma>))"

text \<open>
  \<open>_callCPU\<close>: the output is a new tensor holding a copy of the input's buffer with the
  input's shape; the catalog function is then applied to that tensor. Calling an
  \<open>activationFunc\<close> that is \<open>undefined\<close> is a TypeError.
\<close>

definition Activation_callCPU ::
  "'a::zero Activation \<Rightarrow> ref \<Rightarrow> 'a world \<Rightarrow> error + ('a Activation \<times> 'a world)" where
  "Activation_callCPU this x \<sigma> =
    (let xt = heap \<sigma> ! x;
         (out, \<sigma>1) = alloc (new_Tensor (data (tensor xt)) (shape (tensor xt))) \<sigma>;
         this1 = this\<lparr> layerOutput := Some out \<rparr>
     in case activationFunc this1 of
          None \<Rightarrow> Inl (TypeError ''this.activationFunc is not a function'')
        | Some f \<Rightarrow>
            Inr (this1,
                 emit (ApplyActivation (activation this1))
                   (\<sigma>1\<lparr> heap := (heap \<sigma>1)[out := f (heap \<sigma>1 ! out)] \<rparr>)))"

text \<open>
  \<open>_callGPU\<close>, lines 74 to 80: the layout flags of the input, carried over to the new
  output.
\<close>

definition Activation_copyLayout :: "ref \<Rightarrow> ref \<Rightarrow> 'a world \<Rightarrow> 'a world" where
  "Activation_copyLayout x out \<sigma> =
    (let xt = heap \<sigma> ! x;
         ot = heap \<sigma> ! out
     in if is1D xt then \<sigma>\<lparr> heap := (heap \<sigma>)[out := ot\<lparr> is1D := is1D xt \<rparr>] \<rparr>
        else if is2DReshaped xt then
          \<sigma>\<lparr> heap := (heap \<sigma>)[out := ot\<lparr> is2DReshaped := is2DReshaped xt,
                                          originalShape := originalShape xt,
                                          indicesForReshaped := indicesForReshaped xt \<rparr>] \<rparr>
        else \<sigma>)"

text \<open>
  \<open>_callGPU\<close>, lines 71 to 81: the output tensor and its device allocation, created
  only when the layer has no output yet. The result names the output in either case.
\<close>

definition Activation_createOutput ::
  "'a::zero Activation \<Rightarrow> ref \<Rightarrow> 'a world \<Rightarrow> error + (ref \<times> 'a Activation \<times> 'a world)" where
  "Activation_createOutput this x \<sigma> =
    (case layerOutput this of
       Some out \<Rightarrow> Inr (out, this, \<sigma>)
     | None \<Rightarrow>
         (case glTextureShape (heap \<sigma> ! x) of
            None \<Rightarrow> Inl (TypeError ''shape is undefined'')
          | Some s \<Rightarrow>
              (let (out, \<sigma>1) = alloc (new_Tensor [] s) \<sigma>;
                   \<sigma>2 = createGLTexture out \<sigma>1;
                   \<sigma>3 = Activation_copyLayout x out \<sigma>2
               in Inr (out, this\<lparr> layerOutput := Some out \<rparr>, \<sigma>3))))"

text \<open>
  \<open>_callGPU\<close>: the input gets a device allocation if it has none; the output is created
  if needed; the program runs into the output's allocation; and only a layer without
  outbound nodes reads the result back and, on an output flagged \<open>is2DReshaped\<close>, calls
  \<open>reshapeFrom2D\<close>.
\<close>

definition Activation_callGPU ::
  "'a::zero env \<Rightarrow> 'a Activation \<Rightarrow> ref \<Rightarrow> 'a world \<Rightarrow> error + ('a Activation \<times> 'a world)" where
  "Activation_callGPU E this x \<sigma> =
    (let \<sigma>1 = (if glTexture (heap \<sigma> ! x) = None then createGLTexture x \<sigma> else \<sigma>)
     in bindE (Activation_createOutput this x \<sigma>1) (\<lambda>(out, this1, \<sigma>2).
          let \<sigma>3 = runProgram E (program this1) (glTexture (heap \<sigma>2 ! out))
                     [(''x'', glTexture (heap \<sigma>2 ! x))] [] \<sigma>2
          in if outbound this1 = [] then
               (let \<sigma>4 = transferFromGLTexture out \<sigma>3
                in if is2DReshaped (heap \<sigma>4 ! out) then
                     bindE (reshapeFrom2D E out \<sigma>4) (\<lambda>\<sigma>5. Inr (this1, \<sigma>5))
                   else Inr (this1, \<sigma>4))
             else Inr (this1, \<sigma>3)))"

text \<open>
  \<open>call\<close>: the name \<open>linear\<close> hands the input back; any other name dispatches on the
  backend chosen at construction. The result is \<open>this.output\<close>.
\<close>

definition Activation_call ::
  "'a::zero env \<Rightarrow> 'a Activation \<Rightarrow> ref \<Rightarrow> 'a world
     \<Rightarrow> error + (ref option \<times> 'a Activation \<times> 'a world)" where
  "Activation_call E this x \<sigma> =
    (if activation this = ''linear'' then
       (let this1 = this\<lparr> layerOutput := Some x \<rparr> in Inr (layerOutput this1, this1, \<sigma>))
     else
       bindE (if gpu this then Activation_callGPU E this x \<sigma> else Activation_callCPU this x \<sigma>)
         (\<lambda>(this1, \<sigma>1). Inr (layerOutput this1, this1, \<sigma>1)))"

section \<open>The layer catalog\<close>

text \<open>
  The wrapper instantiates \<open>layers[layer.class_name]\<close> and afterwards uses four things of
  the object it got: \<open>call\<close>, \<open>_callGPU\<close>, the field \<open>output\<close> (read) and the field
  \<open>outbound\<close> (assigned). A class of the catalog is this method table over the state
  \<open>'w\<close> of its instances; its constructor takes the configuration and the \<open>gpu\<close> flag
  that \<open>Object.assign({}, layer.config, { gpu: attrs.gpu })\<close> puts over it.
\<close>

record ('a, 'c, 'w) layer_class =
  construct :: "'c \<Rightarrow> bool \<Rightarrow> 'a world \<Rightarrow> error + ('w \<times> 'a world)"
  call_method :: "'w \<Rightarrow> ref \<Rightarrow> 'a world \<Rightarrow> error + (ref option \<times> 'w \<times> 'a world)"
  callGPU_method :: "'w \<Rightarrow> ref \<Rightarrow> 'a world \<Rightarrow> error + ('w \<times> 'a world)"
  get_output :: "'w \<Rightarrow> ref option"
  set_outbound :: "string option list \<Rightarrow> 'w \<Rightarrow> 'w"

definition Activation_class ::
  "'a::zero env \<Rightarrow> ('a, Activation_attrs, 'a Activation) layer_class" where
  "Activation_class E =
     \<lparr> construct = (\<lambda>cfg g. Activation_new E (cfg\<lparr> attrs_gpu := g \<rparr>)),
       call_method = Activation_call E,
       callGPU_method = Activation_callGPU E,
       get_output = layerOutput,
       set_outbound = (\<lambda>ob w. w\<lparr> outbound := ob \<rparr>) \<rparr>"

section \<open>ndarray: pick and assign\<close>

text \<open>
  \<open>a.pick(i, null, ..., null)\<close> is the view of slice \<open>i\<close> along axis 0 of a row-major
  array; \<open>ops.assign(dest, src)\<close> copies \<open>src\<close> over \<open>dest\<close> cell by cell. \<open>pick\<close>
  gives the content of the view, \<open>assign_pick\<close> is an assignment through the view.
\<close>

definition pick :: "'e ndarray \<Rightarrow> nat \<Rightarrow> error + 'e ndarray" where
  "pick a i =
    (case shape a of
       [] \<Rightarrow> Inl (Unmodelled ''pick on rank 0'')
     | n # s \<Rightarrow>
         if i < n \<and> (i + 1) * prod_list s \<le> length (data a)
         then Inr \<lparr> data = take (prod_list s) (drop (i * prod_list s) (data a)), shape = s \<rparr>
         else Inl (Unmodelled ''pick out of range''))"

definition assign :: "'e ndarray \<Rightarrow> 'e ndarray \<Rightarrow> error + 'e ndarray" where
  "assign dest src =
    (if shape dest = shape src \<and> length (data dest) = length (data src)
     then Inr (dest\<lparr> data := data src \<rparr>)
     else Inl (Unmodelled ''ops.assign on different shapes''))"

definition assign_pick :: "'e ndarray \<Rightarrow> nat \<Rightarrow> 'e ndarray \<Rightarrow> error + 'e ndarray" where
  "assign_pick dest i src =
    bindE (pick dest i) (\<lambda>v.
    bindE (assign v src) (\<lambda>v1.
      let n = length (data v1)
      in Inr (dest\<lparr> data := take (i * n) (data dest) @ data v1 @ drop ((i + 1) * n) (data dest) \<rparr>)))"

fun for_loop :: "nat list \<Rightarrow> (nat \<Rightarrow> 's \<Rightarrow> error + 's) \<Rightarrow> 's \<Rightarrow> error + 's" where
  "for_loop [] body s = Inr s"
| "for_loop (i # is) body s =
     (case body i s of Inl e \<Rightarrow> Inl e | Inr s1 \<Rightarrow> for_loop is body s1)"

section \<open>TimeDistributed\<close>

text \<open>
  The wrapper's fields. \<open>wrappedClass\<close> is the method table of the wrapped object.
  \<open>wrappedCalls\<close> is not a field of the source: it counts the calls of
  \<open>this.wrappedLayer.call\<close> and \<open>this.wrappedLayer._callGPU\<close> made so far. The
  index-map tensors are Int32 tensors that only the wrapper holds, kept by value.
\<close>

record ('a, 'c, 'w) TimeDistributed = Layer +
  wrappedClass :: "('a, 'c, 'w) layer_class"
  wrappedLayer :: 'w
  wrappedCalls :: nat
  copyTextureProgram :: "program option"
  mapInputProgram :: "program option"
  selectSliceProgram :: "program option"
  copySliceOutputProgram :: "program option"
  mapSliceOutputProgram :: "program option"
  rowIndexMaps :: "int Tensor list option"
  colIndexMaps :: "int Tensor list option"
  outputRowIndexMaps :: "int Tensor list option"
  outputColIndexMaps :: "int Tensor list option"
  inputShape :: "nat list option"
  outputShape :: "nat list option"
  slice :: "ref option"
  sliceOutput :: "ref option"
  outputCopy :: "ref option"

record 'c layer_spec =
  class_name :: string
  config :: 'c

record 'c TimeDistributed_attrs =
  attrs_layer :: "'c layer_spec option"
  attrs_td_gpu :: bool

definition TimeDistributed_new ::
  "(string \<Rightarrow> ('a, 'c, 'w) layer_class option) \<Rightarrow> 'c TimeDistributed_attrs \<Rightarrow> 'a world
     \<Rightarrow> error + (('a, 'c, 'w) TimeDistributed \<times> 'a world)" where
  "TimeDistributed_new layers attrs \<sigma> =
    (let base = (Layer_new (attrs_td_gpu attrs))\<lparr> layerClass := ''TimeDistributed'' \<rparr>
     in case attrs_layer attrs of
          None \<Rightarrow> Inl (throwError ''wrapped layer is undefined.'')
        | Some l \<Rightarrow>
            (case layers (class_name l) of
               None \<Rightarrow> Inl (TypeError ''layers[layer.class_name] is not a constructor'')
             | Some W \<Rightarrow>
                 bindE (construct W (config l) (attrs_td_gpu attrs) \<sigma>) (\<lambda>(w, \<sigma>1).
                   let this = Layer.extend base
                         (TimeDistributed.fields W (set_outbound W [None] w) 0
                            None None None None None None None None None None None None None None)
                   in if gpu this then
                        (let (p1, \<sigma>2) = compileProgram ''../../copyTexture.glsl'' \<sigma>1;
                             (p2, \<sigma>3) = compileProgram ''../../mapInput.glsl'' \<sigma>2;
                             (p3, \<sigma>4) = compileProgram ''./TimeDistributed.selectSlice.glsl'' \<sigma>3;
                             (p4, \<sigma>5) = compileProgram ''./TimeDistributed.copySliceOutput.glsl'' \<sigma>4;
                             (p5, \<sigma>6) = compileProgram ''./TimeDistributed.mapSliceOutput.glsl'' \<sigma>5
                         in Inr (this\<lparr> copyTextureProgram := Some p1,
                                      mapInputProgram := Some p2,
                                      selectSliceProgram := Some p3,
                                      copySliceOutputProgram := Some p4,
                                      mapSliceOutputProgram := Some p5 \<rparr>, \<sigma>6))
                      else Inr (this, \<sigma>1))))"

subsection \<open>The CPU path\<close>

text \<open>
  One call of \<open>this.wrappedLayer.call(step)\<close>, counted. The result \<open>stepOutput\<close> is
  dereferenced right after, a TypeError when the wrapped layer returned \<open>undefined\<close>.
\<close>

definition TimeDistributed_callWrapped ::
  "('a, 'c, 'w) TimeDistributed \<Rightarrow> ref \<Rightarrow> 'a world
     \<Rightarrow> error + (ref \<times> ('a, 'c, 'w) TimeDistributed \<times> 'a world)" where
  "TimeDistributed_callWrapped this step \<sigma> =
    bindE (call_method (wrappedClass this) (wrappedLayer this) step \<sigma>) (\<lambda>(r, w1, \<sigma>1).
      let this1 = this\<lparr> wrappedLayer := w1, wrappedCalls := wrappedCalls this + 1 \<rparr>
      in case r of
           None \<Rightarrow> Inl (TypeError ''stepOutput is undefined'')
         | Some stepOutput \<Rightarrow> Inr (stepOutput, this1, \<sigma>1))"

text \<open>
  \<open>ops.assign(step.tensor, x.tensor.pick(i, ...))\<close> and
  \<open>ops.assign(this.output.tensor.pick(i, ...), stepOutput.tensor)\<close> on the store.
\<close>

definition assign_step :: "ref \<Rightarrow> ref \<Rightarrow> nat \<Rightarrow> 'a world \<Rightarrow> error + 'a world" where
  "assign_step step x i \<sigma> =
    bindE (pick (tensor (heap \<sigma> ! x)) i) (\<lambda>v.
    bindE (assign (tensor (heap \<sigma> ! step)) v) (\<lambda>st.
      Inr (\<sigma>\<lparr> heap := (heap \<sigma>)[step := (heap \<sigma> ! step)\<lparr> tensor := st \<rparr>] \<rparr>)))"

definition assign_output :: "ref \<Rightarrow> nat \<Rightarrow> ref \<Rightarrow> 'a world \<Rightarrow> error + 'a world" where
  "assign_output out i stepOutput \<sigma> =
    bindE (assign_pick (tensor (heap \<sigma> ! out)) i (tensor (heap \<sigma> ! stepOutput))) (\<lambda>ot.
      Inr (\<sigma>\<lparr> heap := (heap \<sigma>)[out := (heap \<sigma> ! out)\<lparr> tensor := ot \<rparr>] \<rparr>))"

text \<open>
  \<open>ops.assign(this.output.tensor.pick(i, ...), stepOutput.tensor)\<close>, on the wrapper's
  current output.
\<close>

definition TimeDistributed_writeOutput ::
  "('a, 'c, 'w) TimeDistributed \<Rightarrow> nat \<Rightarrow> ref \<Rightarrow> 'a world \<Rightarrow> error + 'a world" where
  "TimeDistributed_writeOutput this i stepOutput \<sigma> =
    (case layerOutput this of
       None \<Rightarrow> Inl (TypeError ''this.output is undefined'')
     | Some out \<Rightarrow> assign_output out i stepOutput \<sigma>)"

text \<open>
  \<open>_callCPU\<close>, lines 77 and 78: the output of the wrapper, a new tensor of shape
  \<open>[x.tensor.shape[0], ...stepOutputShape]\<close>.
\<close>

definition TimeDistributed_newOutput ::
  "('a::zero, 'c, 'w) TimeDistributed \<Rightarrow> ref \<Rightarrow> ref \<Rightarrow> 'a world
     \<Rightarrow> error + (('a, 'c, 'w) TimeDistributed \<times> 'a world)" where
  "TimeDistributed_newOutput this x stepOutput \<sigma> =
    (let stepOutputShape = shape (tensor (heap \<sigma> ! stepOutput))
     in case shape (tensor (heap \<sigma> ! x)) of
          [] \<Rightarrow> Inl (Unmodelled ''x.tensor.shape[0] is undefined'')
        | timesteps # _ \<Rightarrow>
            (let (out, \<sigma>1) = alloc (new_Tensor [] (timesteps # stepOutputShape)) \<sigma>
             in Inr (this\<lparr> layerOutput := Some out \<rparr>, \<sigma>1)))"

text \<open>The body of the loop of \<open>_callCPU\<close> over the timesteps \<open>1, ..., timesteps - 1\<close>.\<close>

definition TimeDistributed_cpuStep ::
  "ref \<Rightarrow> ref \<Rightarrow> nat \<Rightarrow> ('a, 'c, 'w) TimeDistributed \<times> 'a world
     \<Rightarrow> error + (('a, 'c, 'w) TimeDistributed \<times> 'a world)" where
  "TimeDistributed_cpuStep step x i s =
    (case s of (this, \<sigma>) \<Rightarrow>
       bindE (assign_step step x i \<sigma>) (\<lambda>\<sigma>1.
       bindE (TimeDistributed_callWrapped this step \<sigma>1) (\<lambda>(stepOutput, this1, \<sigma>2).
       bindE (TimeDistributed_writeOutput this1 i stepOutput \<sigma>2) (\<lambda>\<sigma>3.
         Inr (this1, \<sigma>3)))))"

text \<open>
  \<open>_callCPU\<close>. The loop reads its bound \<open>x.tensor.shape[0]\<close> when it starts; a bound
  that is \<open>undefined\<close> lets no iteration run.
\<close>

definition TimeDistributed_callCPU ::
  "('a::zero, 'c, 'w) TimeDistributed \<Rightarrow> ref \<Rightarrow> 'a world
     \<Rightarrow> error + (('a, 'c, 'w) TimeDistributed \<times> 'a world)" where
  "TimeDistributed_callCPU this x \<sigma> =
    (let stepShape = drop 1 (shape (tensor (heap \<sigma> ! x)));
         (step, \<sigma>1) = alloc (new_Tensor [] stepShape) \<sigma>
     in bindE (assign_step step x 0 \<sigma>1) (\<lambda>\<sigma>2.
        bindE (TimeDistributed_callWrapped this step \<sigma>2) (\<lambda>(stepOutput, this1, \<sigma>3).
        bindE (TimeDistributed_newOutput this1 x stepOutput \<sigma>3) (\<lambda>(this2, \<sigma>4).
        bindE (TimeDistributed_writeOutput this2 0 stepOutput \<sigma>4) (\<lambda>\<sigma>5.
          let timesteps = (case shape (tensor (heap \<sigma>5 ! x)) of [] \<Rightarrow> 0 | n # _ \<Rightarrow> n)
          in for_loop [1..<timesteps] (TimeDistributed_cpuStep step x) (this2, \<sigma>5))))))"

subsection \<open>The index maps\<close>

text \<open>
  One Int32 index-map tensor of \<open>_createIndexMap\<close>: slice \<open>t\<close> of the indices of the
  reshaped input, in square layout, with a device allocation of its own.
\<close>

definition make_sliceIndices ::
  "int Tensor \<Rightarrow> nat list \<Rightarrow> nat \<Rightarrow> 'a world \<Rightarrow> error + (int Tensor \<times> 'a world)" where
  "make_sliceIndices indicesT sliceShape t \<sigma> =
    (let sliceIndices = new_Tensor [] sliceShape
     in bindE (pick (tensor indicesT) t) (\<lambda>v.
        bindE (assign (tensor sliceIndices) v) (\<lambda>a.
          Inr (Tensor_createGLTexture Ints
                 (Tensor_reshapeTo2DSquare (sliceIndices\<lparr> tensor := a \<rparr>)) \<sigma>))))"

text \<open>The body of the loop of \<open>_createIndexMap\<close>: the two maps of timestep \<open>t\<close>, pushed.\<close>

definition TimeDistributed_indexMapStep ::
  "int Tensor \<Rightarrow> int Tensor \<Rightarrow> nat list \<Rightarrow> nat \<Rightarrow> ('a, 'c, 'w) TimeDistributed \<times> 'a world
     \<Rightarrow> error + (('a, 'c, 'w) TimeDistributed \<times> 'a world)" where
  "TimeDistributed_indexMapStep indicesRow indicesCol sliceShape t s =
    (case s of (this, \<sigma>) \<Rightarrow>
       bindE (make_sliceIndices indicesRow sliceShape t \<sigma>) (\<lambda>(sliceIndicesRow, \<sigma>1).
       bindE (make_sliceIndices indicesCol sliceShape t \<sigma>1) (\<lambda>(sliceIndicesCol, \<sigma>2).
         Inr (this\<lparr> rowIndexMaps := map_option (\<lambda>l. l @ [sliceIndicesRow]) (rowIndexMaps this),
                    colIndexMaps := map_option (\<lambda>l. l @ [sliceIndicesCol]) (colIndexMaps this) \<rparr>,
              \<sigma>2))))"

definition TimeDistributed_createIndexMap ::
  "('a, 'c, 'w) TimeDistributed \<Rightarrow> indices option \<Rightarrow> 'a world
     \<Rightarrow> error + (('a, 'c, 'w) TimeDistributed \<times> 'a world)" where
  "TimeDistributed_createIndexMap this indicesForReshaped_arg \<sigma> =
    (if rowIndexMaps this \<noteq> None \<and> colIndexMaps this \<noteq> None then Inr (this, \<sigma>)
     else
       (case indicesForReshaped_arg of
          None \<Rightarrow> Inl (TypeError ''indicesForReshaped is undefined'')
        | Some ix \<Rightarrow>
            (let indicesRow = new_Tensor (data (row ix)) (shape (row ix));
                 indicesCol = new_Tensor (data (col ix)) (shape (col ix));
                 this1 = this\<lparr> rowIndexMaps := Some [], colIndexMaps := Some [] \<rparr>
             in case inputShape this1 of
                  None \<Rightarrow> Inl (TypeError ''this.inputShape is undefined'')
                | Some ishape \<Rightarrow>
                    (let timesteps = (case ishape of [] \<Rightarrow> 0 | n # _ \<Rightarrow> n);
                         sliceShape = drop 1 ishape
                     in for_loop [0..<timesteps]
                          (TimeDistributed_indexMapStep indicesRow indicesCol sliceShape)
                          (this1, \<sigma>)))))"

text \<open>
  One Int32 index-map tensor of \<open>_createOutputIndexMap\<close>: a tensor of the output's
  shape filled with \<open>-1\<close>, slice \<open>t\<close> of it overwritten with the indices of the slice
  output, in square layout, with a device allocation of its own.
\<close>

definition make_outputIndices ::
  "int Tensor \<Rightarrow> nat list \<Rightarrow> nat \<Rightarrow> 'a world \<Rightarrow> error + (int Tensor \<times> 'a world)" where
  "make_outputIndices outputSliceIndices oshape t \<sigma> =
    (let outputIndices = new_Tensor [] oshape;
         filled = (tensor outputIndices)
                    \<lparr> data := replicate (length (data (tensor outputIndices))) (- 1) \<rparr>
     in bindE (assign_pick filled t (tensor outputSliceIndices)) (\<lambda>a.
          Inr (Tensor_createGLTexture Ints
                 (Tensor_reshapeTo2DSquare (outputIndices\<lparr> tensor := a \<rparr>)) \<sigma>)))"

text \<open>The body of the loop of \<open>_createOutputIndexMap\<close>.\<close>

definition TimeDistributed_outputIndexMapStep ::
  "int Tensor \<Rightarrow> int Tensor \<Rightarrow> nat list \<Rightarrow> nat \<Rightarrow> ('a, 'c, 'w) TimeDistributed \<times> 'a world
     \<Rightarrow> error + (('a, 'c, 'w) TimeDistributed \<times> 'a world)" where
  "TimeDistributed_outputIndexMapStep outputSliceIndicesRow outputSliceIndicesCol oshape t s =
    (case s of (this, \<sigma>) \<Rightarrow>
       bindE (make_outputIndices outputSliceIndicesRow oshape t \<sigma>) (\<lambda>(outputIndicesRow, \<sigma>1).
       bindE (make_outputIndices outputSliceIndicesCol oshape t \<sigma>1) (\<lambda>(outputIndicesCol, \<sigma>2).
         Inr (this\<lparr> outputRowIndexMaps :=
                      map_option (\<lambda>l. l @ [outputIndicesRow]) (outputRowIndexMaps this),
                    outputColIndexMaps :=
                      map_option (\<lambda>l. l @ [outputIndicesCol]) (outputColIndexMaps this) \<rparr>,
              \<sigma>2))))"

definition TimeDistributed_createOutputIndexMap ::
  "('a, 'c, 'w) TimeDistributed \<Rightarrow> indices option \<Rightarrow> 'a world
     \<Rightarrow> error + (('a, 'c, 'w) TimeDistributed \<times> 'a world)" where
  "TimeDistributed_createOutputIndexMap this indicesForReshaped_arg \<sigma> =
    (if outputRowIndexMaps this \<noteq> None \<and> outputColIndexMaps this \<noteq> None then Inr (this, \<sigma>)
     else
       (case indicesForReshaped_arg of
          None \<Rightarrow> Inl (TypeError ''indicesForReshaped is undefined'')
        | Some ix \<Rightarrow>
            (let outputSliceIndicesRow = new_Tensor (data (row ix)) (shape (row ix));
                 outputSliceIndicesCol = new_Tensor (data (col ix)) (shape (col ix));
                 this1 = this\<lparr> outputRowIndexMaps := Some [], outputColIndexMaps := Some [] \<rparr>
             in case outputShape this1 of
                  None \<Rightarrow> Inl (TypeError ''this.outputShape is undefined'')
                | Some oshape \<Rightarrow>
                    (let timesteps = (case oshape of [] \<Rightarrow> 0 | n # _ \<Rightarrow> n)
                     in for_loop [0..<timesteps]
                          (TimeDistributed_outputIndexMapStep
                             outputSliceIndicesRow outputSliceIndicesCol oshape)
                          (this1, \<sigma>)))))"

subsection \<open>The device path\<close>

text \<open>
  The blocks that \<open>_callGPU\<close> runs for timestep 0 and again inside its loop. Reading
  \<open>.glTexture\<close> of an index map that is not there is a TypeError.
\<close>

definition indexMapTexture :: "int Tensor list option \<Rightarrow> nat \<Rightarrow> error + nat option" where
  "indexMapTexture maps t =
    (case maps of
       None \<Rightarrow> Inl (TypeError ''index maps are undefined'')
     | Some ms \<Rightarrow>
         if t < length ms then Inr (glTexture (ms ! t))
         else Inl (TypeError ''index map is undefined''))"

definition sliceTexture :: "'a world \<Rightarrow> ref option \<Rightarrow> error + nat option" where
  "sliceTexture \<sigma> r =
    (case r of
       None \<Rightarrow> Inl (TypeError ''tensor is undefined'')
     | Some q \<Rightarrow> Inr (glTexture (heap \<sigma> ! q)))"

definition TimeDistributed_selectSlice ::
  "'a env \<Rightarrow> ('a, 'c, 'w) TimeDistributed \<Rightarrow> nat list \<Rightarrow> ref \<Rightarrow> nat \<Rightarrow> 'a world
     \<Rightarrow> error + 'a world" where
  "TimeDistributed_selectSlice E this ishape x t \<sigma> =
    bindE (sliceTexture \<sigma> (slice this)) (\<lambda>target.
      if length ishape \<le> 2 then
        Inr (runProgram E (selectSliceProgram this) target
               [(''x'', glTexture (heap \<sigma> ! x))] [(''t'', int t)] \<sigma>)
      else
        bindE (indexMapTexture (rowIndexMaps this) t) (\<lambda>rowTex.
        bindE (indexMapTexture (colIndexMaps this) t) (\<lambda>colTex.
          Inr (runProgram E (mapInputProgram this) target
                 [(''x'', glTexture (heap \<sigma> ! x)),
                  (''rowIndexMap'', rowTex),
                  (''colIndexMap'', colTex)] [] \<sigma>))))"

definition TimeDistributed_callWrappedGPU ::
  "('a, 'c, 'w) TimeDistributed \<Rightarrow> 'a world
     \<Rightarrow> error + (('a, 'c, 'w) TimeDistributed \<times> 'a world)" where
  "TimeDistributed_callWrappedGPU this \<sigma> =
    (case slice this of
       None \<Rightarrow> Inl (TypeError ''this.slice is undefined'')
     | Some sl \<Rightarrow>
         bindE (callGPU_method (wrappedClass this) (wrappedLayer this) sl \<sigma>) (\<lambda>(w1, \<sigma>1).
           Inr (this\<lparr> wrappedLayer := w1,
                      wrappedCalls := wrappedCalls this + 1,
                      sliceOutput := get_output (wrappedClass this) w1 \<rparr>, \<sigma>1)))"

definition TimeDistributed_writeSlice ::
  "'a env \<Rightarrow> ('a, 'c, 'w) TimeDistributed \<Rightarrow> nat list \<Rightarrow> nat \<Rightarrow> nat \<Rightarrow> 'a world
     \<Rightarrow> error + 'a world" where
  "TimeDistributed_writeSlice E this ishape t timesteps \<sigma> =
    bindE (sliceTexture \<sigma> (outputCopy this)) (\<lambda>copyTex.
    bindE (sliceTexture \<sigma> (layerOutput this)) (\<lambda>outTex.
      let \<sigma>1 = runProgram E (copyTextureProgram this) copyTex [(''source'', outTex)] [] \<sigma>
      in bindE (sliceTexture \<sigma>1 (sliceOutput this)) (\<lambda>sliceOutTex.
           if length ishape \<le> 2 then
             Inr (runProgram E (copySliceOutputProgram this) outTex
                    [(''outputCopy'', copyTex), (''sliceOutput'', sliceOutTex)]
                    [(''t'', int t), (''timesteps'', int timesteps)] \<sigma>1)
           else
             bindE (indexMapTexture (outputRowIndexMaps this) t) (\<lambda>rowTex.
             bindE (indexMapTexture (outputColIndexMaps this) t) (\<lambda>colTex.
               Inr (runProgram E (mapSliceOutputProgram this) outTex
                      [(''outputCopy'', copyTex), (''sliceOutput'', sliceOutTex),
                       (''rowIndexMap'', rowTex), (''colIndexMap'', colTex)] [] \<sigma>1))))))"

text \<open>
  The block \<open>if (!this.output)\<close>: the output and its scratch copy, created once from the
  first slice output, in square layout with output-side index maps when the input has
  rank above 2.
\<close>

definition TimeDistributed_createOutput ::
  "('a::zero, 'c, 'w) TimeDistributed \<Rightarrow> nat list \<Rightarrow> nat \<Rightarrow> 'a world
     \<Rightarrow> error + (('a, 'c, 'w) TimeDistributed \<times> 'a world)" where
  "TimeDistributed_createOutput this ishape timesteps \<sigma> =
    (if layerOutput this \<noteq> None then Inr (this, \<sigma>)
     else
       (case sliceOutput this of
          None \<Rightarrow> Inl (TypeError ''this.sliceOutput is undefined'')
        | Some so \<Rightarrow>
            if length ishape \<le> 2 then
              (case glTextureShape (heap \<sigma> ! so) of
                 None \<Rightarrow> Inl (TypeError ''glTextureShape is undefined'')
               | Some gs \<Rightarrow>
                   if length gs < 2 then Inl (Unmodelled ''glTextureShape[1] is undefined'')
                   else
                     (let oshape = [timesteps, gs ! 1];
                          (out, \<sigma>1) = alloc (new_Tensor [] oshape) \<sigma>;
                          (cp, \<sigma>2) = alloc (new_Tensor [] oshape) \<sigma>1;
                          \<sigma>3 = createGLTexture out \<sigma>2;
                          \<sigma>4 = createGLTexture cp \<sigma>3
                      in Inr (this\<lparr> layerOutput := Some out, outputShape := Some oshape,
                                   outputCopy := Some cp \<rparr>, \<sigma>4)))
            else
              (case originalShape (heap \<sigma> ! so) of
                 None \<Rightarrow> Inl (TypeError ''originalShape is not iterable'')
               | Some os \<Rightarrow>
                   (let oshape = timesteps # os;
                        (out, \<sigma>1) = alloc (new_Tensor [] oshape) \<sigma>;
                        (cp, \<sigma>2) = alloc (new_Tensor [] oshape) \<sigma>1;
                        \<sigma>3 = reshapeTo2DSquare out \<sigma>2;
                        \<sigma>4 = reshapeTo2DSquare cp \<sigma>3;
                        \<sigma>5 = createGLTexture out \<sigma>4;
                        \<sigma>6 = createGLTexture cp \<sigma>5
                    in TimeDistributed_createOutputIndexMap
                         (this\<lparr> layerOutput := Some out, outputShape := Some oshape,
                               outputCopy := Some cp \<rparr>)
                         (indicesForReshaped (heap \<sigma>6 ! so)) \<sigma>6))))"

text \<open>
  \<open>_callGPU\<close>, lines 163 to 193: the input shape, the input's device allocation
  (lines 169 to 176), the input-side index maps and the slice tensor (lines 185 to 193).
\<close>

definition TimeDistributed_inputTexture :: "ref \<Rightarrow> 'a::zero world \<Rightarrow> 'a world" where
  "TimeDistributed_inputTexture x \<sigma> =
    (let xt = heap \<sigma> ! x
     in if glTexture xt = None then
          (if length (shape (tensor xt)) \<le> 2 then createGLTexture x \<sigma>
           else if \<not> is2DReshaped xt then createGLTexture x (reshapeTo2DSquare x \<sigma>)
           else \<sigma>)
        else \<sigma>)"

definition TimeDistributed_createSlice ::
  "('a::zero, 'c, 'w) TimeDistributed \<Rightarrow> nat list \<Rightarrow> 'a world
     \<Rightarrow> ('a, 'c, 'w) TimeDistributed \<times> 'a world" where
  "TimeDistributed_createSlice this sliceShape \<sigma> =
    (if slice this = None then
       (let (sl, \<sigma>1) = alloc (new_Tensor [] sliceShape) \<sigma>;
            \<sigma>2 = (if length sliceShape \<le> 2 then createGLTexture sl \<sigma>1
                  else createGLTexture sl (reshapeTo2DSquare sl \<sigma>1))
        in (this\<lparr> slice := Some sl \<rparr>, \<sigma>2))
     else (this, \<sigma>))"

definition TimeDistributed_prepare ::
  "('a::zero, 'c, 'w) TimeDistributed \<Rightarrow> ref \<Rightarrow> 'a world
     \<Rightarrow> error + (('a, 'c, 'w) TimeDistributed \<times> 'a world)" where
  "TimeDistributed_prepare this x \<sigma> =
    (let xt = heap \<sigma> ! x
     in case (if is2DReshaped xt then originalShape xt else Some (shape (tensor xt))) of
          None \<Rightarrow> Inl (TypeError ''this.inputShape is undefined'')
        | Some ishape \<Rightarrow>
            (let this1 = this\<lparr> inputShape := Some ishape \<rparr>;
                 \<sigma>1 = TimeDistributed_inputTexture x \<sigma>
             in bindE (if length ishape > 2
                       then TimeDistributed_createIndexMap this1
                              (indicesForReshaped (heap \<sigma>1 ! x)) \<sigma>1
                       else Inr (this1, \<sigma>1)) (\<lambda>(this2, \<sigma>2).
                  case ishape of
                    [] \<Rightarrow> Inl (Unmodelled ''timesteps is undefined'')
                  | timesteps # sliceShape \<Rightarrow>
                      Inr (TimeDistributed_createSlice this2 sliceShape \<sigma>2))))"

text \<open>The body of the loop over the timesteps \<open>1, ..., timesteps - 1\<close>, lines 267 to 316.\<close>

definition TimeDistributed_loopBody ::
  "'a env \<Rightarrow> nat list \<Rightarrow> ref \<Rightarrow> nat \<Rightarrow> nat \<Rightarrow> ('a, 'c, 'w) TimeDistributed \<times> 'a world
     \<Rightarrow> error + (('a, 'c, 'w) TimeDistributed \<times> 'a world)" where
  "TimeDistributed_loopBody E ishape x timesteps i s =
    (case s of (this, \<sigma>) \<Rightarrow>
       bindE (TimeDistributed_selectSlice E this ishape x i \<sigma>) (\<lambda>\<sigma>1.
       bindE (TimeDistributed_callWrappedGPU this \<sigma>1) (\<lambda>(this1, \<sigma>2).
       bindE (TimeDistributed_writeSlice E this1 ishape i timesteps \<sigma>2) (\<lambda>\<sigma>3.
         Inr (this1, \<sigma>3)))))"

text \<open>
  Lines 195 to 317: timestep 0, with the creation of the output between the wrapped
  call and the write, then the loop.
\<close>

definition TimeDistributed_steps ::
  "'a::zero env \<Rightarrow> ('a, 'c, 'w) TimeDistributed \<Rightarrow> ref \<Rightarrow> 'a world
     \<Rightarrow> error + (('a, 'c, 'w) TimeDistributed \<times> 'a world)" where
  "TimeDistributed_steps E this x \<sigma> =
    (case inputShape this of
       None \<Rightarrow> Inl (TypeError ''this.inputShape is undefined'')
     | Some ishape \<Rightarrow>
         (case ishape of
            [] \<Rightarrow> Inl (Unmodelled ''timesteps is undefined'')
          | timesteps # sliceShape \<Rightarrow>
              bindE (TimeDistributed_selectSlice E this ishape x 0 \<sigma>) (\<lambda>\<sigma>1.
              bindE (TimeDistributed_callWrappedGPU this \<sigma>1) (\<lambda>(this1, \<sigma>2).
              bindE (TimeDistributed_createOutput this1 ishape timesteps \<sigma>2) (\<lambda>(this2, \<sigma>3).
              bindE (TimeDistributed_writeSlice E this2 ishape 0 timesteps \<sigma>3) (\<lambda>\<sigma>4.
                for_loop [1..<timesteps] (TimeDistributed_loopBody E ishape x timesteps)
                  (this2, \<sigma>4)))))))"

text \<open>
  \<open>_callGPU\<close>: the two blocks above, then the transfer off the device, made only by a
  wrapper without outbound nodes.
\<close>

definition TimeDistributed_callGPU ::
  "'a::zero env \<Rightarrow> ('a, 'c, 'w) TimeDistributed \<Rightarrow> ref \<Rightarrow> 'a world
     \<Rightarrow> error + (('a, 'c, 'w) TimeDistributed \<times> 'a world)" where
  "TimeDistributed_callGPU E this x \<sigma> =
    bindE (TimeDistributed_prepare this x \<sigma>) (\<lambda>(this1, \<sigma>1).
    bindE (TimeDistributed_steps E this1 x \<sigma>1) (\<lambda>(this2, \<sigma>2).
      if outbound this2 = [] then
        (case layerOutput this2 of
           None \<Rightarrow> Inl (TypeError ''this.output is undefined'')
         | Some out \<Rightarrow>
             (let \<sigma>3 = transferFromGLTexture out \<sigma>2
              in if is2DReshaped (heap \<sigma>3 ! out) then
                   bindE (reshapeFrom2DSquare out \<sigma>3) (\<lambda>\<sigma>4. Inr (this2, \<sigma>4))
                 else Inr (this2, \<sigma>3)))
      else Inr (this2, \<sigma>2)))"

definition TimeDistributed_call ::
  "'a::zero env \<Rightarrow> ('a, 'c, 'w) TimeDistributed \<Rightarrow> ref \<Rightarrow> 'a world
     \<Rightarrow> error + (ref option \<times> ('a, 'c, 'w) TimeDistributed \<times> 'a world)" where
  "TimeDistributed_call E this x \<sigma> =
    bindE (if gpu this then TimeDistributed_callGPU E this x \<sigma>
           else TimeDistributed_callCPU this x \<sigma>)
      (\<lambda>(this1, \<sigma>1). Inr (layerOutput this1, this1, \<sigma>1))"

section \<open>Relations between states\<close>

text \<open>
  \<open>on_device \<sigma> \<sigma>'\<close>: the world \<open>\<sigma>'\<close> comes from \<open>\<sigma>\<close> by work that stays on the
  device. The log of \<open>\<sigma>\<close> is extended by events none of which is a transfer off the
  device or the inversion of a reshape, the store has only grown, and every tensor that
  held a device allocation holds the same one.
\<close>

definition on_device :: "'a world \<Rightarrow> 'a world \<Rightarrow> bool" where
  "on_device \<sigma> \<sigma>' \<longleftrightarrow>
     take (length (log \<sigma>)) (log \<sigma>') = log \<sigma>
   \<and> length (log \<sigma>) \<le> length (log \<sigma>')
   \<and> filter offdevice (new_events \<sigma> \<sigma>') = []
   \<and> length (heap \<sigma>) \<le> length (heap \<sigma>')
   \<and> list_all (\<lambda>r. glTexture (heap \<sigma> ! r) \<noteq> None
                    \<longrightarrow> glTexture (heap \<sigma>' ! r) = glTexture (heap \<sigma> ! r))
        [0..<length (heap \<sigma>)]"

text \<open>
  \<open>keeps this this'\<close>: what a wrapper never changes once it is there. The outbound
  nodes, the backend and the class of the wrapped layer are fixed; an output (with its
  scratch copy), a slice, and a pair of index-map collections that exist stay the same.
\<close>

definition keeps ::
  "('a, 'c, 'w) TimeDistributed \<Rightarrow> ('a, 'c, 'w) TimeDistributed \<Rightarrow> bool" where
  "keeps this this' \<longleftrightarrow>
     outbound this' = outbound this
   \<and> gpu this' = gpu this
   \<and> wrappedClass this' = wrappedClass this
   \<and> (layerOutput this \<noteq> None \<longrightarrow>
        layerOutput this' = layerOutput this \<and> outputCopy this' = outputCopy this)
   \<and> (slice this \<noteq> None \<longrightarrow> slice this' = slice this)
   \<and> (rowIndexMaps this \<noteq> None \<and> colIndexMaps this \<noteq> None \<longrightarrow>
        rowIndexMaps this' = rowIndexMaps this \<and> colIndexMaps this' = colIndexMaps this)
   \<and> (outputRowIndexMaps this \<noteq> None \<and> outputColIndexMaps this \<noteq> None \<longrightarrow>
        outputRowIndexMaps this' = outputRowIndexMaps this
        \<and> outputColIndexMaps this' = outputColIndexMaps this)"

text \<open>
  The contract under which a wrapped layer stays resident: as long as its state
  satisfies \<open>I\<close> (for an Activation: its outbound list is not empty), a call of its
  device path that returns keeps \<open>I\<close> and stays on the device.
\<close>

definition stays_resident :: "('a, 'c, 'w) layer_class \<Rightarrow> ('w \<Rightarrow> bool) \<Rightarrow> bool" where
  "stays_resident W I \<longleftrightarrow>
     (\<forall>w sl \<sigma> w1 \<sigma>1.
        I w \<and> callGPU_method W w sl \<sigma> = Inr (w1, \<sigma>1) \<longrightarrow> I w1 \<and> on_device \<sigma> \<sigma>1)"

text \<open>
  \<open>output_resident this \<sigma>\<close>: the output of the layer, if it has one, is a tensor of the
  store that holds a device allocation.
\<close>

definition output_resident :: "'z Layer_scheme \<Rightarrow> 'a world \<Rightarrow> bool" where
  "output_resident this \<sigma> \<longleftrightarrow>
     (case layerOutput this of
        None \<Rightarrow> True
      | Some out \<Rightarrow> out < length (heap \<sigma>) \<and> glTexture (heap \<sigma> ! out) \<noteq> None)"

text \<open>
  \<open>resident_step I (this, \<sigma>) (this', \<sigma>')\<close>: one block of the wrapper's device path.
  The wrapper keeps what it has; and if the wrapped layer stays resident under \<open>I\<close>,
  the block keeps \<open>I\<close>, stays on the device and keeps the output resident.
\<close>

definition resident_step ::
  "('w \<Rightarrow> bool) \<Rightarrow> ('a, 'c, 'w) TimeDistributed \<times> 'a world
     \<Rightarrow> ('a, 'c, 'w) TimeDistributed \<times> 'a world \<Rightarrow> bool" where
  "resident_step I a b \<longleftrightarrow>
     keeps (fst a) (fst b)
   \<and> (stays_resident (wrappedClass (fst a)) I \<and> I (wrappedLayer (fst a))
        \<longrightarrow> I (wrappedLayer (fst b)) \<and> on_device (snd a) (snd b)
            \<and> (output_resident (fst a) (snd a) \<longrightarrow> output_resident (fst b) (snd b)))"

text \<open>
  The terminal policy, in the words of the spec: \<open>terminal_policy ev ob out \<sigma> \<sigma>'\<close>
  relates the world before and after a call on the device path of a layer with
  outbound list \<open>ob\<close> and output \<open>out\<close>, whose inversion method is recorded as the event
  \<open>ev out\<close>. The output holds a device allocation. If \<open>ob\<close> is empty, the call has
  read the output back from the device and then, if and only if the output is flagged
  as reshaped, called the inversion, and nothing else went off the device; the buffer of
  an output that is not reshaped is the device content. If \<open>ob\<close> is not empty, nothing
  went off the device.
\<close>

definition terminal_policy ::
  "(ref \<Rightarrow> event) \<Rightarrow> string option list \<Rightarrow> ref \<Rightarrow> 'a world \<Rightarrow> 'a world \<Rightarrow> bool" where
  "terminal_policy ev ob out \<sigma> \<sigma>' \<longleftrightarrow>
    (let t = heap \<sigma>' ! out
     in out < length (heap \<sigma>')
      \<and> glTexture t \<noteq> None
      \<and> (if ob = [] then
            filter offdevice (new_events \<sigma> \<sigma>')
              = TransferFromGLTexture out # (if is2DReshaped t then [ev out] else [])
          \<and> (case glTexture t of
                None \<Rightarrow> True
              | Some h \<Rightarrow>
                  (case readTexture \<sigma>' h of
                     None \<Rightarrow> True
                   | Some d \<Rightarrow> \<not> is2DReshaped t \<longrightarrow> data (tensor t) = d))
          else filter offdevice (new_events \<sigma> \<sigma>') = []))"

text \<open>
  \<open>square_content out \<sigma>'\<close>: the buffer of \<open>out\<close> is the device content, cut to the cells
  of its shape.
\<close>

definition square_content :: "ref \<Rightarrow> 'a world \<Rightarrow> bool" where
  "square_content out \<sigma>' \<longleftrightarrow>
    (let t = heap \<sigma>' ! out
     in case glTexture t of
          None \<Rightarrow> True
        | Some h \<Rightarrow>
            (case readTexture \<sigma>' h of
               None \<Rightarrow> True
             | Some d \<Rightarrow> data (tensor t) = take (prod_list (shape (tensor t))) d))"

text \<open>
  \<open>restores_original m\<close>: the contract of an inversion method \<open>m\<close> that the source calls
  and that is not available. Whenever \<open>m\<close> returns, it leaves the tensor under its
  retained original shape, with a flat buffer of the size of that shape.
\<close>

definition restores_original :: "('a Tensor \<Rightarrow> error + 'a ndarray) \<Rightarrow> bool" where
  "restores_original m \<longleftrightarrow>
     (\<forall>t a. m t = Inr a
        \<longrightarrow> originalShape t = Some (shape a) \<and> length (data a) = prod_list (shape a))"

text \<open>
  \<open>reshape_frame e out \<sigma> \<sigma>'\<close>: what either inversion, called on \<open>out\<close>, leaves alone. It
  is recorded as the event \<open>e\<close>; the device, the size of the store, and the handle and
  the flag of \<open>out\<close> are as before.
\<close>

definition reshape_frame :: "event \<Rightarrow> ref \<Rightarrow> 'a world \<Rightarrow> 'a world \<Rightarrow> bool" where
  "reshape_frame e out \<sigma> \<sigma>' \<longleftrightarrow>
     log \<sigma>' = log \<sigma> @ [e]
   \<and> textures \<sigma>' = textures \<sigma>
   \<and> length (heap \<sigma>') = length (heap \<sigma>)
   \<and> glTexture (heap \<sigma>' ! out) = glTexture (heap \<sigma> ! out)
   \<and> is2DReshaped (heap \<sigma>' ! out) = is2DReshaped (heap \<sigma> ! out)
   \<and> originalShape (heap \<sigma>' ! out) = originalShape (heap \<sigma> ! out)"

text \<open>
  \<open>call_keeps W I\<close>: every call of \<open>call\<close> of a layer of class \<open>W\<close> that returns keeps
  \<open>I\<close>.
\<close>

definition call_keeps :: "('a, 'c, 'w) layer_class \<Rightarrow> ('w \<Rightarrow> bool) \<Rightarrow> bool" where
  "call_keeps W I \<longleftrightarrow>
     (\<forall>w r \<sigma> r1 w1 \<sigma>1. I w \<and> call_method W w r \<sigma> = Inr (r1, w1, \<sigma>1) \<longrightarrow> I w1)"

text \<open>
  \<open>pure_layer W I F\<close>: a layer of class \<open>W\<close> whose state satisfies \<open>I\<close> computes the
  function \<open>F\<close> of the contents of its input. Its \<open>call\<close> on a tensor of the store
  returns a tensor of the store whose contents are \<open>F\<close> of the input's, keeps \<open>I\<close>, and
  leaves every tensor that existed as it was; inputs of one shape give outputs of one
  shape, and a buffer as long as its shape gives a buffer as long as its shape.
\<close>

definition pure_layer ::
  "('a, 'c, 'w) layer_class \<Rightarrow> ('w \<Rightarrow> bool) \<Rightarrow> ('a ndarray \<Rightarrow> 'a ndarray) \<Rightarrow> bool" where
  "pure_layer W I F \<longleftrightarrow>
     (\<forall>w r \<sigma>. I w \<and> r < length (heap \<sigma>) \<longrightarrow>
        (\<exists>r1 w1 \<sigma>1. call_method W w r \<sigma> = Inr (Some r1, w1, \<sigma>1) \<and> I w1
            \<and> r1 < length (heap \<sigma>1)
            \<and> take (length (heap \<sigma>)) (heap \<sigma>1) = heap \<sigma>
            \<and> tensor (heap \<sigma>1 ! r1) = F (tensor (heap \<sigma> ! r))))
   \<and> (\<forall>a b. shape a = shape b \<longrightarrow> shape (F a) = shape (F b))
   \<and> (\<forall>a. length (data a) = prod_list (shape a)
          \<longrightarrow> length (data (F a)) = prod_list (shape (F a)))"

text \<open>
  The invariant of the loop of \<open>_callCPU\<close> before timestep \<open>k\<close>: \<open>X\<close> is the input at
  \<open>x\<close>, of shape \<open>T # s\<close>, \<open>step\<close> the scratch tensor of shape \<open>s\<close>, \<open>out\<close> the output
  of shape \<open>T # so\<close>, and \<open>c\<close> the number of wrapped calls made before the call of the
  wrapper. The slices \<open>0, ..., k - 1\<close> of the output hold \<open>F\<close> of the input's.
\<close>

definition cpu_inv ::
  "('a, 'c, 'w) layer_class \<Rightarrow> ('w \<Rightarrow> bool) \<Rightarrow> ('a ndarray \<Rightarrow> 'a ndarray) \<Rightarrow> 'a Tensor
     \<Rightarrow> nat \<Rightarrow> nat list \<Rightarrow> nat list \<Rightarrow> ref \<Rightarrow> ref \<Rightarrow> ref \<Rightarrow> nat \<Rightarrow> nat
     \<Rightarrow> ('a, 'c, 'w) TimeDistributed \<times> 'a world \<Rightarrow> bool" where
  "cpu_inv W I F X T s so x step out c k st \<longleftrightarrow>
    (case st of (this, \<sigma>) \<Rightarrow>
       wrappedClass this = W \<and> I (wrappedLayer this) \<and> wrappedCalls this = c + k
     \<and> layerOutput this = Some out
     \<and> x < length (heap \<sigma>) \<and> step < length (heap \<sigma>) \<and> out < length (heap \<sigma>)
     \<and> x \<noteq> step \<and> out \<noteq> step \<and> x \<noteq> out
     \<and> heap \<sigma> ! x = X
     \<and> shape (tensor (heap \<sigma> ! step)) = s
     \<and> length (data (tensor (heap \<sigma> ! step))) = prod_list s
     \<and> shape (tensor (heap \<sigma> ! out)) = T # so
     \<and> length (data (tensor (heap \<sigma> ! out))) = T * prod_list so
     \<and> (\<forall>t<k. \<exists>v. pick (tensor X) t = Inr v \<and> pick (tensor (heap \<sigma> ! out)) t = Inr (F v)))"

section \<open>Concrete instances\<close>

text \<open>
  An environment over integer cells: the catalog holds \<open>relu\<close> and \<open>linear\<close>, both with
  a shader source, a device program copies its first input into its target, and
  \<open>reshapeFrom2D\<close> puts a buffer that has the size of the retained shape under that
  shape.
\<close>

definition relu :: "int Tensor \<Rightarrow> int Tensor" where
  "relu t = t\<lparr> tensor := (tensor t)\<lparr> data := map (max 0) (data (tensor t)) \<rparr> \<rparr>"

definition example_env :: "int env" where
  "example_env =
     \<lparr> activations = (\<lambda>n. if n = ''relu'' then Some relu
                            else if n = ''linear'' then Some (\<lambda>t. t) else None),
       shaders = (\<lambda>n. if n = ''relu'' then Some ''relu.glsl''
                        else if n = ''linear'' then Some ''linear.glsl'' else None),
       kernel = (\<lambda>p ins us old. case ins of (n, Some c) # _ \<Rightarrow> c | _ \<Rightarrow> old),
       tensor_reshapeFrom2D =
         (\<lambda>t. case originalShape t of
                None \<Rightarrow> Inl (TypeError ''originalShape is undefined'')
              | Some s \<Rightarrow>
                  if length (data (tensor t)) = prod_list s
                  then Inr \<lparr> data = data (tensor t), shape = s \<rparr>
                  else Inl (Unmodelled ''reshapeFrom2D on another layout'')) \<rparr>"

definition empty_world :: "int world" where
  "empty_world = \<lparr> heap = [], textures = [], log = [] \<rparr>"

text \<open>A world holding one tensor of shape \<open>[2, 3]\<close>.\<close>

definition example_world :: "int world" where
  "example_world =
     \<lparr> heap = [new_Tensor [- 1, 2, - 3, 4, 0, 5] [2, 3]], textures = [], log = [] \<rparr>"

definition linear_layer :: "int Activation" where
  "linear_layer =
     \<lparr> layerClass = ''Activation'', gpu = True, outbound = [], layerOutput = None,
       activation = ''linear'', activationFunc = Some (\<lambda>t. t),
       program = Some (Program ''linear.glsl'') \<rparr>"

definition relu_layer :: "int Activation" where
  "relu_layer =
     \<lparr> layerClass = ''Activation'', gpu = False, outbound = [], layerOutput = None,
       activation = ''relu'', activationFunc = Some relu, program = None \<rparr>"

definition bogus_layer :: "int Activation" where
  "bogus_layer =
     \<lparr> layerClass = ''Activation'', gpu = False, outbound = [], layerOutput = None,
       activation = ''bogus'', activationFunc = None, program = None \<rparr>"

text \<open>The catalog of layer classes, holding the Activation class over \<open>example_env\<close>.\<close>

definition example_layers ::
  "string \<Rightarrow> (int, Activation_attrs, int Activation) layer_class option" where
  "example_layers n = (if n = ''Activation'' then Some (Activation_class example_env) else None)"

definition no_layer_attrs :: "Activation_attrs TimeDistributed_attrs" where
  "no_layer_attrs = \<lparr> attrs_layer = None, attrs_td_gpu = False \<rparr>"

definition dense_attrs :: "Activation_attrs TimeDistributed_attrs" where
  "dense_attrs =
     \<lparr> attrs_layer = Some \<lparr> class_name = ''Dense'',
                             config = \<lparr> attrs_activation = None, attrs_gpu = False \<rparr> \<rparr>,
       attrs_td_gpu = False \<rparr>"

text \<open>
  Two Activation layers on the device backend, one inside a graph and one at its end,
  and a wrapper on the device backend around the first, itself at the end of its graph.
\<close>

definition relu_gpu_layer :: "int Activation" where
  "relu_gpu_layer =
     \<lparr> layerClass = ''Activation'', gpu = True, outbound = [None], layerOutput = None,
       activation = ''relu'', activationFunc = Some relu,
       program = Some (Program ''relu.glsl'') \<rparr>"

definition terminal_relu_layer :: "int Activation" where
  "terminal_relu_layer = relu_gpu_layer\<lparr> outbound := [] \<rparr>"

definition example_wrapper :: "(int, Activation_attrs, int Activation) TimeDistributed" where
  "example_wrapper =
     \<lparr> layerClass = ''TimeDistributed'', gpu = True, outbound = [], layerOutput = None,
       wrappedClass = Activation_class example_env,
       wrappedLayer = relu_gpu_layer,
       wrappedCalls = 0,
       copyTextureProgram = Some (Program ''../../copyTexture.glsl''),
       mapInputProgram = Some (Program ''../../mapInput.glsl''),
       selectSliceProgram = Some (Program ''./TimeDistributed.selectSlice.glsl''),
       copySliceOutputProgram = Some (Program ''./TimeDistributed.copySliceOutput.glsl''),
       mapSliceOutputProgram = Some (Program ''./TimeDistributed.mapSliceOutput.glsl''),
       rowIndexMaps = None, colIndexMaps = None,
       outputRowIndexMaps = None, outputColIndexMaps = None,
       inputShape = None, outputShape = None,
       slice = None, sliceOutput = None, outputCopy = None \<rparr>"

text \<open>A world holding two tensors of shape \<open>[2, 1, 1, 2]\<close> with different contents.\<close>

definition video_world :: "int world" where
  "video_world =
     \<lparr> heap = [new_Tensor [- 1, 1, 2, - 2] [2, 1, 1, 2], new_Tensor [3, - 3, 0, 4] [2, 1, 1, 2]],
       textures = [], log = [] \<rparr>"

text \<open>
  A world holding one tensor of original shape \<open>[2, 1, 3]\<close> that is held under the
  two-dimensional shape \<open>[2, 3]\<close> and flagged \<open>is2DReshaped\<close>.
\<close>

definition reshaped_world :: "int world" where
  "reshaped_world =
     \<lparr> heap = [(new_Tensor [- 1, 2, - 3, 4, 0, 5] [2, 3])
                   \<lparr> is2DReshaped := True, originalShape := Some [2, 1, 3] \<rparr>],
       textures = [], log = [] \<rparr>"

definition relu_gpu_attrs :: "Activation_attrs TimeDistributed_attrs" where
  "relu_gpu_attrs =
     \<lparr> attrs_layer = Some \<lparr> class_name = ''Activation'',
                             config = \<lparr> attrs_activation = Some ''relu'', attrs_gpu = False \<rparr> \<rparr>,
       attrs_td_gpu = True \<rparr>"

text \<open>
  A wrapper on the CPU backend around a \<open>relu\<close> Activation, and a world holding one
  tensor of shape \<open>[3, 1, 2]\<close>.
\<close>

definition cpu_wrapper :: "(int, Activation_attrs, int Activation) TimeDistributed" where
  "cpu_wrapper =
     \<lparr> layerClass = ''TimeDistributed'', gpu = False, outbound = [], layerOutput = None,
       wrappedClass = Activation_class example_env,
       wrappedLayer = relu_layer\<lparr> outbound := [None] \<rparr>,
       wrappedCalls = 0,
       copyTextureProgram = None, mapInputProgram = None, selectSliceProgram = None,
       copySliceOutputProgram = None, mapSliceOutputProgram = None,
       rowIndexMaps = None, colIndexMaps = None,
       outputRowIndexMaps = None, outputColIndexMaps = None,
       inputShape = None, outputShape = None,
       slice = None, sliceOutput = None, outputCopy = None \<rparr>"

definition clip_world :: "int world" where
  "clip_world =
     \<lparr> heap = [new_Tensor [- 1, 1, 2, - 2, 0, 3] [3, 1, 2]], textures = [], log = [] \<rparr>"

section \<open>Supporting lemmas\<close>


lemma bindE_Inr: "bindE m f = Inr r \<longleftrightarrow> (\<exists>v. m = Inr v \<and> f v = Inr r)"
  by (cases m) (auto simp: bindE_def)

lemma bindE_simps [simp]: "bindE (Inl e) f = Inl e" "bindE (Inr v) f = f v"
  by (simp_all add: bindE_def)

lemma on_device_iff:
  "on_device \<sigma> \<sigma>' \<longleftrightarrow>
     (\<exists>evs. log \<sigma>' = log \<sigma> @ evs \<and> filter offdevice evs = [])
   \<and> length (heap \<sigma>) \<le> length (heap \<sigma>')
   \<and> (\<forall>r < length (heap \<sigma>). glTexture (heap \<sigma> ! r) \<noteq> None
          \<longrightarrow> glTexture (heap \<sigma>' ! r) = glTexture (heap \<sigma> ! r))"
proof -
  have "(take (length (log \<sigma>)) (log \<sigma>') = log \<sigma> \<and> length (log \<sigma>) \<le> length (log \<sigma>')
          \<and> filter offdevice (new_events \<sigma> \<sigma>') = [])
        \<longleftrightarrow> (\<exists>evs. log \<sigma>' = log \<sigma> @ evs \<and> filter offdevice evs = [])"
  proof
    assume a: "take (length (log \<sigma>)) (log \<sigma>') = log \<sigma> \<and> length (log \<sigma>) \<le> length (log \<sigma>')
          \<and> filter offdevice (new_events \<sigma> \<sigma>') = []"
    then have "log \<sigma>' = log \<sigma> @ new_events \<sigma> \<sigma>'"
      unfolding new_events_def by (metis append_take_drop_id)
    with a show "\<exists>evs. log \<sigma>' = log \<sigma> @ evs \<and> filter offdevice evs = []" by blast
  next
    assume "\<exists>evs. log \<sigma>' = log \<sigma> @ evs \<and> filter offdevice evs = []"
    then show "take (length (log \<sigma>)) (log \<sigma>') = log \<sigma> \<and> length (log \<sigma>) \<le> length (log \<sigma>')
          \<and> filter offdevice (new_events \<sigma> \<sigma>') = []"
      by (auto simp: new_events_def)
  qed
  then show ?thesis
    unfolding on_device_def list_all_iff by auto
qed

lemma on_device_refl [simp]: "on_device \<sigma> \<sigma>"
  by (simp add: on_device_iff)

lemma on_device_trans: "on_device \<sigma> \<sigma>1 \<Longrightarrow> on_device \<sigma>1 \<sigma>2 \<Longrightarrow> on_device \<sigma> \<sigma>2"
  unfolding on_device_iff by (elim conjE exE) (auto)

lemma nth_upd: "j < length xs \<Longrightarrow> xs[i := x] ! j = (if i = j then x else xs ! j)"
  by (cases "i < length xs") auto

lemma on_device_alloc: "alloc t \<sigma> = (r, \<sigma>1) \<Longrightarrow> on_device \<sigma> \<sigma>1"
  by (auto simp: on_device_iff alloc_def nth_append)

lemma on_device_createGLTexture:
  "glTexture (heap \<sigma> ! r) = None \<Longrightarrow> on_device \<sigma> (createGLTexture r \<sigma>)"
  by (auto simp: on_device_iff createGLTexture_def Tensor_createGLTexture_def Let_def emit_def nth_upd)

lemma on_device_reshapeTo2DSquare: "on_device \<sigma> (reshapeTo2DSquare r \<sigma>)"
  by (auto simp: on_device_iff reshapeTo2DSquare_def Tensor_reshapeTo2DSquare_def Let_def nth_upd)

lemma on_device_runProgram: "on_device \<sigma> (runProgram E p tg ins us \<sigma>)"
  by (auto simp: on_device_iff runProgram_def Let_def emit_def split: option.splits)

lemma on_device_Tensor_createGLTexture:
  "Tensor_createGLTexture w t \<sigma> = (t1, \<sigma>1) \<Longrightarrow> on_device \<sigma> \<sigma>1"
  by (auto simp: on_device_iff Tensor_createGLTexture_def Let_def emit_def)

lemma for_loop_rel:
  assumes "for_loop is body s = Inr s'"
    and "\<And>i a b. i \<in> set is \<Longrightarrow> body i a = Inr b \<Longrightarrow> R a b"
    and "\<And>a. R a a" and "\<And>a b c. R a b \<Longrightarrow> R b c \<Longrightarrow> R a c"
  shows "R s s'"
  using assms
proof (induction "is" arbitrary: s)
  case Nil then show ?case by simp
next
  case (Cons i "is")
  from Cons.prems(1) obtain s1 where b: "body i s = Inr s1" and r: "for_loop is body s1 = Inr s'"
    by (auto split: sum.splits)
  have "R s s1" using Cons.prems(2) [of i s s1] b by simp
  moreover have "R s1 s'" using Cons.IH [OF r] Cons.prems(2,3,4) by (metis list.set_intros(2))
  ultimately show ?case using Cons.prems(4) by blast
qed

lemma keeps_refl [simp]: "keeps this this"
  by (simp add: keeps_def)

lemma keeps_trans: "keeps a b \<Longrightarrow> keeps b c \<Longrightarrow> keeps a c"
  unfolding keeps_def by (elim conjE) (simp; blast)

subsection \<open>The index maps are built on the device\<close>

lemma make_sliceIndices_on_device:
  "make_sliceIndices T s t \<sigma> = Inr (m, \<sigma>1) \<Longrightarrow> on_device \<sigma> \<sigma>1"
  by (auto simp: make_sliceIndices_def Let_def bindE_Inr dest: on_device_Tensor_createGLTexture)

lemma make_outputIndices_on_device:
  "make_outputIndices T s t \<sigma> = Inr (m, \<sigma>1) \<Longrightarrow> on_device \<sigma> \<sigma>1"
  by (auto simp: make_outputIndices_def Let_def bindE_Inr dest: on_device_Tensor_createGLTexture)



lemma indexMapStep_effect:
  assumes "TimeDistributed_indexMapStep iR iC ss t (this, \<sigma>) = Inr (this1, \<sigma>1)"
  shows "this1\<lparr> rowIndexMaps := None, colIndexMaps := None \<rparr>
           = this\<lparr> rowIndexMaps := None, colIndexMaps := None \<rparr> \<and> on_device \<sigma> \<sigma>1"
  using assms
  by (auto simp: TimeDistributed_indexMapStep_def bindE_Inr
        dest!: make_sliceIndices_on_device intro: on_device_trans)

lemma outputIndexMapStep_effect:
  assumes "TimeDistributed_outputIndexMapStep iR iC os t (this, \<sigma>) = Inr (this1, \<sigma>1)"
  shows "this1\<lparr> outputRowIndexMaps := None, outputColIndexMaps := None \<rparr>
           = this\<lparr> outputRowIndexMaps := None, outputColIndexMaps := None \<rparr> \<and> on_device \<sigma> \<sigma>1"
  using assms
  by (auto simp: TimeDistributed_outputIndexMapStep_def bindE_Inr
        dest!: make_outputIndices_on_device intro: on_device_trans)

lemma indexMap_loop_effect:
  "for_loop ts (TimeDistributed_indexMapStep iR iC ss) (this, \<sigma>) = Inr (this1, \<sigma>1)
   \<Longrightarrow> this1\<lparr> rowIndexMaps := None, colIndexMaps := None \<rparr>
           = this\<lparr> rowIndexMaps := None, colIndexMaps := None \<rparr> \<and> on_device \<sigma> \<sigma>1"
proof (induction ts arbitrary: this \<sigma>)
  case Nil
  then show ?case by simp
next
  case (Cons t ts)
  from Cons.prems obtain this2 \<sigma>2 where
    s: "TimeDistributed_indexMapStep iR iC ss t (this, \<sigma>) = Inr (this2, \<sigma>2)"
    and l: "for_loop ts (TimeDistributed_indexMapStep iR iC ss) (this2, \<sigma>2) = Inr (this1, \<sigma>1)"
    by (auto split: sum.splits)
  from indexMapStep_effect [OF s] Cons.IH [OF l] show ?case
    by (auto intro: on_device_trans)
qed

lemma createIndexMap_effect:
  assumes "TimeDistributed_createIndexMap this ix \<sigma> = Inr (this1, \<sigma>1)"
  shows "this1\<lparr> rowIndexMaps := None, colIndexMaps := None \<rparr>
           = this\<lparr> rowIndexMaps := None, colIndexMaps := None \<rparr> \<and> on_device \<sigma> \<sigma>1
         \<and> (rowIndexMaps this \<noteq> None \<and> colIndexMaps this \<noteq> None \<longrightarrow> this1 = this \<and> \<sigma>1 = \<sigma>)"
proof (cases "rowIndexMaps this \<noteq> None \<and> colIndexMaps this \<noteq> None")
  case True
  with assms have "this1 = this" "\<sigma>1 = \<sigma>"
    by (auto simp: TimeDistributed_createIndexMap_def)
  then show ?thesis by simp
next
  case False
  with assms obtain n iR iC ss where
    loop: "for_loop [0..<n] (TimeDistributed_indexMapStep iR iC ss)
             (this\<lparr> rowIndexMaps := Some [], colIndexMaps := Some [] \<rparr>, \<sigma>) = Inr (this1, \<sigma>1)"
    by (auto simp: TimeDistributed_createIndexMap_def Let_def split: option.splits if_splits)
  from indexMap_loop_effect [OF loop] False show ?thesis by auto
qed

lemma outputIndexMap_loop_effect:
  "for_loop ts (TimeDistributed_outputIndexMapStep iR iC os) (this, \<sigma>) = Inr (this1, \<sigma>1)
   \<Longrightarrow> this1\<lparr> outputRowIndexMaps := None, outputColIndexMaps := None \<rparr>
           = this\<lparr> outputRowIndexMaps := None, outputColIndexMaps := None \<rparr> \<and> on_device \<sigma> \<sigma>1"
proof (induction ts arbitrary: this \<sigma>)
  case Nil
  then show ?case by simp
next
  case (Cons t ts)
  from Cons.prems obtain this2 \<sigma>2 where
    s: "TimeDistributed_outputIndexMapStep iR iC os t (this, \<sigma>) = Inr (this2, \<sigma>2)"
    and l: "for_loop ts (TimeDistributed_outputIndexMapStep iR iC os) (this2, \<sigma>2) = Inr (this1, \<sigma>1)"
    by (auto split: sum.splits)
  from outputIndexMapStep_effect [OF s] Cons.IH [OF l] show ?case
    by (auto intro: on_device_trans)
qed

lemma createOutputIndexMap_effect:
  assumes "TimeDistributed_createOutputIndexMap this ix \<sigma> = Inr (this1, \<sigma>1)"
  shows "this1\<lparr> outputRowIndexMaps := None, outputColIndexMaps := None \<rparr>
           = this\<lparr> outputRowIndexMaps := None, outputColIndexMaps := None \<rparr> \<and> on_device \<sigma> \<sigma>1
         \<and> (outputRowIndexMaps this \<noteq> None \<and> outputColIndexMaps this \<noteq> None \<longrightarrow> this1 = this \<and> \<sigma>1 = \<sigma>)"
proof (cases "outputRowIndexMaps this \<noteq> None \<and> outputColIndexMaps this \<noteq> None")
  case True
  with assms have "this1 = this" "\<sigma>1 = \<sigma>"
    by (auto simp: TimeDistributed_createOutputIndexMap_def)
  then show ?thesis by simp
next
  case False
  with assms obtain n iR iC os where
    loop: "for_loop [0..<n] (TimeDistributed_outputIndexMapStep iR iC os)
             (this\<lparr> outputRowIndexMaps := Some [], outputColIndexMaps := Some [] \<rparr>, \<sigma>) = Inr (this1, \<sigma>1)"
    by (auto simp: TimeDistributed_createOutputIndexMap_def Let_def split: option.splits if_splits)
  from outputIndexMap_loop_effect [OF loop] False show ?thesis by auto
qed

lemma keeps_if_maps_differ:
  "this1\<lparr> rowIndexMaps := None, colIndexMaps := None \<rparr> = this\<lparr> rowIndexMaps := None, colIndexMaps := None \<rparr>
   \<Longrightarrow> rowIndexMaps this \<noteq> None \<and> colIndexMaps this \<noteq> None \<longrightarrow> this1 = this
   \<Longrightarrow> keeps this this1 \<and> wrappedLayer this1 = wrappedLayer this \<and> inputShape this1 = inputShape this
       \<and> sliceOutput this1 = sliceOutput this \<and> layerOutput this1 = layerOutput this \<and> wrappedCalls this1 = wrappedCalls this"
  by (cases this; cases this1) (auto simp: keeps_def)

lemma keeps_if_output_maps_differ:
  "this1\<lparr> outputRowIndexMaps := None, outputColIndexMaps := None \<rparr> = this\<lparr> outputRowIndexMaps := None, outputColIndexMaps := None \<rparr>
   \<Longrightarrow> outputRowIndexMaps this \<noteq> None \<and> outputColIndexMaps this \<noteq> None \<longrightarrow> this1 = this
   \<Longrightarrow> keeps this this1 \<and> wrappedLayer this1 = wrappedLayer this \<and> inputShape this1 = inputShape this
       \<and> sliceOutput this1 = sliceOutput this \<and> layerOutput this1 = layerOutput this \<and> wrappedCalls this1 = wrappedCalls this"
  by (cases this; cases this1) (auto simp: keeps_def)

subsection \<open>Effects of the tensor methods\<close>

lemma length_heap_createGLTexture [simp]: "length (heap (createGLTexture r \<sigma>)) = length (heap \<sigma>)"
  by (simp add: createGLTexture_def Tensor_createGLTexture_def Let_def emit_def)

lemma length_heap_reshapeTo2DSquare [simp]: "length (heap (reshapeTo2DSquare r \<sigma>)) = length (heap \<sigma>)"
  by (simp add: reshapeTo2DSquare_def)

lemma glTexture_createGLTexture:
  "r < length (heap \<sigma>) \<Longrightarrow> glTexture (heap (createGLTexture r \<sigma>) ! r) = Some (length (textures \<sigma>))"
  by (simp add: createGLTexture_def Tensor_createGLTexture_def Let_def emit_def)

lemma glTexture_createGLTexture_other:
  "q \<noteq> r \<Longrightarrow> heap (createGLTexture r \<sigma>) ! q = heap \<sigma> ! q"
  by (simp add: createGLTexture_def Tensor_createGLTexture_def Let_def emit_def)

lemma glTexture_reshapeTo2DSquare [simp]:
  "glTexture (heap (reshapeTo2DSquare r \<sigma>) ! q) = glTexture (heap \<sigma> ! q)"
  by (cases "r < length (heap \<sigma>)"; cases "q = r")
     (simp_all add: reshapeTo2DSquare_def Tensor_reshapeTo2DSquare_def Let_def list_update_beyond)

lemma heap_runProgram [simp]: "heap (runProgram E p tg ins us \<sigma>) = heap \<sigma>"
  by (simp add: runProgram_def Let_def emit_def split: option.splits)

lemma alloc_effect:
  "alloc t \<sigma> = (r, \<sigma>1) \<Longrightarrow> r = length (heap \<sigma>) \<and> heap \<sigma>1 = heap \<sigma> @ [t] \<and> textures \<sigma>1 = textures \<sigma> \<and> log \<sigma>1 = log \<sigma>"
  by (auto simp: alloc_def)

lemma glTexture_new_Tensor [simp]: "glTexture (new_Tensor d s) = None"
  by (simp add: new_Tensor_def)

text \<open>A new tensor, optionally reshaped, then given a device allocation.\<close>

lemma new_resident:
  assumes "alloc (new_Tensor d s) \<sigma> = (r, \<sigma>1)"
  shows "on_device \<sigma> (createGLTexture r \<sigma>1)"
    and "on_device \<sigma> (createGLTexture r (reshapeTo2DSquare r \<sigma>1))"
    and "glTexture (heap (createGLTexture r \<sigma>1) ! r) \<noteq> None"
    and "glTexture (heap (createGLTexture r (reshapeTo2DSquare r \<sigma>1)) ! r) \<noteq> None"
    and "r < length (heap \<sigma>1)"
proof -
  from alloc_effect [OF assms] have r: "r = length (heap \<sigma>)" and h: "heap \<sigma>1 = heap \<sigma> @ [new_Tensor d s]"
    by auto
  have a: "on_device \<sigma> \<sigma>1" using assms by (rule on_device_alloc)
  have n: "glTexture (heap \<sigma>1 ! r) = None" by (simp add: r h)
  show "on_device \<sigma> (createGLTexture r \<sigma>1)"
    by (rule on_device_trans [OF a on_device_createGLTexture [OF n]])
  have "on_device \<sigma>1 (reshapeTo2DSquare r \<sigma>1)" by (rule on_device_reshapeTo2DSquare)
  moreover have "on_device (reshapeTo2DSquare r \<sigma>1) (createGLTexture r (reshapeTo2DSquare r \<sigma>1))"
    by (rule on_device_createGLTexture) (simp add: n)
  ultimately show "on_device \<sigma> (createGLTexture r (reshapeTo2DSquare r \<sigma>1))"
    using a by (blast intro: on_device_trans)
  show "r < length (heap \<sigma>1)" by (simp add: r h)
  then show "glTexture (heap (createGLTexture r \<sigma>1) ! r) \<noteq> None"
    and "glTexture (heap (createGLTexture r (reshapeTo2DSquare r \<sigma>1)) ! r) \<noteq> None"
    by (simp_all add: glTexture_createGLTexture)
qed

lemma output_resident_on_device:
  "output_resident this \<sigma> \<Longrightarrow> on_device \<sigma> \<sigma>1 \<Longrightarrow> layerOutput this1 = layerOutput this
     \<Longrightarrow> output_resident this1 \<sigma>1"
  by (auto simp: output_resident_def on_device_iff split: option.splits)

lemma resident_step_refl: "resident_step I a a"
  by (simp add: resident_step_def)

lemma resident_step_trans:
  assumes "resident_step I a b" "resident_step I b c"
  shows "resident_step I a c"
proof -
  have k: "keeps (fst a) (fst c)" using assms by (auto simp: resident_step_def intro: keeps_trans)
  have w: "wrappedClass (fst b) = wrappedClass (fst a)" using assms by (simp add: resident_step_def keeps_def)
  show ?thesis
    unfolding resident_step_def using k assms w
    by (auto simp: resident_step_def intro: on_device_trans)
qed

text \<open>A block that only touches the world.\<close>

lemma resident_step_world:
  "on_device \<sigma> \<sigma>1 \<Longrightarrow> resident_step I (this, \<sigma>) (this, \<sigma>1)"
  by (auto simp: resident_step_def intro: output_resident_on_device)

lemma selectSlice_on_device:
  "TimeDistributed_selectSlice E this ishape x t \<sigma> = Inr \<sigma>1 \<Longrightarrow> on_device \<sigma> \<sigma>1"
  by (auto simp: TimeDistributed_selectSlice_def bindE_Inr on_device_runProgram split: if_splits)

lemma writeSlice_on_device:
  "TimeDistributed_writeSlice E this ishape t n \<sigma> = Inr \<sigma>1 \<Longrightarrow> on_device \<sigma> \<sigma>1"
  by (auto simp: TimeDistributed_writeSlice_def bindE_Inr Let_def on_device_runProgram split: if_splits
        intro: on_device_trans [OF on_device_runProgram on_device_runProgram])

lemma callWrappedGPU_step:
  assumes "TimeDistributed_callWrappedGPU this \<sigma> = Inr (this1, \<sigma>1)"
  shows "resident_step I (this, \<sigma>) (this1, \<sigma>1)"
proof -
  from assms obtain sl w1 where
    c: "callGPU_method (wrappedClass this) (wrappedLayer this) sl \<sigma> = Inr (w1, \<sigma>1)"
    and t: "this1 = this\<lparr> wrappedLayer := w1, wrappedCalls := wrappedCalls this + 1,
                          sliceOutput := get_output (wrappedClass this) w1 \<rparr>"
    by (auto simp: TimeDistributed_callWrappedGPU_def bindE_Inr split: option.splits)
  have k: "keeps this this1" by (simp add: t keeps_def)
  {
    assume "stays_resident (wrappedClass this) I" "I (wrappedLayer this)"
    with c have "I w1 \<and> on_device \<sigma> \<sigma>1" unfolding stays_resident_def by blast
    then have "I (wrappedLayer this1) \<and> on_device \<sigma> \<sigma>1
       \<and> (output_resident this \<sigma> \<longrightarrow> output_resident this1 \<sigma>1)"
      by (auto simp: t intro: output_resident_on_device)
  }
  with k show ?thesis by (auto simp: resident_step_def)
qed

lemma new_pair_resident:
  assumes a1: "alloc (new_Tensor d s) \<sigma> = (out, \<sigma>1)"
    and a2: "alloc (new_Tensor d' s') \<sigma>1 = (cp, \<sigma>2)"
    and m: "\<sigma>3 = \<sigma>2 \<or> \<sigma>3 = reshapeTo2DSquare cp (reshapeTo2DSquare out \<sigma>2)"
    and f: "\<sigma>4 = createGLTexture cp (createGLTexture out \<sigma>3)"
  shows "on_device \<sigma> \<sigma>4 \<and> out < length (heap \<sigma>4) \<and> glTexture (heap \<sigma>4 ! out) \<noteq> None"
proof -
  from alloc_effect [OF a1] have o: "out = length (heap \<sigma>)" and h1: "heap \<sigma>1 = heap \<sigma> @ [new_Tensor d s]"
    by auto
  from alloc_effect [OF a2] have c: "cp = length (heap \<sigma>1)" and h2: "heap \<sigma>2 = heap \<sigma>1 @ [new_Tensor d' s']"
    by auto
  have ne: "cp \<noteq> out" and lo: "out < length (heap \<sigma>2)" and lc: "cp < length (heap \<sigma>2)"
    by (simp_all add: o c h1 h2)
  have go: "glTexture (heap \<sigma>2 ! out) = None" and gc: "glTexture (heap \<sigma>2 ! cp) = None"
    by (simp_all add: o c h1 h2 nth_append)
  have l3: "length (heap \<sigma>3) = length (heap \<sigma>2)" using m by auto
  have go3: "glTexture (heap \<sigma>3 ! out) = None" and gc3: "glTexture (heap \<sigma>3 ! cp) = None"
    using m go gc by auto
  have d02: "on_device \<sigma> \<sigma>2"
    by (rule on_device_trans [OF on_device_alloc [OF a1] on_device_alloc [OF a2]])
  have d23: "on_device \<sigma>2 \<sigma>3"
    using m by (auto intro: on_device_trans on_device_reshapeTo2DSquare)
  have d34: "on_device \<sigma>3 (createGLTexture out \<sigma>3)"
    by (rule on_device_createGLTexture [OF go3])
  have "glTexture (heap (createGLTexture out \<sigma>3) ! cp) = None"
    using ne gc3 by (simp add: glTexture_createGLTexture_other)
  then have d45: "on_device (createGLTexture out \<sigma>3) \<sigma>4"
    unfolding f by (rule on_device_createGLTexture)
  have "glTexture (heap \<sigma>4 ! out) = glTexture (heap (createGLTexture out \<sigma>3) ! out)"
    unfolding f using ne by (simp add: glTexture_createGLTexture_other)
  also have "\<dots> \<noteq> None" using lo l3 by (simp add: glTexture_createGLTexture)
  finally have g: "glTexture (heap \<sigma>4 ! out) \<noteq> None" .
  have "out < length (heap \<sigma>4)" unfolding f using lo l3 by simp
  with g d02 d23 d34 d45 show ?thesis by (blast intro: on_device_trans)
qed

lemma createOutput_step:
  assumes c: "TimeDistributed_createOutput this ishape n \<sigma> = Inr (this1, \<sigma>1)"
  shows "resident_step I (this, \<sigma>) (this1, \<sigma>1) \<and> layerOutput this1 \<noteq> None"
proof (cases "layerOutput this \<noteq> None")
  case True
  with c have "this1 = this" "\<sigma>1 = \<sigma>" by (auto simp: TimeDistributed_createOutput_def)
  with True show ?thesis by (simp add: resident_step_refl)
next
  case False
  then have none: "layerOutput this = None" by simp
  show ?thesis
  proof (cases "length ishape \<le> 2")
    case True
    with c none obtain so gs out \<sigma>a cp \<sigma>b where
      a1: "alloc (new_Tensor [] [n, gs ! 1]) \<sigma> = (out, \<sigma>a)"
      and a2: "alloc (new_Tensor [] [n, gs ! 1]) \<sigma>a = (cp, \<sigma>b)"
      and s1: "\<sigma>1 = createGLTexture cp (createGLTexture out \<sigma>b)"
      and t1: "this1 = this\<lparr> layerOutput := Some out, outputShape := Some [n, gs ! 1],
                           outputCopy := Some cp \<rparr>"
      by (auto simp: TimeDistributed_createOutput_def Let_def
            split: option.splits if_splits prod.splits)
    from new_pair_resident [OF a1 a2 _ s1]
    have r: "on_device \<sigma> \<sigma>1 \<and> out < length (heap \<sigma>1) \<and> glTexture (heap \<sigma>1 ! out) \<noteq> None"
      by simp
    have k: "keeps this this1" using none by (simp add: t1 keeps_def)
    from r k show ?thesis
      by (auto simp: resident_step_def t1 output_resident_def)
  next
    case False
    with c none obtain so os out \<sigma>a cp \<sigma>b \<sigma>c ix where
      a1: "alloc (new_Tensor [] (n # os)) \<sigma> = (out, \<sigma>a)"
      and a2: "alloc (new_Tensor [] (n # os)) \<sigma>a = (cp, \<sigma>b)"
      and s1: "\<sigma>c = createGLTexture cp (createGLTexture out
                      (reshapeTo2DSquare cp (reshapeTo2DSquare out \<sigma>b)))"
      and m: "TimeDistributed_createOutputIndexMap
                (this\<lparr> layerOutput := Some out, outputShape := Some (n # os),
                       outputCopy := Some cp \<rparr>) ix \<sigma>c = Inr (this1, \<sigma>1)"
      by (auto simp: TimeDistributed_createOutput_def Let_def
            split: option.splits if_splits prod.splits)
    define this0 where "this0 = this\<lparr> layerOutput := Some out, outputShape := Some (n # os),
                       outputCopy := Some cp \<rparr>"
    from new_pair_resident [OF a1 a2 _ s1]
    have r: "on_device \<sigma> \<sigma>c \<and> out < length (heap \<sigma>c) \<and> glTexture (heap \<sigma>c ! out) \<noteq> None"
      by simp
    from createOutputIndexMap_effect [OF m]
    have e: "this1\<lparr> outputRowIndexMaps := None, outputColIndexMaps := None \<rparr>
               = this0\<lparr> outputRowIndexMaps := None, outputColIndexMaps := None \<rparr>"
      and d: "on_device \<sigma>c \<sigma>1"
      and i: "outputRowIndexMaps this0 \<noteq> None \<and> outputColIndexMaps this0 \<noteq> None \<longrightarrow> this1 = this0"
      by (simp_all add: this0_def)
    from keeps_if_output_maps_differ [OF e i]
    have k1: "keeps this0 this1" and w1: "wrappedLayer this1 = wrappedLayer this0"
      and o1: "layerOutput this1 = layerOutput this0" by simp_all
    have k0: "keeps this this0" using none by (simp add: this0_def keeps_def)
    have k: "keeps this this1" by (rule keeps_trans [OF k0 k1])
    have or0: "output_resident this0 \<sigma>c" using r by (simp add: output_resident_def this0_def)
    have or1: "output_resident this1 \<sigma>1" by (rule output_resident_on_device [OF or0 d o1])
    have dd: "on_device \<sigma> \<sigma>1" using r d by (blast intro: on_device_trans)
    show ?thesis
      using k or1 dd w1 o1 by (auto simp: resident_step_def this0_def)
  qed
qed

lemma inputTexture_on_device: "on_device \<sigma> (TimeDistributed_inputTexture x \<sigma>)"
proof -
  have "glTexture (heap \<sigma> ! x) = None \<Longrightarrow> on_device \<sigma> (createGLTexture x (reshapeTo2DSquare x \<sigma>))"
    by (rule on_device_trans [OF on_device_reshapeTo2DSquare on_device_createGLTexture]) simp
  then show ?thesis by (simp add: TimeDistributed_inputTexture_def Let_def on_device_createGLTexture)
qed

lemma createSlice_step:
  assumes "TimeDistributed_createSlice this ss \<sigma> = (this1, \<sigma>1)"
  shows "keeps this this1 \<and> wrappedLayer this1 = wrappedLayer this
        \<and> layerOutput this1 = layerOutput this \<and> on_device \<sigma> \<sigma>1"
proof (cases "slice this = None")
  case True
  with assms obtain sl \<sigma>3 where a: "alloc (new_Tensor [] ss) \<sigma> = (sl, \<sigma>3)"
    and s1: "\<sigma>1 = (if length ss \<le> 2 then createGLTexture sl \<sigma>3
                        else createGLTexture sl (reshapeTo2DSquare sl \<sigma>3))"
    and t1: "this1 = this\<lparr> slice := Some sl \<rparr>"
    by (auto simp: TimeDistributed_createSlice_def Let_def split: prod.splits)
  from new_resident(1,2) [OF a] True show ?thesis
    by (simp add: s1 t1 keeps_def)
next
  case False
  with assms show ?thesis by (simp add: TimeDistributed_createSlice_def)
qed

lemma prepare_step:
  assumes p: "TimeDistributed_prepare this x \<sigma> = Inr (this1, \<sigma>1)"
  shows "resident_step I (this, \<sigma>) (this1, \<sigma>1)"
proof -
  define \<sigma>a where "\<sigma>a = TimeDistributed_inputTexture x \<sigma>"
  have da: "on_device \<sigma> \<sigma>a" unfolding \<sigma>a_def by (rule inputTexture_on_device)
  from p obtain ishape where
    p1: "bindE (if length ishape > 2
                then TimeDistributed_createIndexMap (this\<lparr> inputShape := Some ishape \<rparr>)
                       (indicesForReshaped (heap \<sigma>a ! x)) \<sigma>a
                else Inr (this\<lparr> inputShape := Some ishape \<rparr>, \<sigma>a))
           (\<lambda>(this2, \<sigma>2).
              case ishape of
                [] \<Rightarrow> Inl (Unmodelled ''timesteps is undefined'')
              | timesteps # sliceShape \<Rightarrow> Inr (TimeDistributed_createSlice this2 sliceShape \<sigma>2))
         = Inr (this1, \<sigma>1)"
    unfolding TimeDistributed_prepare_def Let_def \<sigma>a_def
    by (cases "if is2DReshaped (heap \<sigma> ! x) then originalShape (heap \<sigma> ! x)
               else Some (shape (tensor (heap \<sigma> ! x)))") simp_all
  define this0 where "this0 = this\<lparr> inputShape := Some ishape \<rparr>"
  from p1 obtain this2 \<sigma>2 where
    m: "(if length ishape > 2
         then TimeDistributed_createIndexMap this0 (indicesForReshaped (heap \<sigma>a ! x)) \<sigma>a
         else Inr (this0, \<sigma>a)) = Inr (this2, \<sigma>2)"
    and f: "(case ishape of
                [] \<Rightarrow> Inl (Unmodelled ''timesteps is undefined'')
              | timesteps # sliceShape \<Rightarrow> Inr (TimeDistributed_createSlice this2 sliceShape \<sigma>2))
            = Inr (this1, \<sigma>1)"
    unfolding bindE_Inr this0_def by auto
  from f obtain ss where f1: "TimeDistributed_createSlice this2 ss \<sigma>2 = (this1, \<sigma>1)"
    by (cases ishape) simp_all
  have k0: "keeps this this0" and w0: "wrappedLayer this0 = wrappedLayer this"
    and o0: "layerOutput this0 = layerOutput this"
    by (simp_all add: this0_def keeps_def)
  have "keeps this0 this2 \<and> wrappedLayer this2 = wrappedLayer this0
        \<and> layerOutput this2 = layerOutput this0 \<and> on_device \<sigma>a \<sigma>2"
  proof (cases "length ishape > 2")
    case True
    with m have c: "TimeDistributed_createIndexMap this0 (indicesForReshaped (heap \<sigma>a ! x)) \<sigma>a
                      = Inr (this2, \<sigma>2)" by simp
    from createIndexMap_effect [OF c] keeps_if_maps_differ [of this2 this0]
    show ?thesis by simp
  next
    case False
    with m show ?thesis by simp
  qed
  then have k2: "keeps this0 this2" and w2: "wrappedLayer this2 = wrappedLayer this0"
    and o2: "layerOutput this2 = layerOutput this0" and d2: "on_device \<sigma>a \<sigma>2" by simp_all
  from createSlice_step [OF f1]
  have k1: "keeps this2 this1" and w1: "wrappedLayer this1 = wrappedLayer this2"
    and o1: "layerOutput this1 = layerOutput this2" and d1: "on_device \<sigma>2 \<sigma>1" by simp_all
  have k: "keeps this this1" using k0 k2 k1 by (blast intro: keeps_trans)
  have d: "on_device \<sigma> \<sigma>1" using da d2 d1 by (blast intro: on_device_trans)
  have w: "wrappedLayer this1 = wrappedLayer this" using w0 w2 w1 by simp
  have o: "layerOutput this1 = layerOutput this" using o0 o2 o1 by simp
  show ?thesis
    using k d w o by (auto simp: resident_step_def intro: output_resident_on_device)
qed

lemma loopBody_step:
  assumes "TimeDistributed_loopBody E ishape x n i (this, \<sigma>) = Inr (this1, \<sigma>1)"
  shows "resident_step I (this, \<sigma>) (this1, \<sigma>1)"
proof -
  from assms obtain \<sigma>a \<sigma>b where
    s: "TimeDistributed_selectSlice E this ishape x i \<sigma> = Inr \<sigma>a"
    and c: "TimeDistributed_callWrappedGPU this \<sigma>a = Inr (this1, \<sigma>b)"
    and w: "TimeDistributed_writeSlice E this1 ishape i n \<sigma>b = Inr \<sigma>1"
    by (auto simp: TimeDistributed_loopBody_def bindE_Inr)
  have "resident_step I (this, \<sigma>) (this, \<sigma>a)"
    by (rule resident_step_world [OF selectSlice_on_device [OF s]])
  moreover have "resident_step I (this, \<sigma>a) (this1, \<sigma>b)"
    by (rule callWrappedGPU_step [OF c])
  moreover have "resident_step I (this1, \<sigma>b) (this1, \<sigma>1)"
    by (rule resident_step_world [OF writeSlice_on_device [OF w]])
  ultimately show ?thesis by (blast intro: resident_step_trans)
qed

lemma loop_step:
  "for_loop ts (TimeDistributed_loopBody E ishape x n) (this, \<sigma>) = Inr (this1, \<sigma>1)
   \<Longrightarrow> resident_step I (this, \<sigma>) (this1, \<sigma>1)"
proof (induction ts arbitrary: this \<sigma>)
  case Nil
  then show ?case by (simp add: resident_step_refl)
next
  case (Cons t ts)
  from Cons.prems obtain this2 \<sigma>2 where
    s: "TimeDistributed_loopBody E ishape x n t (this, \<sigma>) = Inr (this2, \<sigma>2)"
    and l: "for_loop ts (TimeDistributed_loopBody E ishape x n) (this2, \<sigma>2) = Inr (this1, \<sigma>1)"
    by (auto split: sum.splits)
  from loopBody_step [OF s] Cons.IH [OF l] show ?case
    by (rule resident_step_trans)
qed

lemma steps_step:
  assumes "TimeDistributed_steps E this x \<sigma> = Inr (this1, \<sigma>1)"
  shows "resident_step I (this, \<sigma>) (this1, \<sigma>1) \<and> layerOutput this1 \<noteq> None"
proof -
  from assms obtain ishape n \<sigma>a this2 \<sigma>b this3 \<sigma>c \<sigma>d where
    s: "TimeDistributed_selectSlice E this ishape x 0 \<sigma> = Inr \<sigma>a"
    and c: "TimeDistributed_callWrappedGPU this \<sigma>a = Inr (this2, \<sigma>b)"
    and o: "TimeDistributed_createOutput this2 ishape n \<sigma>b = Inr (this3, \<sigma>c)"
    and w: "TimeDistributed_writeSlice E this3 ishape 0 n \<sigma>c = Inr \<sigma>d"
    and l: "for_loop [1..<n] (TimeDistributed_loopBody E ishape x n) (this3, \<sigma>d) = Inr (this1, \<sigma>1)"
    by (auto simp: TimeDistributed_steps_def bindE_Inr split: option.splits list.splits)
  have 1: "resident_step I (this, \<sigma>) (this, \<sigma>a)"
    by (rule resident_step_world [OF selectSlice_on_device [OF s]])
  have 2: "resident_step I (this, \<sigma>a) (this2, \<sigma>b)"
    by (rule callWrappedGPU_step [OF c])
  from createOutput_step [OF o]
  have 3: "resident_step I (this2, \<sigma>b) (this3, \<sigma>c)" and out: "layerOutput this3 \<noteq> None"
    by simp_all
  have 4: "resident_step I (this3, \<sigma>c) (this3, \<sigma>d)"
    by (rule resident_step_world [OF writeSlice_on_device [OF w]])
  have 5: "resident_step I (this3, \<sigma>d) (this1, \<sigma>1)"
    by (rule loop_step [OF l])
  from 5 out have "layerOutput this1 \<noteq> None"
    by (auto simp: resident_step_def keeps_def)
  moreover have "resident_step I (this, \<sigma>) (this1, \<sigma>1)"
    using 1 2 3 4 5 by (blast intro: resident_step_trans)
  ultimately show ?thesis by simp
qed

subsection \<open>The transfer off the device\<close>

lemma terminal_policy_resident:
  assumes "ob \<noteq> []" "on_device \<sigma> \<sigma>1" "out < length (heap \<sigma>1)" "glTexture (heap \<sigma>1 ! out) \<noteq> None"
  shows "terminal_policy ev ob out \<sigma> \<sigma>1"
  using assms by (auto simp: terminal_policy_def Let_def on_device_def)

lemma transfer_effect:
  assumes "out < length (heap \<sigma>)"
  shows "log (transferFromGLTexture out \<sigma>) = log \<sigma> @ [TransferFromGLTexture out]"
    and "textures (transferFromGLTexture out \<sigma>) = textures \<sigma>"
    and "length (heap (transferFromGLTexture out \<sigma>)) = length (heap \<sigma>)"
    and "glTexture (heap (transferFromGLTexture out \<sigma>) ! out) = glTexture (heap \<sigma> ! out)"
    and "is2DReshaped (heap (transferFromGLTexture out \<sigma>) ! out) = is2DReshaped (heap \<sigma> ! out)"
    and "originalShape (heap (transferFromGLTexture out \<sigma>) ! out) = originalShape (heap \<sigma> ! out)"
    and "glTexture (heap \<sigma> ! out) = Some h \<Longrightarrow> readTexture \<sigma> h = Some d
           \<Longrightarrow> data (tensor (heap (transferFromGLTexture out \<sigma>) ! out)) = d"
  using assms
  by (auto simp: transferFromGLTexture_def Let_def emit_def split: option.splits)

lemma reshapeFrom_effect:
  assumes "reshapeFrom2DSquare out \<sigma> = Inr \<sigma>1" "out < length (heap \<sigma>)"
  shows "reshape_frame (ReshapeFrom2DSquare out) out \<sigma> \<sigma>1"
    and "originalShape (heap \<sigma>1 ! out) = Some (shape (tensor (heap \<sigma>1 ! out)))"
    and "data (tensor (heap \<sigma>1 ! out))
           = take (prod_list (shape (tensor (heap \<sigma>1 ! out)))) (data (tensor (heap \<sigma> ! out)))"
  using assms
  by (auto simp: reshapeFrom2DSquare_def Tensor_reshapeFrom2DSquare_def emit_def reshape_frame_def
        split: option.splits sum.splits)

lemma reshapeFrom2D_effect:
  assumes "reshapeFrom2D E out \<sigma> = Inr \<sigma>1" "out < length (heap \<sigma>)"
  shows "reshape_frame (ReshapeFrom2D out) out \<sigma> \<sigma>1"
    and "tensor_reshapeFrom2D E (heap \<sigma> ! out) = Inr (tensor (heap \<sigma>1 ! out))"
  using assms
  by (auto simp: reshapeFrom2D_def emit_def reshape_frame_def split: sum.splits)

lemma reshapeFrom2D_restores:
  assumes m: "restores_original (tensor_reshapeFrom2D E)"
    and r: "reshapeFrom2D E out \<sigma> = Inr \<sigma>1" and v: "out < length (heap \<sigma>)"
  shows "originalShape (heap \<sigma>1 ! out) = Some (shape (tensor (heap \<sigma>1 ! out)))"
    and "length (data (tensor (heap \<sigma>1 ! out))) = prod_list (shape (tensor (heap \<sigma>1 ! out)))"
proof -
  note e = reshapeFrom2D_effect [OF r v]
  from m e(2) have "originalShape (heap \<sigma> ! out) = Some (shape (tensor (heap \<sigma>1 ! out)))"
    and l: "length (data (tensor (heap \<sigma>1 ! out))) = prod_list (shape (tensor (heap \<sigma>1 ! out)))"
    unfolding restores_original_def by blast+
  with e(1) show "originalShape (heap \<sigma>1 ! out) = Some (shape (tensor (heap \<sigma>1 ! out)))"
    by (simp add: reshape_frame_def)
  from l show "length (data (tensor (heap \<sigma>1 ! out))) = prod_list (shape (tensor (heap \<sigma>1 ! out)))" .
qed

lemma readTexture_cong: "textures \<sigma>1 = textures \<sigma> \<Longrightarrow> readTexture \<sigma>1 h = readTexture \<sigma> h"
  by (simp add: readTexture_def)

text \<open>
  The terminal block of either layer, over its inversion \<open>rf\<close>: the policy holds, and
  a reshaped output comes from the inversion of the tensor that was read back.
\<close>

lemma terminal_policy_transfer:
  assumes d: "on_device \<sigma> \<sigma>5" and v: "out < length (heap \<sigma>5)"
    and g: "glTexture (heap \<sigma>5 ! out) \<noteq> None"
    and t: "(let \<sigma>6 = transferFromGLTexture out \<sigma>5
             in if is2DReshaped (heap \<sigma>6 ! out) then
                  bindE (rf out \<sigma>6) (\<lambda>\<sigma>7. Inr (this, \<sigma>7))
                else Inr (this, \<sigma>6)) = Inr (this1, \<sigma>1)"
    and fr: "\<And>\<sigma>a \<sigma>b. rf out \<sigma>a = Inr \<sigma>b \<Longrightarrow> out < length (heap \<sigma>a)
               \<Longrightarrow> reshape_frame (ev out) out \<sigma>a \<sigma>b"
    and off: "offdevice (ev out)"
  shows "this1 = this \<and> terminal_policy ev [] out \<sigma> \<sigma>1
       \<and> (is2DReshaped (heap \<sigma>1 ! out)
            \<longrightarrow> (\<exists>\<sigma>6. rf out \<sigma>6 = Inr \<sigma>1 \<and> out < length (heap \<sigma>6)
                  \<and> (\<forall>h d. glTexture (heap \<sigma>1 ! out) = Some h \<and> readTexture \<sigma>1 h = Some d
                         \<longrightarrow> data (tensor (heap \<sigma>6 ! out)) = d)))"
proof -
  define \<sigma>6 where "\<sigma>6 = transferFromGLTexture out \<sigma>5"
  note te = transfer_effect [OF v, folded \<sigma>6_def]
  from d obtain evs where l5: "log \<sigma>5 = log \<sigma> @ evs" and f5: "filter offdevice evs = []"
    unfolding on_device_iff by blast
  have v6: "out < length (heap \<sigma>6)" using te(3) v by simp
  show ?thesis
  proof (cases "is2DReshaped (heap \<sigma>6 ! out)")
    case False
    with t have e: "this1 = this" "\<sigma>1 = \<sigma>6" by (simp_all add: \<sigma>6_def Let_def)
    have "new_events \<sigma> \<sigma>1 = evs @ [TransferFromGLTexture out]"
      by (simp add: new_events_def e te(1) l5)
    then show ?thesis
      using False e te v6 g f5
      by (auto simp: terminal_policy_def Let_def readTexture_cong [OF te(2)] split: option.splits)
  next
    case True
    with t have r: "rf out \<sigma>6 = Inr \<sigma>1" and e: "this1 = this"
      by (auto simp: \<sigma>6_def Let_def bindE_Inr)
    from fr [OF r v6] have re: "log \<sigma>1 = log \<sigma>6 @ [ev out]" "textures \<sigma>1 = textures \<sigma>6"
      "length (heap \<sigma>1) = length (heap \<sigma>6)"
      "glTexture (heap \<sigma>1 ! out) = glTexture (heap \<sigma>6 ! out)"
      "is2DReshaped (heap \<sigma>1 ! out) = is2DReshaped (heap \<sigma>6 ! out)"
      by (simp_all add: reshape_frame_def)
    have n: "new_events \<sigma> \<sigma>1 = evs @ [TransferFromGLTexture out, ev out]"
      by (simp add: new_events_def re(1) te(1) l5)
    have tx: "textures \<sigma>1 = textures \<sigma>5" using re(2) te(2) by simp
    have c: "\<forall>h d. glTexture (heap \<sigma>1 ! out) = Some h \<and> readTexture \<sigma>1 h = Some d
            \<longrightarrow> data (tensor (heap \<sigma>6 ! out)) = d"
    proof (intro allI impI)
      fix h d assume "glTexture (heap \<sigma>1 ! out) = Some h \<and> readTexture \<sigma>1 h = Some d"
      then have "glTexture (heap \<sigma>5 ! out) = Some h" "readTexture \<sigma>5 h = Some d"
        using re(4) te(4) readTexture_cong [OF tx] by simp_all
      then show "data (tensor (heap \<sigma>6 ! out)) = d" by (rule te(7))
    qed
    have "terminal_policy ev [] out \<sigma> \<sigma>1"
      using True re(3,4,5) te(4) v6 g f5 n off
      by (auto simp: terminal_policy_def Let_def split: option.splits)
    with e r v6 c show ?thesis by blast
  qed
qed

subsection \<open>The device path of Activation\<close>

lemma copyLayout_effect:
  "on_device \<sigma> (Activation_copyLayout x out \<sigma>)"
  "length (heap (Activation_copyLayout x out \<sigma>)) = length (heap \<sigma>)"
  "glTexture (heap (Activation_copyLayout x out \<sigma>) ! q) = glTexture (heap \<sigma> ! q)"
proof -
  show "on_device \<sigma> (Activation_copyLayout x out \<sigma>)"
    by (auto simp: Activation_copyLayout_def Let_def on_device_iff nth_upd)
  show "length (heap (Activation_copyLayout x out \<sigma>)) = length (heap \<sigma>)"
    by (simp add: Activation_copyLayout_def Let_def)
  show "glTexture (heap (Activation_copyLayout x out \<sigma>) ! q) = glTexture (heap \<sigma> ! q)"
    by (cases "out < length (heap \<sigma>)"; cases "q = out")
       (simp_all add: Activation_copyLayout_def Let_def list_update_beyond)
qed

lemma Activation_createOutput_effect:
  assumes c: "Activation_createOutput this x \<sigma> = Inr (out, this1, \<sigma>1)"
  shows "this1 = this\<lparr> layerOutput := Some out \<rparr> \<and> on_device \<sigma> \<sigma>1
        \<and> (layerOutput this = None \<or> layerOutput this = Some out)
        \<and> (output_resident this \<sigma> \<longrightarrow> out < length (heap \<sigma>1) \<and> glTexture (heap \<sigma>1 ! out) \<noteq> None)"
proof (cases "layerOutput this")
  case (Some q)
  with c have e: "q = out" "this1 = this" "\<sigma>1 = \<sigma>" by (simp_all add: Activation_createOutput_def)
  with Some show ?thesis by (simp add: output_resident_def)
next
  case None
  with c obtain s \<sigma>2 where a: "alloc (new_Tensor [] s) \<sigma> = (out, \<sigma>2)"
    and t1: "this1 = this\<lparr> layerOutput := Some out \<rparr>"
    and s1: "\<sigma>1 = Activation_copyLayout x out (createGLTexture out \<sigma>2)"
    by (auto simp: Activation_createOutput_def Let_def split: option.splits prod.splits)
  note n = new_resident [OF a]
  have "on_device \<sigma> \<sigma>1" unfolding s1
    by (rule on_device_trans [OF n(1) copyLayout_effect(1)])
  then show ?thesis
    using n(3,5) None t1 by (simp add: s1 copyLayout_effect)
qed

lemma Activation_callGPU_split:
  assumes c: "Activation_callGPU E this x \<sigma> = Inr (this1, \<sigma>1)"
  shows "\<exists>out \<sigma>5. on_device \<sigma> \<sigma>5
           \<and> (output_resident this \<sigma> \<longrightarrow> out < length (heap \<sigma>5) \<and> glTexture (heap \<sigma>5 ! out) \<noteq> None)
           \<and> (layerOutput this = None \<or> layerOutput this = Some out)
           \<and> (if outbound this = [] then
                 (let \<sigma>6 = transferFromGLTexture out \<sigma>5
                  in if is2DReshaped (heap \<sigma>6 ! out) then
                       bindE (reshapeFrom2D E out \<sigma>6) (\<lambda>\<sigma>7. Inr (this\<lparr> layerOutput := Some out \<rparr>, \<sigma>7))
                     else Inr (this\<lparr> layerOutput := Some out \<rparr>, \<sigma>6)) = Inr (this1, \<sigma>1)
               else this1 = this\<lparr> layerOutput := Some out \<rparr> \<and> \<sigma>1 = \<sigma>5)"
proof -
  define \<sigma>a where "\<sigma>a = (if glTexture (heap \<sigma> ! x) = None then createGLTexture x \<sigma> else \<sigma>)"
  have da: "on_device \<sigma> \<sigma>a" by (simp add: \<sigma>a_def on_device_createGLTexture)
  have ra: "output_resident this \<sigma> \<Longrightarrow> output_resident this \<sigma>a"
    by (rule output_resident_on_device [OF _ da refl])
  from c obtain out this2 \<sigma>4 where
    o: "Activation_createOutput this x \<sigma>a = Inr (out, this2, \<sigma>4)"
    and f: "(let \<sigma>5 = runProgram E (program this2) (glTexture (heap \<sigma>4 ! out))
                        [(''x'', glTexture (heap \<sigma>4 ! x))] [] \<sigma>4
             in if outbound this2 = [] then
                  (let \<sigma>6 = transferFromGLTexture out \<sigma>5
                   in if is2DReshaped (heap \<sigma>6 ! out) then
                        bindE (reshapeFrom2D E out \<sigma>6) (\<lambda>\<sigma>7. Inr (this2, \<sigma>7))
                      else Inr (this2, \<sigma>6))
                else Inr (this2, \<sigma>5)) = Inr (this1, \<sigma>1)"
    unfolding Activation_callGPU_def Let_def \<sigma>a_def [symmetric] bindE_Inr
    by (auto simp: Let_def)
  from Activation_createOutput_effect [OF o] ra
  have t2: "this2 = this\<lparr> layerOutput := Some out \<rparr>" and d4: "on_device \<sigma>a \<sigma>4"
    and v4: "output_resident this \<sigma> \<longrightarrow> out < length (heap \<sigma>4) \<and> glTexture (heap \<sigma>4 ! out) \<noteq> None"
    and lo: "layerOutput this = None \<or> layerOutput this = Some out" by auto
  define \<sigma>5 where "\<sigma>5 = runProgram E (program this2) (glTexture (heap \<sigma>4 ! out))
                        [(''x'', glTexture (heap \<sigma>4 ! x))] [] \<sigma>4"
  have d5: "on_device \<sigma> \<sigma>5"
    unfolding \<sigma>5_def using da d4 on_device_runProgram by (blast intro: on_device_trans)
  have v5: "output_resident this \<sigma> \<longrightarrow> out < length (heap \<sigma>5) \<and> glTexture (heap \<sigma>5 ! out) \<noteq> None"
    using v4 by (simp_all add: \<sigma>5_def)
  from f have "(if outbound this = [] then
                 (let \<sigma>6 = transferFromGLTexture out \<sigma>5
                  in if is2DReshaped (heap \<sigma>6 ! out) then
                       bindE (reshapeFrom2D E out \<sigma>6) (\<lambda>\<sigma>7. Inr (this\<lparr> layerOutput := Some out \<rparr>, \<sigma>7))
                     else Inr (this\<lparr> layerOutput := Some out \<rparr>, \<sigma>6)) = Inr (this1, \<sigma>1)
               else this1 = this\<lparr> layerOutput := Some out \<rparr> \<and> \<sigma>1 = \<sigma>5)"
    unfolding \<sigma>5_def Let_def t2 by (simp split: if_splits)
  with d5 v5 lo show ?thesis by blast
qed

lemma Activation_callGPU_resident:
  assumes c: "Activation_callGPU E this x \<sigma> = Inr (this1, \<sigma>1)" and ob: "outbound this \<noteq> []"
  shows "on_device \<sigma> \<sigma>1 \<and> outbound this1 = outbound this \<and> layerOutput this1 \<noteq> None
         \<and> (output_resident this \<sigma> \<longrightarrow> output_resident this1 \<sigma>1)"
  using Activation_callGPU_split [OF c] ob
  by (auto simp: output_resident_def)

lemma Activation_stays_resident:
  "stays_resident (Activation_class E) (\<lambda>w. outbound w \<noteq> [])"
  unfolding stays_resident_def Activation_class_def
  by (auto dest: Activation_callGPU_resident)

lemma Activation_callGPU_policy:
  assumes c: "Activation_callGPU E this x \<sigma> = Inr (this1, \<sigma>1)"
    and r: "output_resident this \<sigma>"
  shows "\<exists>out. this1 = this\<lparr> layerOutput := Some out \<rparr>
           \<and> (layerOutput this = None \<or> layerOutput this = Some out)
           \<and> terminal_policy ReshapeFrom2D (outbound this) out \<sigma> \<sigma>1
           \<and> (restores_original (tensor_reshapeFrom2D E) \<and> outbound this = []
                 \<and> is2DReshaped (heap \<sigma>1 ! out)
               \<longrightarrow> originalShape (heap \<sigma>1 ! out) = Some (shape (tensor (heap \<sigma>1 ! out)))
                 \<and> length (data (tensor (heap \<sigma>1 ! out)))
                     = prod_list (shape (tensor (heap \<sigma>1 ! out))))"
proof -
  from Activation_callGPU_split [OF c] r obtain out \<sigma>5 where
    d: "on_device \<sigma> \<sigma>5" and v: "out < length (heap \<sigma>5)" and g: "glTexture (heap \<sigma>5 ! out) \<noteq> None"
    and lo: "layerOutput this = None \<or> layerOutput this = Some out"
    and f: "(if outbound this = [] then
                 (let \<sigma>6 = transferFromGLTexture out \<sigma>5
                  in if is2DReshaped (heap \<sigma>6 ! out) then
                       bindE (reshapeFrom2D E out \<sigma>6) (\<lambda>\<sigma>7. Inr (this\<lparr> layerOutput := Some out \<rparr>, \<sigma>7))
                     else Inr (this\<lparr> layerOutput := Some out \<rparr>, \<sigma>6)) = Inr (this1, \<sigma>1)
               else this1 = this\<lparr> layerOutput := Some out \<rparr> \<and> \<sigma>1 = \<sigma>5)"
    by blast
  show ?thesis
  proof (cases "outbound this = []")
    case True
    with f have tb: "(let \<sigma>6 = transferFromGLTexture out \<sigma>5
                  in if is2DReshaped (heap \<sigma>6 ! out) then
                       bindE (reshapeFrom2D E out \<sigma>6) (\<lambda>\<sigma>7. Inr (this\<lparr> layerOutput := Some out \<rparr>, \<sigma>7))
                     else Inr (this\<lparr> layerOutput := Some out \<rparr>, \<sigma>6)) = Inr (this1, \<sigma>1)"
      by simp
    have tp: "this1 = this\<lparr> layerOutput := Some out \<rparr>
        \<and> terminal_policy ReshapeFrom2D [] out \<sigma> \<sigma>1
        \<and> (is2DReshaped (heap \<sigma>1 ! out)
            \<longrightarrow> (\<exists>\<sigma>6. reshapeFrom2D E out \<sigma>6 = Inr \<sigma>1 \<and> out < length (heap \<sigma>6)
                  \<and> (\<forall>h d. glTexture (heap \<sigma>1 ! out) = Some h \<and> readTexture \<sigma>1 h = Some d
                         \<longrightarrow> data (tensor (heap \<sigma>6 ! out)) = d)))"
      by (rule terminal_policy_transfer [where rf = "reshapeFrom2D E" and ev = ReshapeFrom2D,
            OF d v g tb])
         (simp_all add: reshapeFrom2D_effect(1))
    have "restores_original (tensor_reshapeFrom2D E) \<and> is2DReshaped (heap \<sigma>1 ! out)
               \<longrightarrow> originalShape (heap \<sigma>1 ! out) = Some (shape (tensor (heap \<sigma>1 ! out)))
                 \<and> length (data (tensor (heap \<sigma>1 ! out)))
                     = prod_list (shape (tensor (heap \<sigma>1 ! out)))"
      using tp reshapeFrom2D_restores by blast
    with tp True lo show ?thesis by auto
  next
    case False
    with f have e: "this1 = this\<lparr> layerOutput := Some out \<rparr>" "\<sigma>1 = \<sigma>5" by simp_all
    from terminal_policy_resident [OF False d v g] e lo False show ?thesis by auto
  qed
qed

subsection \<open>The device path of TimeDistributed\<close>

lemma TimeDistributed_callGPU_policy:
  assumes w: "stays_resident (wrappedClass this) I" and i: "I (wrappedLayer this)"
    and c: "TimeDistributed_callGPU E this x \<sigma> = Inr (this1, \<sigma>1)"
    and r: "output_resident this \<sigma>"
  shows "\<exists>out. layerOutput this1 = Some out
           \<and> terminal_policy ReshapeFrom2DSquare (outbound this) out \<sigma> \<sigma>1
           \<and> (outbound this = [] \<and> is2DReshaped (heap \<sigma>1 ! out)
               \<longrightarrow> originalShape (heap \<sigma>1 ! out) = Some (shape (tensor (heap \<sigma>1 ! out)))
                 \<and> square_content out \<sigma>1)
           \<and> keeps this this1 \<and> I (wrappedLayer this1)"
proof -
  from c obtain this2 \<sigma>2 this3 \<sigma>3 where
    p: "TimeDistributed_prepare this x \<sigma> = Inr (this2, \<sigma>2)"
    and s: "TimeDistributed_steps E this2 x \<sigma>2 = Inr (this3, \<sigma>3)"
    and f: "(if outbound this3 = [] then
        (case layerOutput this3 of
           None \<Rightarrow> Inl (TypeError ''this.output is undefined'')
         | Some out \<Rightarrow>
             (let \<sigma>4 = transferFromGLTexture out \<sigma>3
              in if is2DReshaped (heap \<sigma>4 ! out) then
                   bindE (reshapeFrom2DSquare out \<sigma>4) (\<lambda>\<sigma>5. Inr (this3, \<sigma>5))
                 else Inr (this3, \<sigma>4)))
      else Inr (this3, \<sigma>3)) = Inr (this1, \<sigma>1)"
    by (auto simp: TimeDistributed_callGPU_def bindE_Inr)
  from steps_step [OF s] obtain out where
    s2: "resident_step I (this2, \<sigma>2) (this3, \<sigma>3)" and o3: "layerOutput this3 = Some out"
    by auto
  have "resident_step I (this, \<sigma>) (this3, \<sigma>3)"
    by (rule resident_step_trans [OF prepare_step [OF p] s2])
  with w i r have k: "keeps this this3" and i3: "I (wrappedLayer this3)"
    and d: "on_device \<sigma> \<sigma>3" and r3: "output_resident this3 \<sigma>3"
    by (simp_all add: resident_step_def)
  from r3 o3 have v: "out < length (heap \<sigma>3)" and g: "glTexture (heap \<sigma>3 ! out) \<noteq> None"
    by (simp_all add: output_resident_def)
  have ob: "outbound this3 = outbound this" using k by (simp add: keeps_def)
  show ?thesis
  proof (cases "outbound this = []")
    case True
    with f ob o3 have tb: "(let \<sigma>4 = transferFromGLTexture out \<sigma>3
              in if is2DReshaped (heap \<sigma>4 ! out) then
                   bindE (reshapeFrom2DSquare out \<sigma>4) (\<lambda>\<sigma>5. Inr (this3, \<sigma>5))
                 else Inr (this3, \<sigma>4)) = Inr (this1, \<sigma>1)" by simp
    have tp: "this1 = this3
        \<and> terminal_policy ReshapeFrom2DSquare [] out \<sigma> \<sigma>1
        \<and> (is2DReshaped (heap \<sigma>1 ! out)
            \<longrightarrow> (\<exists>\<sigma>6. reshapeFrom2DSquare out \<sigma>6 = Inr \<sigma>1 \<and> out < length (heap \<sigma>6)
                  \<and> (\<forall>h d. glTexture (heap \<sigma>1 ! out) = Some h \<and> readTexture \<sigma>1 h = Some d
                         \<longrightarrow> data (tensor (heap \<sigma>6 ! out)) = d)))"
      by (rule terminal_policy_transfer [where rf = reshapeFrom2DSquare
            and ev = ReshapeFrom2DSquare, OF d v g tb])
         (simp_all add: reshapeFrom_effect(1))
    have "is2DReshaped (heap \<sigma>1 ! out)
               \<longrightarrow> originalShape (heap \<sigma>1 ! out) = Some (shape (tensor (heap \<sigma>1 ! out)))
                 \<and> square_content out \<sigma>1"
    proof
      assume "is2DReshaped (heap \<sigma>1 ! out)"
      with tp obtain \<sigma>6 where r: "reshapeFrom2DSquare out \<sigma>6 = Inr \<sigma>1"
        and v6: "out < length (heap \<sigma>6)"
        and c: "\<forall>h d. glTexture (heap \<sigma>1 ! out) = Some h \<and> readTexture \<sigma>1 h = Some d
                         \<longrightarrow> data (tensor (heap \<sigma>6 ! out)) = d"
        by blast
      note re = reshapeFrom_effect [OF r v6]
      from re(3) c have "square_content out \<sigma>1"
        by (auto simp: square_content_def Let_def split: option.splits)
      with re(2) show "originalShape (heap \<sigma>1 ! out) = Some (shape (tensor (heap \<sigma>1 ! out)))
                 \<and> square_content out \<sigma>1" by simp
    qed
    with tp True o3 k i3 show ?thesis by auto
  next
    case False
    with f ob have e: "this1 = this3" "\<sigma>1 = \<sigma>3" by simp_all
    from terminal_policy_resident [OF False d v g] e o3 k i3 False show ?thesis by auto
  qed
qed

lemma TimeDistributed_callGPU_keeps:
  assumes c: "TimeDistributed_callGPU E this x \<sigma> = Inr (this1, \<sigma>1)"
  shows "keeps this this1
       \<and> (stays_resident (wrappedClass this) I \<and> I (wrappedLayer this) \<longrightarrow> I (wrappedLayer this1))"
proof -
  from c obtain this2 \<sigma>2 this3 \<sigma>3 where
    p: "TimeDistributed_prepare this x \<sigma> = Inr (this2, \<sigma>2)"
    and s: "TimeDistributed_steps E this2 x \<sigma>2 = Inr (this3, \<sigma>3)"
    and f: "(if outbound this3 = [] then
        (case layerOutput this3 of
           None \<Rightarrow> Inl (TypeError ''this.output is undefined'')
         | Some out \<Rightarrow>
             (let \<sigma>4 = transferFromGLTexture out \<sigma>3
              in if is2DReshaped (heap \<sigma>4 ! out) then
                   bindE (reshapeFrom2DSquare out \<sigma>4) (\<lambda>\<sigma>5. Inr (this3, \<sigma>5))
                 else Inr (this3, \<sigma>4)))
      else Inr (this3, \<sigma>3)) = Inr (this1, \<sigma>1)"
    by (auto simp: TimeDistributed_callGPU_def bindE_Inr)
  from f have e: "this1 = this3"
    by (auto simp: Let_def bindE_Inr split: if_splits option.splits)
  have "resident_step I (this, \<sigma>) (this3, \<sigma>3)"
    using prepare_step [OF p] steps_step [OF s] by (blast intro: resident_step_trans)
  then show ?thesis by (simp add: e resident_step_def)
qed

lemma terminal_handle:
  assumes v: "out < length (heap \<sigma>5)"
    and t: "(let \<sigma>6 = transferFromGLTexture out \<sigma>5
             in if is2DReshaped (heap \<sigma>6 ! out) then
                  bindE (rf out \<sigma>6) (\<lambda>\<sigma>7. Inr (this, \<sigma>7))
                else Inr (this, \<sigma>6)) = Inr (this1, \<sigma>1)"
    and fr: "\<And>\<sigma>a \<sigma>b. rf out \<sigma>a = Inr \<sigma>b \<Longrightarrow> out < length (heap \<sigma>a)
               \<Longrightarrow> reshape_frame e out \<sigma>a \<sigma>b"
  shows "glTexture (heap \<sigma>1 ! out) = glTexture (heap \<sigma>5 ! out) \<and> length (heap \<sigma>1) = length (heap \<sigma>5)"
proof -
  define \<sigma>6 where "\<sigma>6 = transferFromGLTexture out \<sigma>5"
  note te = transfer_effect [OF v, folded \<sigma>6_def]
  have v6: "out < length (heap \<sigma>6)" using te(3) v by simp
  show ?thesis
  proof (cases "is2DReshaped (heap \<sigma>6 ! out)")
    case False
    with t have "\<sigma>1 = \<sigma>6" by (simp add: \<sigma>6_def Let_def)
    with te show ?thesis by simp
  next
    case True
    with t have r: "rf out \<sigma>6 = Inr \<sigma>1"
      by (auto simp: \<sigma>6_def Let_def bindE_Inr)
    from fr [OF r v6] te show ?thesis by (simp add: reshape_frame_def)
  qed
qed

lemma on_device_handle:
  "on_device \<sigma> \<sigma>1 \<Longrightarrow> out < length (heap \<sigma>) \<Longrightarrow> glTexture (heap \<sigma> ! out) = Some h
     \<Longrightarrow> out < length (heap \<sigma>1) \<and> glTexture (heap \<sigma>1 ! out) = Some h"
  by (auto simp: on_device_iff)

text \<open>A layer that has a resident output keeps the output and its handle.\<close>

lemma Activation_callGPU_reuse:
  assumes c: "Activation_callGPU E this x \<sigma> = Inr (this1, \<sigma>1)"
    and o: "layerOutput this = Some out" and v: "out < length (heap \<sigma>)"
    and g: "glTexture (heap \<sigma> ! out) = Some h"
  shows "layerOutput this1 = Some out \<and> out < length (heap \<sigma>1) \<and> glTexture (heap \<sigma>1 ! out) = Some h"
proof -
  from Activation_callGPU_split [OF c] o obtain \<sigma>5 where
    d: "on_device \<sigma> \<sigma>5"
    and f: "(if outbound this = [] then
                 (let \<sigma>6 = transferFromGLTexture out \<sigma>5
                  in if is2DReshaped (heap \<sigma>6 ! out) then
                       bindE (reshapeFrom2D E out \<sigma>6) (\<lambda>\<sigma>7. Inr (this\<lparr> layerOutput := Some out \<rparr>, \<sigma>7))
                     else Inr (this\<lparr> layerOutput := Some out \<rparr>, \<sigma>6)) = Inr (this1, \<sigma>1)
               else this1 = this\<lparr> layerOutput := Some out \<rparr> \<and> \<sigma>1 = \<sigma>5)"
    by auto
  from on_device_handle [OF d v g] have v5: "out < length (heap \<sigma>5)"
    and g5: "glTexture (heap \<sigma>5 ! out) = Some h" by simp_all
  show ?thesis
  proof (cases "outbound this = []")
    case True
    with f have t: "(let \<sigma>6 = transferFromGLTexture out \<sigma>5
                  in if is2DReshaped (heap \<sigma>6 ! out) then
                       bindE (reshapeFrom2D E out \<sigma>6) (\<lambda>\<sigma>7. Inr (this\<lparr> layerOutput := Some out \<rparr>, \<sigma>7))
                     else Inr (this\<lparr> layerOutput := Some out \<rparr>, \<sigma>6)) = Inr (this1, \<sigma>1)" by simp
    from terminal_handle [where rf = "reshapeFrom2D E" and e = "ReshapeFrom2D out",
        OF v5 t reshapeFrom2D_effect(1)]
    have "glTexture (heap \<sigma>1 ! out) = Some h" "out < length (heap \<sigma>1)"
      using g5 v5 by simp_all
    moreover from t have "this1 = this\<lparr> layerOutput := Some out \<rparr>"
      by (auto simp: Let_def bindE_Inr split: if_splits)
    ultimately show ?thesis by simp
  next
    case False
    with f v5 g5 show ?thesis by simp
  qed
qed

lemma TimeDistributed_callGPU_reuse:
  assumes w: "stays_resident (wrappedClass this) I" and i: "I (wrappedLayer this)"
    and c: "TimeDistributed_callGPU E this x \<sigma> = Inr (this1, \<sigma>1)"
    and o: "layerOutput this = Some out" and v: "out < length (heap \<sigma>)"
    and g: "glTexture (heap \<sigma> ! out) = Some h"
  shows "layerOutput this1 = Some out \<and> outputCopy this1 = outputCopy this
       \<and> out < length (heap \<sigma>1) \<and> glTexture (heap \<sigma>1 ! out) = Some h"
proof -
  from c obtain this2 \<sigma>2 this3 \<sigma>3 where
    p: "TimeDistributed_prepare this x \<sigma> = Inr (this2, \<sigma>2)"
    and s: "TimeDistributed_steps E this2 x \<sigma>2 = Inr (this3, \<sigma>3)"
    and f: "(if outbound this3 = [] then
        (case layerOutput this3 of
           None \<Rightarrow> Inl (TypeError ''this.output is undefined'')
         | Some out \<Rightarrow>
             (let \<sigma>4 = transferFromGLTexture out \<sigma>3
              in if is2DReshaped (heap \<sigma>4 ! out) then
                   bindE (reshapeFrom2DSquare out \<sigma>4) (\<lambda>\<sigma>5. Inr (this3, \<sigma>5))
                 else Inr (this3, \<sigma>4)))
      else Inr (this3, \<sigma>3)) = Inr (this1, \<sigma>1)"
    by (auto simp: TimeDistributed_callGPU_def bindE_Inr)
  have "resident_step I (this, \<sigma>) (this3, \<sigma>3)"
    using prepare_step [OF p] steps_step [OF s] by (blast intro: resident_step_trans)
  with w i have k: "keeps this this3" and d: "on_device \<sigma> \<sigma>3"
    by (simp_all add: resident_step_def)
  from k o have o3: "layerOutput this3 = Some out" and c3: "outputCopy this3 = outputCopy this"
    by (simp_all add: keeps_def)
  from on_device_handle [OF d v g] have v3: "out < length (heap \<sigma>3)"
    and g3: "glTexture (heap \<sigma>3 ! out) = Some h" by simp_all
  from f have e: "this1 = this3"
    by (auto simp: Let_def bindE_Inr split: if_splits option.splits)
  show ?thesis
  proof (cases "outbound this3 = []")
    case True
    with f o3 have t: "(let \<sigma>4 = transferFromGLTexture out \<sigma>3
              in if is2DReshaped (heap \<sigma>4 ! out) then
                   bindE (reshapeFrom2DSquare out \<sigma>4) (\<lambda>\<sigma>5. Inr (this3, \<sigma>5))
                 else Inr (this3, \<sigma>4)) = Inr (this1, \<sigma>1)" by simp
    from terminal_handle [where rf = reshapeFrom2DSquare and e = "ReshapeFrom2DSquare out",
        OF v3 t reshapeFrom_effect(1)] g3 v3 e o3 c3
    show ?thesis by simp
  next
    case False
    with f e o3 c3 v3 g3 show ?thesis by simp
  qed
qed

subsection \<open>What the CPU path leaves alone\<close>

lemma bindE_InrE:
  assumes "bindE m f = Inr r"
  obtains v where "m = Inr v" and "f v = Inr r"
  using assms by (cases m) auto

lemma callWrapped_effect:
  assumes "TimeDistributed_callWrapped this step \<sigma> = Inr (so, this1, \<sigma>1)"
  shows "this1 = this\<lparr> wrappedLayer := wrappedLayer this1, wrappedCalls := wrappedCalls this + 1 \<rparr>
       \<and> call_method (wrappedClass this) (wrappedLayer this) step \<sigma>
           = Inr (Some so, wrappedLayer this1, \<sigma>1)"
proof -
  from assms obtain r w1 where
    c: "call_method (wrappedClass this) (wrappedLayer this) step \<sigma> = Inr (r, w1, \<sigma>1)"
    and f: "(case r of None \<Rightarrow> Inl (TypeError ''stepOutput is undefined'')
             | Some stepOutput \<Rightarrow> Inr (stepOutput, this\<lparr> wrappedLayer := w1, wrappedCalls := wrappedCalls this + 1 \<rparr>, \<sigma>1))
            = Inr (so, this1, \<sigma>1)"
    unfolding TimeDistributed_callWrapped_def Let_def
    by (auto elim!: bindE_InrE split: option.splits)
  from f have "r = Some so" "this1 = this\<lparr> wrappedLayer := w1, wrappedCalls := wrappedCalls this + 1 \<rparr>"
    by (cases r; simp)+
  with c show ?thesis by simp
qed

lemma cpu_frame_trans:
  fixes a b c :: "('a, 'c, 'w) TimeDistributed"
  assumes "b\<lparr> wrappedLayer := wrappedLayer a, wrappedCalls := wrappedCalls a,
              layerOutput := layerOutput a \<rparr> = a"
    and "c\<lparr> wrappedLayer := wrappedLayer b, wrappedCalls := wrappedCalls b,
              layerOutput := layerOutput b \<rparr> = b"
  shows "c\<lparr> wrappedLayer := wrappedLayer a, wrappedCalls := wrappedCalls a,
              layerOutput := layerOutput a \<rparr> = a"
  using assms by (cases a; cases b; cases c) simp

lemma cpuStep_frame:
  assumes "TimeDistributed_cpuStep step x i (this, \<sigma>) = Inr (this1, \<sigma>1)"
  shows "this1\<lparr> wrappedLayer := wrappedLayer this, wrappedCalls := wrappedCalls this,
               layerOutput := layerOutput this \<rparr> = this
       \<and> (call_keeps (wrappedClass this) I \<and> I (wrappedLayer this) \<longrightarrow> I (wrappedLayer this1))"
proof -
  from assms obtain \<sigma>a so \<sigma>b where
    c: "TimeDistributed_callWrapped this step \<sigma>a = Inr (so, this1, \<sigma>b)"
    by (auto simp: TimeDistributed_cpuStep_def bindE_Inr)
  from callWrapped_effect [OF c]
  have e: "this1 = this\<lparr> wrappedLayer := wrappedLayer this1, wrappedCalls := wrappedCalls this + 1 \<rparr>"
    and m: "call_method (wrappedClass this) (wrappedLayer this) step \<sigma>a
           = Inr (Some so, wrappedLayer this1, \<sigma>b)" by simp_all
  have "this1\<lparr> wrappedLayer := wrappedLayer this, wrappedCalls := wrappedCalls this,
               layerOutput := layerOutput this \<rparr> = this"
    by (subst e) simp
  moreover have "call_keeps (wrappedClass this) I \<and> I (wrappedLayer this) \<longrightarrow> I (wrappedLayer this1)"
    using m unfolding call_keeps_def by blast
  ultimately show ?thesis by simp
qed

lemma cpu_loop_frame:
  "for_loop ts (TimeDistributed_cpuStep step x) (this, \<sigma>) = Inr (this1, \<sigma>1)
   \<Longrightarrow> this1\<lparr> wrappedLayer := wrappedLayer this, wrappedCalls := wrappedCalls this,
               layerOutput := layerOutput this \<rparr> = this
       \<and> (call_keeps (wrappedClass this) I \<and> I (wrappedLayer this) \<longrightarrow> I (wrappedLayer this1))"
proof (induction ts arbitrary: this \<sigma>)
  case Nil
  then show ?case by simp
next
  case (Cons t ts)
  from Cons.prems obtain this2 \<sigma>2 where
    s: "TimeDistributed_cpuStep step x t (this, \<sigma>) = Inr (this2, \<sigma>2)"
    and l: "for_loop ts (TimeDistributed_cpuStep step x) (this2, \<sigma>2) = Inr (this1, \<sigma>1)"
    by (auto split: sum.splits)
  note a = cpuStep_frame [OF s, of I] and b = Cons.IH [OF l]
  from a have wc: "wrappedClass this2 = wrappedClass this"
    by (cases this; cases this2) simp
  from a b have "this1\<lparr> wrappedLayer := wrappedLayer this, wrappedCalls := wrappedCalls this,
               layerOutput := layerOutput this \<rparr> = this"
    by (blast intro: cpu_frame_trans)
  with a b wc show ?case by simp
qed

lemma newOutput_effect:
  assumes "TimeDistributed_newOutput this x so \<sigma> = Inr (this1, \<sigma>1)"
  shows "\<exists>n rest. shape (tensor (heap \<sigma> ! x)) = n # rest
           \<and> this1 = this\<lparr> layerOutput := Some (length (heap \<sigma>)) \<rparr>
           \<and> \<sigma>1 = \<sigma>\<lparr> heap := heap \<sigma> @ [new_Tensor [] (n # shape (tensor (heap \<sigma> ! so)))] \<rparr>"
  using assms
  by (cases "shape (tensor (heap \<sigma> ! x))")
     (auto simp: TimeDistributed_newOutput_def Let_def alloc_def)

lemma TimeDistributed_callCPU_cases:
  assumes "TimeDistributed_callCPU this x \<sigma> = Inr (this1, \<sigma>1)"
  obtains \<sigma>2 so this2 \<sigma>3 this3 \<sigma>4 \<sigma>5 where
    "assign_step (length (heap \<sigma>)) x 0
       (\<sigma>\<lparr> heap := heap \<sigma> @ [new_Tensor [] (drop 1 (shape (tensor (heap \<sigma> ! x))))] \<rparr>) = Inr \<sigma>2"
    and "TimeDistributed_callWrapped this (length (heap \<sigma>)) \<sigma>2 = Inr (so, this2, \<sigma>3)"
    and "TimeDistributed_newOutput this2 x so \<sigma>3 = Inr (this3, \<sigma>4)"
    and "TimeDistributed_writeOutput this3 0 so \<sigma>4 = Inr \<sigma>5"
    and "for_loop [1..<(case shape (tensor (heap \<sigma>5 ! x)) of [] \<Rightarrow> 0 | n # _ \<Rightarrow> n)]
           (TimeDistributed_cpuStep (length (heap \<sigma>)) x) (this3, \<sigma>5) = Inr (this1, \<sigma>1)"
proof -
  from assms have
    "bindE (assign_step (length (heap \<sigma>)) x 0
              (\<sigma>\<lparr> heap := heap \<sigma> @ [new_Tensor [] (drop 1 (shape (tensor (heap \<sigma> ! x))))] \<rparr>))
       (\<lambda>\<sigma>2.
        bindE (TimeDistributed_callWrapped this (length (heap \<sigma>)) \<sigma>2) (\<lambda>(stepOutput, this1, \<sigma>3).
        bindE (TimeDistributed_newOutput this1 x stepOutput \<sigma>3) (\<lambda>(this2, \<sigma>4).
        bindE (TimeDistributed_writeOutput this2 0 stepOutput \<sigma>4) (\<lambda>\<sigma>5.
          let timesteps = (case shape (tensor (heap \<sigma>5 ! x)) of [] \<Rightarrow> 0 | n # _ \<Rightarrow> n)
          in for_loop [1..<timesteps] (TimeDistributed_cpuStep (length (heap \<sigma>)) x)
               (this2, \<sigma>5))))) = Inr (this1, \<sigma>1)"
    unfolding TimeDistributed_callCPU_def Let_def alloc_def by simp
  then show ?thesis
    using that by (auto elim!: bindE_InrE simp: Let_def)
qed

lemma TimeDistributed_callCPU_frame:
  assumes "TimeDistributed_callCPU this x \<sigma> = Inr (this1, \<sigma>1)"
  shows "this1\<lparr> wrappedLayer := wrappedLayer this, wrappedCalls := wrappedCalls this,
               layerOutput := layerOutput this \<rparr> = this
       \<and> (call_keeps (wrappedClass this) I \<and> I (wrappedLayer this) \<longrightarrow> I (wrappedLayer this1))"
proof -
  from assms obtain step \<sigma>a so this2 \<sigma>b this3 \<sigma>c \<sigma>d n where
    c: "TimeDistributed_callWrapped this step \<sigma>a = Inr (so, this2, \<sigma>b)"
    and o: "TimeDistributed_newOutput this2 x so \<sigma>b = Inr (this3, \<sigma>c)"
    and l: "for_loop [1..<n] (TimeDistributed_cpuStep step x) (this3, \<sigma>d) = Inr (this1, \<sigma>1)"
    by (rule TimeDistributed_callCPU_cases)
  from callWrapped_effect [OF c]
  have e: "this2 = this\<lparr> wrappedLayer := wrappedLayer this2, wrappedCalls := wrappedCalls this + 1 \<rparr>"
    and m: "call_method (wrappedClass this) (wrappedLayer this) step \<sigma>a
           = Inr (Some so, wrappedLayer this2, \<sigma>b)" by simp_all
  from newOutput_effect [OF o] obtain out where t3: "this3 = this2\<lparr> layerOutput := Some out \<rparr>"
    by blast
  have f3: "this3\<lparr> wrappedLayer := wrappedLayer this, wrappedCalls := wrappedCalls this,
               layerOutput := layerOutput this \<rparr> = this"
    unfolding t3 by (subst e) simp
  have wc: "wrappedClass this3 = wrappedClass this" unfolding t3 by (subst e) simp
  have "call_keeps (wrappedClass this) I \<and> I (wrappedLayer this) \<longrightarrow> I (wrappedLayer this2)"
    using m unfolding call_keeps_def by blast
  then have i3: "call_keeps (wrappedClass this) I \<and> I (wrappedLayer this) \<longrightarrow> I (wrappedLayer this3)"
    by (simp add: t3)
  note b = cpu_loop_frame [OF l, of I]
  from f3 b have "this1\<lparr> wrappedLayer := wrappedLayer this, wrappedCalls := wrappedCalls this,
               layerOutput := layerOutput this \<rparr> = this"
    by (blast intro: cpu_frame_trans)
  with b i3 wc show ?thesis by simp
qed

lemma cpu_frame_fields:
  fixes this this1 :: "('a, 'c, 'w) TimeDistributed"
  assumes "this1\<lparr> wrappedLayer := wrappedLayer this, wrappedCalls := wrappedCalls this,
               layerOutput := layerOutput this \<rparr> = this"
  shows "wrappedClass this1 = wrappedClass this"
    and "rowIndexMaps this1 = rowIndexMaps this" and "colIndexMaps this1 = colIndexMaps this"
    and "outputRowIndexMaps this1 = outputRowIndexMaps this"
    and "outputColIndexMaps this1 = outputColIndexMaps this"
    and "outbound this1 = outbound this" and "gpu this1 = gpu this"
  using assms by (cases this; cases this1; simp)+

lemma Activation_callGPU_this:
  assumes c: "Activation_callGPU E this x \<sigma> = Inr (this1, \<sigma>1)"
  shows "\<exists>out. this1 = this\<lparr> layerOutput := Some out \<rparr>"
proof -
  from Activation_callGPU_split [OF c] obtain out \<sigma>5 where
    f: "(if outbound this = [] then
                 (let \<sigma>6 = transferFromGLTexture out \<sigma>5
                  in if is2DReshaped (heap \<sigma>6 ! out) then
                       bindE (reshapeFrom2D E out \<sigma>6) (\<lambda>\<sigma>7. Inr (this\<lparr> layerOutput := Some out \<rparr>, \<sigma>7))
                     else Inr (this\<lparr> layerOutput := Some out \<rparr>, \<sigma>6)) = Inr (this1, \<sigma>1)
               else this1 = this\<lparr> layerOutput := Some out \<rparr> \<and> \<sigma>1 = \<sigma>5)"
    by blast
  then have "this1 = this\<lparr> layerOutput := Some out \<rparr>"
    by (auto simp: Let_def bindE_Inr split: if_splits)
  then show ?thesis ..
qed

lemma Activation_call_outbound:
  assumes "Activation_call E w x \<sigma> = Inr (r, w1, \<sigma>1)"
  shows "outbound w1 = outbound w"
proof (cases "activation w = ''linear''")
  case True
  with assms show ?thesis by (auto simp: Activation_call_def Let_def)
next
  case False
  show ?thesis
  proof (cases "gpu w")
    case True
    with assms False have "Activation_callGPU E w x \<sigma> = Inr (w1, \<sigma>1)"
      by (auto simp: Activation_call_def bindE_Inr)
    from Activation_callGPU_this [OF this] show ?thesis by auto
  next
    case g: False
    with assms False have "Activation_callCPU w x \<sigma> = Inr (w1, \<sigma>1)"
      by (auto simp: Activation_call_def bindE_Inr)
    then show ?thesis
      by (auto simp: Activation_callCPU_def alloc_def Let_def split: option.splits)
  qed
qed

lemma Activation_call_keeps: "call_keeps (Activation_class E) (\<lambda>w. outbound w = ob)"
  unfolding call_keeps_def Activation_class_def
  by (auto dest: Activation_call_outbound)

lemma Activation_stays_resident_eq:
  "ob \<noteq> [] \<Longrightarrow> stays_resident (Activation_class E) (\<lambda>w. outbound w = ob)"
  unfolding stays_resident_def Activation_class_def
  by (auto dest: Activation_callGPU_resident)

subsection \<open>The CPU path, slice by slice\<close>

lemma slice_bound:
  fixes t T n :: nat
  assumes "t < T"
  shows "t * n + n \<le> T * n"
proof -
  from assms have "Suc t \<le> T" by simp
  then have "Suc t * n \<le> T * n" by (rule mult_le_mono1)
  then show ?thesis by (simp add: add.commute)
qed

lemma pick_slice:
  assumes "shape a = T # s" and "length (data a) = T * prod_list s" and "t < T"
  shows "pick a t = Inr \<lparr> data = take (prod_list s) (drop (t * prod_list s) (data a)), shape = s \<rparr>"
    and "length (take (prod_list s) (drop (t * prod_list s) (data a))) = prod_list s"
proof -
  from slice_bound [OF assms(3), of "prod_list s"] assms(2)
  have b: "t * prod_list s + prod_list s \<le> length (data a)" by simp
  then show "pick a t = Inr \<lparr> data = take (prod_list s) (drop (t * prod_list s) (data a)), shape = s \<rparr>"
    using assms by (simp add: pick_def)
  from b show "length (take (prod_list s) (drop (t * prod_list s) (data a))) = prod_list s"
    by simp
qed

lemma take_drop_patch:
  fixes D V :: "'e list"
  assumes lD: "length D = T * m" and lV: "length V = m" and k: "k < T" and t: "t < T"
  shows "take m (drop (t * m) (take (k * m) D @ V @ drop ((k + 1) * m) D))
           = (if t = k then V else take m (drop (t * m) D))"
proof -
  from slice_bound [OF k, of m] lD have bk: "k * m + m \<le> length D" by simp
  from slice_bound [OF t, of m] lD have bt: "t * m + m \<le> length D" by simp
  have lk: "length (take (k * m) D) = k * m" using bk by simp
  show ?thesis
  proof (cases "t = k")
    case True
    then show ?thesis using lk lV by simp
  next
    case False
    show ?thesis
    proof (cases "t < k")
      case True
      then have g: "t * m + m \<le> k * m" by (rule slice_bound)
      define R where "R = V @ drop ((k + 1) * m) D"
      from True have z: "t * m - k * m = 0" by simp
      have "drop (t * m) (take (k * m) D @ R) = drop (t * m) (take (k * m) D) @ R"
        using lk by (simp add: z)
      moreover have "length (drop (t * m) (take (k * m) D)) = k * m - t * m"
        using lk by simp
      ultimately have "take m (drop (t * m) (take (k * m) D @ R))
            = take m (drop (t * m) (take (k * m) D))"
        using g by simp
      also have "\<dots> = take m (take (k * m - t * m) (drop (t * m) D))"
        by (simp add: drop_take)
      also have "\<dots> = take m (drop (t * m) D)"
        using g by (simp add: min_def)
      finally show ?thesis using False by (simp add: R_def)
    next
      case f: False
      with False have "k < t" by simp
      then have g: "k * m + m \<le> t * m" by (rule slice_bound)
      obtain j where j: "t * m = k * m + m + j"
        using g le_Suc_ex by blast
      have "drop (t * m) (take (k * m) D @ V @ drop ((k + 1) * m) D)
            = drop (t * m - (k * m + m)) (drop ((k + 1) * m) D)"
        unfolding j using lk lV by simp
      also have "\<dots> = drop (t * m) D" using g by (simp add: add.commute)
      finally show ?thesis using False by simp
    qed
  qed
qed

lemma assign_pick_ok:
  fixes dest src :: "'e ndarray"
  assumes sd: "shape dest = T # so" and ld: "length (data dest) = T * prod_list so"
    and ss: "shape src = so" and ls: "length (data src) = prod_list so" and k: "k < T"
  shows "\<exists>d. assign_pick dest k src = Inr d \<and> shape d = T # so
           \<and> length (data d) = T * prod_list so
           \<and> pick d k = Inr src
           \<and> (\<forall>t<T. t \<noteq> k \<longrightarrow> pick d t = pick dest t)"
proof -
  define m where "m = prod_list so"
  define d where "d = dest\<lparr> data := take (k * m) (data dest) @ data src @ drop ((k + 1) * m) (data dest) \<rparr>"
  note p = pick_slice [OF sd ld k, folded m_def]
  have a: "assign_pick dest k src = Inr d"
    using p ss ls by (simp add: assign_pick_def assign_def d_def m_def Let_def)
  have sh: "shape d = T # so" by (simp add: d_def sd)
  from slice_bound [OF k, of m] ld have bk: "k * m + m \<le> length (data dest)" by (simp add: m_def)
  have "length (data d) = k * m + m + (T * m - (k * m + m))"
    using bk ls ld by (simp add: d_def m_def)
  also have "\<dots> = T * m" using bk ld by (simp add: m_def)
  finally have len: "length (data d) = T * prod_list so" by (simp add: m_def)
  have pk: "\<And>t. t < T \<Longrightarrow> pick d t
        = Inr \<lparr> data = (if t = k then data src else take m (drop (t * m) (data dest))), shape = so \<rparr>"
  proof -
    fix t assume t: "t < T"
    from pick_slice(1) [OF sh len t, folded m_def]
    have "pick d t = Inr \<lparr> data = take m (drop (t * m) (data d)), shape = so \<rparr>" .
    moreover have "take m (drop (t * m) (data d))
        = (if t = k then data src else take m (drop (t * m) (data dest)))"
      unfolding d_def using take_drop_patch [OF ld [folded m_def] ls [folded m_def] k t]
      by simp
    ultimately show "pick d t
        = Inr \<lparr> data = (if t = k then data src else take m (drop (t * m) (data dest))), shape = so \<rparr>"
      by simp
  qed
  have "pick d k = Inr src" using pk [OF k] ss by simp
  moreover have "\<forall>t<T. t \<noteq> k \<longrightarrow> pick d t = pick dest t"
    using pk pick_slice(1) [OF sd ld, folded m_def] by simp
  ultimately show ?thesis using a sh len by blast
qed

lemma ndarray_overwrite:
  fixes a b :: "'e ndarray"
  shows "shape a = shape b \<Longrightarrow> a\<lparr> data := data b \<rparr> = b"
  by (cases a; cases b) simp

lemma prefix_nth:
  assumes "take n ys = xs" and "n = length xs"
  shows "length xs \<le> length ys" and "\<And>i. i < length xs \<Longrightarrow> ys ! i = xs ! i"
proof -
  from assms have "length (take n ys) = n" by simp
  then show "length xs \<le> length ys" using assms(2) by simp
  fix i assume "i < length xs"
  then have "take n ys ! i = ys ! i" using assms(2) by simp
  then show "ys ! i = xs ! i" using assms(1) by simp
qed

lemma pure_layer_call:
  assumes "pure_layer W I F" and "I w" and "r < length (heap \<sigma>)"
  obtains r1 w1 \<sigma>1 where "call_method W w r \<sigma> = Inr (Some r1, w1, \<sigma>1)" and "I w1"
    and "r1 < length (heap \<sigma>1)" and "length (heap \<sigma>) \<le> length (heap \<sigma>1)"
    and "\<And>i. i < length (heap \<sigma>) \<Longrightarrow> heap \<sigma>1 ! i = heap \<sigma> ! i"
    and "tensor (heap \<sigma>1 ! r1) = F (tensor (heap \<sigma> ! r))"
proof -
  from assms obtain r1 w1 \<sigma>1 where c: "call_method W w r \<sigma> = Inr (Some r1, w1, \<sigma>1)" and i: "I w1"
    and v: "r1 < length (heap \<sigma>1)" and p: "take (length (heap \<sigma>)) (heap \<sigma>1) = heap \<sigma>"
    and f: "tensor (heap \<sigma>1 ! r1) = F (tensor (heap \<sigma> ! r))"
    unfolding pure_layer_def by blast
  from prefix_nth [OF p refl] c i v f that show thesis by blast
qed

lemma assign_step_ok:
  assumes x: "x < length (heap \<sigma>)" and st: "step < length (heap \<sigma>)"
    and X: "shape (tensor (heap \<sigma> ! x)) = T # s"
           "length (data (tensor (heap \<sigma> ! x))) = T * prod_list s"
    and t: "t < T"
    and S: "shape (tensor (heap \<sigma> ! step)) = s"
           "length (data (tensor (heap \<sigma> ! step))) = prod_list s"
  shows "\<exists>v. pick (tensor (heap \<sigma> ! x)) t = Inr v \<and> shape v = s
            \<and> length (data v) = prod_list s
            \<and> assign_step step x t \<sigma>
                = Inr (\<sigma>\<lparr> heap := (heap \<sigma>)[step := (heap \<sigma> ! step)\<lparr> tensor := v \<rparr>] \<rparr>)"
proof -
  define v where "v = \<lparr> data = take (prod_list s) (drop (t * prod_list s) (data (tensor (heap \<sigma> ! x)))),
                         shape = s \<rparr>"
  from pick_slice [OF X t] have p: "pick (tensor (heap \<sigma> ! x)) t = Inr v"
    and l: "length (data v) = prod_list s" and sh: "shape v = s"
    by (simp_all add: v_def)
  have o: "(tensor (heap \<sigma> ! step))\<lparr> data := data v \<rparr> = v"
    by (rule ndarray_overwrite) (simp add: S sh)
  have "assign (tensor (heap \<sigma> ! step)) v = Inr v"
    using S sh l o by (simp add: assign_def)
  with p have "assign_step step x t \<sigma>
       = Inr (\<sigma>\<lparr> heap := (heap \<sigma>)[step := (heap \<sigma> ! step)\<lparr> tensor := v \<rparr>] \<rparr>)"
    by (simp add: assign_step_def)
  with p l sh show ?thesis by blast
qed

lemma cpuStep_inv:
  fixes this :: "('a, 'c, 'w) TimeDistributed"
  assumes W: "pure_layer W I F"
    and X: "shape (tensor X) = T # s" "length (data (tensor X)) = T * prod_list s"
    and so: "\<And>v. shape v = s \<Longrightarrow> shape (F v) = so"
    and inv: "cpu_inv W I F X T s so x step out c k (this, \<sigma>)" and k: "k < T"
  shows "\<exists>this1 \<sigma>1. TimeDistributed_cpuStep step x k (this, \<sigma>) = Inr (this1, \<sigma>1)
           \<and> cpu_inv W I F X T s so x step out c (Suc k) (this1, \<sigma>1)"
proof -
  from inv have wc: "wrappedClass this = W" and iw: "I (wrappedLayer this)"
    and cnt: "wrappedCalls this = c + k" and lo: "layerOutput this = Some out"
    and vx: "x < length (heap \<sigma>)" and vs: "step < length (heap \<sigma>)"
    and vo: "out < length (heap \<sigma>)"
    and ne: "x \<noteq> step" "out \<noteq> step" "x \<noteq> out"
    and hx: "heap \<sigma> ! x = X"
    and S: "shape (tensor (heap \<sigma> ! step)) = s"
           "length (data (tensor (heap \<sigma> ! step))) = prod_list s"
    and O: "shape (tensor (heap \<sigma> ! out)) = T # so"
           "length (data (tensor (heap \<sigma> ! out))) = T * prod_list so"
    and prev: "\<forall>t<k. \<exists>v. pick (tensor X) t = Inr v \<and> pick (tensor (heap \<sigma> ! out)) t = Inr (F v)"
    by (simp_all add: cpu_inv_def)
  from assign_step_ok [OF vx vs X [folded hx] k S] hx obtain v where
    pv: "pick (tensor X) k = Inr v" and sv: "shape v = s" and lv: "length (data v) = prod_list s"
    and a1: "assign_step step x k \<sigma>
               = Inr (\<sigma>\<lparr> heap := (heap \<sigma>)[step := (heap \<sigma> ! step)\<lparr> tensor := v \<rparr>] \<rparr>)"
    by auto
  define \<sigma>1 where "\<sigma>1 = \<sigma>\<lparr> heap := (heap \<sigma>)[step := (heap \<sigma> ! step)\<lparr> tensor := v \<rparr>] \<rparr>"
  have l1: "length (heap \<sigma>1) = length (heap \<sigma>)" by (simp add: \<sigma>1_def)
  have x1: "heap \<sigma>1 ! x = X" using ne vx hx by (simp add: \<sigma>1_def)
  have o1: "heap \<sigma>1 ! out = heap \<sigma> ! out" using ne vo by (simp add: \<sigma>1_def)
  have s1: "tensor (heap \<sigma>1 ! step) = v" using vs by (simp add: \<sigma>1_def)
  have vs1: "step < length (heap \<sigma>1)" using vs l1 by simp
  from pure_layer_call [OF W iw vs1] obtain r1 w1 \<sigma>2 where
    c: "call_method W (wrappedLayer this) step \<sigma>1 = Inr (Some r1, w1, \<sigma>2)" and iw1: "I w1"
    and vr: "r1 < length (heap \<sigma>2)" and l2: "length (heap \<sigma>1) \<le> length (heap \<sigma>2)"
    and p2: "\<And>i. i < length (heap \<sigma>1) \<Longrightarrow> heap \<sigma>2 ! i = heap \<sigma>1 ! i"
    and f: "tensor (heap \<sigma>2 ! r1) = F (tensor (heap \<sigma>1 ! step))"
    by blast
  define this1 where "this1 = this\<lparr> wrappedLayer := w1, wrappedCalls := wrappedCalls this + 1 \<rparr>"
  have a2: "TimeDistributed_callWrapped this step \<sigma>1 = Inr (r1, this1, \<sigma>2)"
    using c wc by (simp add: TimeDistributed_callWrapped_def this1_def Let_def)
  have x2: "heap \<sigma>2 ! x = X" using p2 [of x] vx l1 x1 by simp
  have o2: "heap \<sigma>2 ! out = heap \<sigma> ! out" using p2 [of out] vo l1 o1 by simp
  have s2: "tensor (heap \<sigma>2 ! step) = v" using p2 [of step] vs1 s1 by simp
  have fv: "tensor (heap \<sigma>2 ! r1) = F v" using f s1 by simp
  have sf: "shape (F v) = so" using so sv by simp
  from W lv sv have lf: "length (data (F v)) = prod_list so"
    unfolding pure_layer_def using sf by (metis)
  from assign_pick_ok [OF O sf lf k] obtain d where
    ad: "assign_pick (tensor (heap \<sigma> ! out)) k (F v) = Inr d" and sd: "shape d = T # so"
    and ld: "length (data d) = T * prod_list so" and pk: "pick d k = Inr (F v)"
    and po: "\<forall>t<T. t \<noteq> k \<longrightarrow> pick d t = pick (tensor (heap \<sigma> ! out)) t"
    by blast
  define \<sigma>3 where "\<sigma>3 = \<sigma>2\<lparr> heap := (heap \<sigma>2)[out := (heap \<sigma>2 ! out)\<lparr> tensor := d \<rparr>] \<rparr>"
  have lo1: "layerOutput this1 = Some out" using lo by (simp add: this1_def)
  have a3: "TimeDistributed_writeOutput this1 k r1 \<sigma>2 = Inr \<sigma>3"
    using lo1 ad by (simp add: TimeDistributed_writeOutput_def assign_output_def o2 fv \<sigma>3_def)
  have r: "TimeDistributed_cpuStep step x k (this, \<sigma>) = Inr (this1, \<sigma>3)"
    using a1 a2 a3 by (simp add: TimeDistributed_cpuStep_def \<sigma>1_def [symmetric])
  have l3: "length (heap \<sigma>3) = length (heap \<sigma>2)" by (simp add: \<sigma>3_def)
  have vo2: "out < length (heap \<sigma>2)" using vo l1 l2 by simp
  have x3: "heap \<sigma>3 ! x = X" using ne x2 by (simp add: \<sigma>3_def)
  have s3: "tensor (heap \<sigma>3 ! step) = v" using ne s2 by (simp add: \<sigma>3_def)
  have o3: "tensor (heap \<sigma>3 ! out) = d" using vo2 by (simp add: \<sigma>3_def)
  have picks: "\<forall>t<Suc k. \<exists>u. pick (tensor X) t = Inr u \<and> pick (tensor (heap \<sigma>3 ! out)) t = Inr (F u)"
  proof (intro allI impI)
    fix t assume t: "t < Suc k"
    show "\<exists>u. pick (tensor X) t = Inr u \<and> pick (tensor (heap \<sigma>3 ! out)) t = Inr (F u)"
    proof (cases "t = k")
      case True
      then show ?thesis using pv pk o3 by simp
    next
      case False
      with t have tk: "t < k" by simp
      with k have "t < T" by simp
      with po False have "pick d t = pick (tensor (heap \<sigma> ! out)) t" by simp
      with prev tk o3 show ?thesis by simp
    qed
  qed
  have "cpu_inv W I F X T s so x step out c (Suc k) (this1, \<sigma>3)"
    unfolding cpu_inv_def using wc iw1 cnt lo1 vx vs vo l1 l2 l3 ne x3 s3 o3 sv lv sd ld picks
    by (simp add: this1_def)
  with r show ?thesis by blast
qed

lemma cpu_loop_inv:
  fixes this :: "('a, 'c, 'w) TimeDistributed"
  assumes W: "pure_layer W I F"
    and X: "shape (tensor X) = T # s" "length (data (tensor X)) = T * prod_list s"
    and so: "\<And>v. shape v = s \<Longrightarrow> shape (F v) = so"
    and inv: "cpu_inv W I F X T s so x step out c k (this, \<sigma>)" and k: "k \<le> T"
  shows "\<exists>this1 \<sigma>1. for_loop [k..<T] (TimeDistributed_cpuStep step x) (this, \<sigma>) = Inr (this1, \<sigma>1)
           \<and> cpu_inv W I F X T s so x step out c T (this1, \<sigma>1)"
  using inv k
proof (induction "T - k" arbitrary: k this \<sigma>)
  case 0
  then have "k = T" by simp
  with "0.prems" show ?case by simp
next
  case (Suc n)
  then have k: "k < T" by simp
  from cpuStep_inv [OF W X so Suc.prems(1) k] obtain this1 \<sigma>1 where
    b: "TimeDistributed_cpuStep step x k (this, \<sigma>) = Inr (this1, \<sigma>1)"
    and i: "cpu_inv W I F X T s so x step out c (Suc k) (this1, \<sigma>1)" by blast
  from Suc.hyps(2) have n: "n = T - Suc k" by simp
  from k have "Suc k \<le> T" by simp
  from Suc.hyps(1) [OF n i this] obtain this2 \<sigma>2 where
    "for_loop [Suc k..<T] (TimeDistributed_cpuStep step x) (this1, \<sigma>1) = Inr (this2, \<sigma>2)"
    and "cpu_inv W I F X T s so x step out c T (this2, \<sigma>2)" by blast
  with b k show ?case by (simp add: upt_conv_Cons)
qed

lemma relu_layer_pure:
  "pure_layer (Activation_class example_env)
     (\<lambda>w. \<not> gpu w \<and> activation w = ''relu'' \<and> activationFunc w = Some relu)
     (\<lambda>a. tensor (relu (new_Tensor (data a) (shape a))))"
  unfolding pure_layer_def
proof (intro conjI allI impI)
  fix w :: "int Activation" and r and \<sigma> :: "int world"
  assume a: "(\<not> gpu w \<and> activation w = ''relu'' \<and> activationFunc w = Some relu)
             \<and> r < length (heap \<sigma>)"
  define out where "out = length (heap \<sigma>)"
  define t where "t = relu (new_Tensor (data (tensor (heap \<sigma> ! r))) (shape (tensor (heap \<sigma> ! r))))"
  define \<sigma>1 where "\<sigma>1 = \<sigma>\<lparr> heap := heap \<sigma> @ [t], log := log \<sigma> @ [ApplyActivation ''relu''] \<rparr>"
  have "call_method (Activation_class example_env) w r \<sigma>
          = Inr (Some out, w\<lparr> layerOutput := Some out \<rparr>, \<sigma>1)"
    using a by (simp add: Activation_class_def Activation_call_def Activation_callCPU_def
        alloc_def emit_def Let_def out_def t_def \<sigma>1_def)
  moreover have "out < length (heap \<sigma>1)" "take (length (heap \<sigma>)) (heap \<sigma>1) = heap \<sigma>"
    "tensor (heap \<sigma>1 ! out) = tensor t"
    by (simp_all add: out_def \<sigma>1_def)
  ultimately show "\<exists>r1 w1 \<sigma>1. call_method (Activation_class example_env) w r \<sigma> = Inr (Some r1, w1, \<sigma>1)
       \<and> (\<not> gpu w1 \<and> activation w1 = ''relu'' \<and> activationFunc w1 = Some relu)
       \<and> r1 < length (heap \<sigma>1)
       \<and> take (length (heap \<sigma>)) (heap \<sigma>1) = heap \<sigma>
       \<and> tensor (heap \<sigma>1 ! r1) = tensor (relu (new_Tensor (data (tensor (heap \<sigma> ! r)))
                                                (shape (tensor (heap \<sigma> ! r)))))"
    using a by (simp add: t_def)
next
  fix a b :: "int ndarray"
  assume "shape a = shape b"
  then show "shape (tensor (relu (new_Tensor (data a) (shape a))))
           = shape (tensor (relu (new_Tensor (data b) (shape b))))"
    by (simp add: relu_def new_Tensor_def)
next
  fix a :: "int ndarray"
  assume "length (data a) = prod_list (shape a)"
  then show "length (data (tensor (relu (new_Tensor (data a) (shape a)))))
           = prod_list (shape (tensor (relu (new_Tensor (data a) (shape a)))))"
    by (simp add: relu_def new_Tensor_def)
qed

subsection \<open>Evaluation of the instances\<close>

text \<open>
  The definitions as rewrite rules that fire on an explicit world only, so that a call on
  a concrete input is evaluated step by step, innermost first.
\<close>

lemmas world_evals =
  createGLTexture_def [where \<sigma> = "\<lparr> heap = h, textures = t, log = l \<rparr>" for h t l]
  reshapeTo2DSquare_def [where \<sigma> = "\<lparr> heap = h, textures = t, log = l \<rparr>" for h t l]
  reshapeFrom2DSquare_def [where \<sigma> = "\<lparr> heap = h, textures = t, log = l \<rparr>" for h t l]
  reshapeFrom2D_def [where \<sigma> = "\<lparr> heap = h, textures = t, log = l \<rparr>" for h t l]
  transferFromGLTexture_def [where \<sigma> = "\<lparr> heap = h, textures = t, log = l \<rparr>" for h t l]
  runProgram_def [where \<sigma> = "\<lparr> heap = h, textures = t, log = l \<rparr>" for h t l]
  alloc_def [where \<sigma> = "\<lparr> heap = h, textures = t, log = l \<rparr>" for h t l]
  emit_def [where \<sigma> = "\<lparr> heap = h, textures = t, log = l \<rparr>" for h t l]
  readTexture_def [where \<sigma> = "\<lparr> heap = h, textures = t, log = l \<rparr>" for h t l]
  lookupTexture_def [where \<sigma> = "\<lparr> heap = h, textures = t, log = l \<rparr>" for h t l]
  sliceTexture_def [where \<sigma> = "\<lparr> heap = h, textures = t, log = l \<rparr>" for h t l]
  Tensor_createGLTexture_def [where \<sigma> = "\<lparr> heap = h, textures = t, log = l \<rparr>" for h t l]
  make_sliceIndices_def [where \<sigma> = "\<lparr> heap = h, textures = t, log = l \<rparr>" for h t l]
  make_outputIndices_def [where \<sigma> = "\<lparr> heap = h, textures = t, log = l \<rparr>" for h t l]
  Activation_callGPU_def [where \<sigma> = "\<lparr> heap = h, textures = t, log = l \<rparr>" for h t l]
  Activation_createOutput_def [where \<sigma> = "\<lparr> heap = h, textures = t, log = l \<rparr>" for h t l]
  Activation_copyLayout_def [where \<sigma> = "\<lparr> heap = h, textures = t, log = l \<rparr>" for h t l]
  TimeDistributed_call_def [where \<sigma> = "\<lparr> heap = h, textures = t, log = l \<rparr>" for h t l]
  TimeDistributed_callGPU_def [where \<sigma> = "\<lparr> heap = h, textures = t, log = l \<rparr>" for h t l]
  TimeDistributed_prepare_def [where \<sigma> = "\<lparr> heap = h, textures = t, log = l \<rparr>" for h t l]
  TimeDistributed_steps_def [where \<sigma> = "\<lparr> heap = h, textures = t, log = l \<rparr>" for h t l]
  TimeDistributed_inputTexture_def [where \<sigma> = "\<lparr> heap = h, textures = t, log = l \<rparr>" for h t l]
  TimeDistributed_createSlice_def [where \<sigma> = "\<lparr> heap = h, textures = t, log = l \<rparr>" for h t l]
  TimeDistributed_selectSlice_def [where \<sigma> = "\<lparr> heap = h, textures = t, log = l \<rparr>" for h t l]
  TimeDistributed_callWrappedGPU_def [where \<sigma> = "\<lparr> heap = h, textures = t, log = l \<rparr>" for h t l]
  TimeDistributed_createOutput_def [where \<sigma> = "\<lparr> heap = h, textures = t, log = l \<rparr>" for h t l]
  TimeDistributed_writeSlice_def [where \<sigma> = "\<lparr> heap = h, textures = t, log = l \<rparr>" for h t l]
  TimeDistributed_createIndexMap_def [where \<sigma> = "\<lparr> heap = h, textures = t, log = l \<rparr>" for h t l]
  TimeDistributed_createOutputIndexMap_def [where \<sigma> = "\<lparr> heap = h, textures = t, log = l \<rparr>" for h t l]
  TimeDistributed_loopBody_def [where s = "(a, \<lparr> heap = h, textures = t, log = l \<rparr>)" for a h t l]
  TimeDistributed_indexMapStep_def [where s = "(a, \<lparr> heap = h, textures = t, log = l \<rparr>)" for a h t l]
  TimeDistributed_outputIndexMapStep_def [where s = "(a, \<lparr> heap = h, textures = t, log = l \<rparr>)" for a h t l]

lemmas value_evals =
  Tensor_reshapeTo2DSquare_def Tensor_reshapeFrom2DSquare_def new_Tensor_def
  indexMapTexture_def pick_def assign_def assign_pick_def ceil_sqrt_def Activation_class_def
  Let_def upt_conv_Cons

lemmas instance_defs =
  example_wrapper_def video_world_def relu_gpu_layer_def terminal_relu_layer_def example_env_def
  example_world_def relu_def relu_gpu_attrs_def example_layers_def empty_world_def
  reshaped_world_def



lemma eval_relu_gpu:
  "\<exists>this1 \<sigma>1. Activation_callGPU example_env relu_gpu_layer 0 example_world = Inr (this1, \<sigma>1)"
  by (simp add: world_evals value_evals instance_defs)




lemma eval_terminal_relu_twice:
  "\<exists>this1 \<sigma>1 this2 \<sigma>2.
      Activation_callGPU example_env terminal_relu_layer 0 video_world = Inr (this1, \<sigma>1)
    \<and> Activation_callGPU example_env this1 1 \<sigma>1 = Inr (this2, \<sigma>2)"
  by (simp add: world_evals value_evals instance_defs)

lemma eval_wrapper_video:
  "\<exists>td1 \<tau>1. TimeDistributed_callGPU example_env example_wrapper 0 video_world = Inr (td1, \<tau>1)"
  by (simp add: world_evals value_evals instance_defs)

lemma eval_wrapper_video_twice:
  "\<exists>td1 \<tau>1 td2 \<tau>2.
      TimeDistributed_callGPU example_env example_wrapper 0 video_world = Inr (td1, \<tau>1)
    \<and> TimeDistributed_callGPU example_env td1 1 \<tau>1 = Inr (td2, \<tau>2)"
  by (simp add: world_evals value_evals instance_defs)

lemma eval_wrapper_call_twice:
  "\<exists>r1 td1 \<tau>1 r2 td2 \<tau>2.
      TimeDistributed_call example_env example_wrapper 0 video_world = Inr (r1, td1, \<tau>1)
    \<and> rowIndexMaps td1 \<noteq> None \<and> colIndexMaps td1 \<noteq> None
    \<and> outputRowIndexMaps td1 \<noteq> None \<and> outputColIndexMaps td1 \<noteq> None
    \<and> TimeDistributed_call example_env td1 1 \<tau>1 = Inr (r2, td2, \<tau>2)"
  by (simp add: world_evals value_evals instance_defs)

lemma eval_wrapper_new:
  "\<exists>td \<sigma>1. TimeDistributed_new example_layers relu_gpu_attrs empty_world = Inr (td, \<sigma>1)"
  by (simp add: TimeDistributed_new_def Activation_new_def Layer_new_def Layer.defs
        Activation.defs TimeDistributed.defs compileProgram_def emit_def Let_def
        Activation_class_def instance_defs)

section \<open>Properties of Activation\<close>

lemma Activation_new_cpu:
  "Activation_new E \<lparr> attrs_activation = a, attrs_gpu = False \<rparr> \<sigma> =
     Inr (\<lparr> layerClass = ''Activation'', gpu = False, outbound = [], layerOutput = None,
            activation = (case a of None \<Rightarrow> ''linear'' | Some n \<Rightarrow> n),
            activationFunc = activations E (case a of None \<Rightarrow> ''linear'' | Some n \<Rightarrow> n),
            program = None \<rparr>, \<sigma>)"
  by (simp add: Activation_new_def Layer_new_def Layer.defs Activation.defs Let_def)

lemma Activation_new_fields:
  assumes "Activation_new E attrs \<sigma> = Inr (this, \<sigma>1)"
  shows "activation this = (case attrs_activation attrs of None \<Rightarrow> ''linear'' | Some n \<Rightarrow> n)"
    and "activationFunc this = activations E (activation this)"
    and "gpu this = attrs_gpu attrs"
    and "outbound this = []"
    and "layerOutput this = None"
  using assms
  by (auto simp: Activation_new_def Layer_new_def Layer.defs Activation.defs Let_def
        compileProgram_def split: if_splits option.splits)

lemma Activation_new_error:
  "Activation_new E attrs \<sigma> = Inl e \<Longrightarrow>
     attrs_gpu attrs \<and> e = ModuleNotFound (case attrs_activation attrs of None \<Rightarrow> ''linear'' | Some n \<Rightarrow> n)"
  by (auto simp: Activation_new_def Layer_new_def Layer.defs Activation.defs Let_def
        compileProgram_def split: if_splits option.splits)

text \<open>
  C4. An Activation layer named \<open>linear\<close> returns the very tensor object it is given, on
  either backend (\<open>gpu\<close> is arbitrary): the reference returned is \<open>x\<close>, and the world
  after the call is the world before it, so no tensor was allocated, \<open>x\<close> was not
  written, no device allocation was touched and no backend invocation was recorded.
\<close>

theorem Activation_call_linear:
  assumes "activation this = ''linear''"
  shows "Activation_call E this x \<sigma> = Inr (Some x, this\<lparr> layerOutput := Some x \<rparr>, \<sigma>)"
  using assms by (simp add: Activation_call_def)

theorem Activation_call_linear_witness:
  "activation linear_layer = ''linear'' \<and> gpu linear_layer \<and>
   Activation_call example_env linear_layer 0 example_world =
     Inr (Some 0, linear_layer\<lparr> layerOutput := Some 0 \<rparr>, example_world)"
  using Activation_call_linear [of linear_layer example_env 0 example_world]
  by (simp add: linear_layer_def)

text \<open>
  C7. On the CPU path, with a name other than \<open>linear\<close> whose function \<open>f\<close> is in the
  catalog, the call allocates exactly one tensor, at a reference that did not exist
  before; that tensor is \<open>f\<close> applied to a new tensor made of the input's buffer and
  shape (for an input whose buffer has \<open>product(shape)\<close> cells, a copy of its array);
  every tensor that existed before, \<open>x\<close> among them, is left as it was, and no device
  allocation is touched.
\<close>

theorem Activation_callCPU_frame:
  assumes "\<not> gpu this" and "activation this \<noteq> ''linear''"
    and "activationFunc this = Some f" and "x < length (heap \<sigma>)"
  shows "\<exists>out \<sigma>1 copy.
           Activation_call E this x \<sigma> = Inr (Some out, this\<lparr> layerOutput := Some out \<rparr>, \<sigma>1)
         \<and> out = length (heap \<sigma>)
         \<and> copy = new_Tensor (data (tensor (heap \<sigma> ! x))) (shape (tensor (heap \<sigma> ! x)))
         \<and> (length (data (tensor (heap \<sigma> ! x))) = prod_list (shape (tensor (heap \<sigma> ! x)))
              \<longrightarrow> tensor copy = tensor (heap \<sigma> ! x))
         \<and> heap \<sigma>1 = heap \<sigma> @ [f copy]
         \<and> heap \<sigma>1 ! x = heap \<sigma> ! x
         \<and> textures \<sigma>1 = textures \<sigma>"
  using assms
  by (auto simp: Activation_call_def Activation_callCPU_def alloc_def emit_def bindE_def
        Let_def nth_append new_Tensor_def)

theorem Activation_callCPU_frame_witness:
  "\<not> gpu relu_layer \<and> activation relu_layer \<noteq> ''linear''
   \<and> activationFunc relu_layer = Some relu \<and> 0 < length (heap example_world)
   \<and> (\<exists>\<sigma>1. Activation_call example_env relu_layer 0 example_world
               = Inr (Some 1, relu_layer\<lparr> layerOutput := Some 1 \<rparr>, \<sigma>1)
          \<and> data (tensor (heap \<sigma>1 ! 1)) = [0, 2, 0, 4, 0, 5]
          \<and> shape (tensor (heap \<sigma>1 ! 1)) = [2, 3]
          \<and> data (tensor (heap \<sigma>1 ! 0)) = [- 1, 2, - 3, 4, 0, 5])"
  using Activation_callCPU_frame [of relu_layer relu 0 example_world example_env]
  by (auto simp: relu_layer_def example_world_def new_Tensor_def relu_def)

text \<open>
  C10. An Activation layer constructed from a configuration without an activation name
  is the \<open>linear\<close> variant: construction succeeds (on the device backend provided the
  shader source of \<open>linear\<close> can be required), the layer's name is \<open>linear\<close>, and every
  call of it, on every input and in every world, returns the input object and leaves the
  world as it was.
\<close>

theorem Activation_default_is_linear:
  assumes "attrs_activation attrs = None"
    and "attrs_gpu attrs \<longrightarrow> shaders E ''linear'' \<noteq> None"
  shows "\<exists>this \<sigma>1.
           Activation_new E attrs \<sigma> = Inr (this, \<sigma>1)
         \<and> activation this = ''linear''
         \<and> heap \<sigma>1 = heap \<sigma>
         \<and> (\<forall>x \<tau>. Activation_call E this x \<tau> = Inr (Some x, this\<lparr> layerOutput := Some x \<rparr>, \<tau>))"
  using assms
  by (auto simp: Activation_new_def Layer_new_def Layer.defs Activation.defs Let_def
        compileProgram_def emit_def Activation_call_def split: option.splits)

theorem Activation_default_is_linear_witness:
  "attrs_activation \<lparr> attrs_activation = None, attrs_gpu = False \<rparr> = None
   \<and> (\<exists>this. Activation_new example_env \<lparr> attrs_activation = None, attrs_gpu = False \<rparr> empty_world
                 = Inr (this, empty_world)
          \<and> activation this = ''linear''
          \<and> Activation_call example_env this 0 example_world
              = Inr (Some 0, this\<lparr> layerOutput := Some 0 \<rparr>, example_world))"
  using Activation_default_is_linear
          [of "\<lparr> attrs_activation = None, attrs_gpu = False \<rparr>" example_env empty_world]
  by (auto simp: Activation_new_cpu)

text \<open>
  C3, as the code has it. For a name that is not in the catalog, construction on the CPU
  backend raises nothing: it returns a layer of that name whose \<open>activationFunc\<close> is
  undefined, in an unchanged world. A call of that layer is reached with the unrecognised
  name and, unless the name is \<open>linear\<close>, it is the call that fails, with a TypeError.
  On neither backend does construction raise a ConfigurationError.
\<close>

theorem Activation_new_unknown_name:
  assumes "activations E name = None"
  shows "\<exists>this.
           Activation_new E \<lparr> attrs_activation = Some name, attrs_gpu = False \<rparr> \<sigma> = Inr (this, \<sigma>)
         \<and> activation this = name \<and> activationFunc this = None \<and> \<not> gpu this
         \<and> (name \<noteq> ''linear'' \<longrightarrow>
              (\<forall>x \<tau>. Activation_call E this x \<tau>
                       = Inl (TypeError ''this.activationFunc is not a function'')))
         \<and> (\<forall>g \<tau> m. Activation_new E \<lparr> attrs_activation = Some name, attrs_gpu = g \<rparr> \<tau>
                       \<noteq> Inl (ConfigurationError m))"
proof -
  have no_cfg: "\<forall>g \<tau> m. Activation_new E \<lparr> attrs_activation = Some name, attrs_gpu = g \<rparr> \<tau>
                  \<noteq> Inl (ConfigurationError m)"
    by (auto dest: Activation_new_error)
  show ?thesis
    using assms no_cfg
    by (simp add: Activation_new_cpu Activation_call_def Activation_callCPU_def alloc_def
          bindE_def Let_def)
qed

theorem Activation_new_unknown_name_witness:
  "activations example_env ''bogus'' = None
   \<and> Activation_new example_env \<lparr> attrs_activation = Some ''bogus'', attrs_gpu = False \<rparr> empty_world
       = Inr (bogus_layer, empty_world)
   \<and> Activation_call example_env bogus_layer 0 example_world
       = Inl (TypeError ''this.activationFunc is not a function'')"
  using Activation_new_unknown_name [of example_env "''bogus''" empty_world]
  by (auto simp: example_env_def Activation_new_cpu bogus_layer_def)

text \<open>
  C3, as the claim states it, fails: the catalog of \<open>example_env\<close> has no \<open>bogus\<close>, yet
  constructing an Activation layer of that name returns a layer and no error, and the
  failure only comes when the layer is called.
\<close>

theorem Activation_new_unknown_name_counterexample:
  "activations example_env ''bogus'' = None
   \<and> Activation_new example_env \<lparr> attrs_activation = Some ''bogus'', attrs_gpu = False \<rparr> empty_world
       = Inr (bogus_layer, empty_world)
   \<and> Activation_call example_env bogus_layer 0 example_world
       = Inl (TypeError ''this.activationFunc is not a function'')"
  by (simp add: example_env_def Activation_new_cpu bogus_layer_def Activation_call_def
        Activation_callCPU_def alloc_def bindE_def Let_def)

section \<open>Properties of the TimeDistributed constructor\<close>

text \<open>
  C9. Without a wrapped-layer entry in the configuration the constructor raises the
  ConfigurationError of \<open>throwError\<close> with the text \<open>wrapped layer is undefined.\<close>,
  whatever the catalog holds, so that no class of the catalog was looked up or
  instantiated. With an entry, an error of the constructor is never that check: it is
  the failed lookup of the class name or the error the wrapped layer's own constructor
  raised.
\<close>

theorem TimeDistributed_new_requires_layer:
  "(attrs_layer attrs = None \<longrightarrow>
      (\<forall>layers. TimeDistributed_new layers attrs \<sigma>
                  = Inl (ConfigurationError ''wrapped layer is undefined.'')))
   \<and> (\<forall>l e. attrs_layer attrs = Some l \<and> TimeDistributed_new layers attrs \<sigma> = Inl e \<longrightarrow>
         (layers (class_name l) = None
            \<and> e = TypeError ''layers[layer.class_name] is not a constructor'')
       \<or> (\<exists>W. layers (class_name l) = Some W
            \<and> construct W (config l) (attrs_td_gpu attrs) \<sigma> = Inl e))"
  by (auto simp: TimeDistributed_new_def throwError_def Let_def bindE_def
        compileProgram_def split: option.splits sum.splits if_splits prod.splits)

theorem TimeDistributed_new_requires_layer_witness:
  "attrs_layer no_layer_attrs = None
   \<and> TimeDistributed_new example_layers no_layer_attrs empty_world
       = Inl (ConfigurationError ''wrapped layer is undefined.'')
   \<and> attrs_layer dense_attrs \<noteq> None
   \<and> example_layers ''Dense'' = None
   \<and> TimeDistributed_new example_layers dense_attrs empty_world
       = Inl (TypeError ''layers[layer.class_name] is not a constructor'')"
  using TimeDistributed_new_requires_layer [of no_layer_attrs empty_world example_layers]
    TimeDistributed_new_requires_layer [of dense_attrs empty_world example_layers]
  by (simp add: no_layer_attrs_def dense_attrs_def example_layers_def TimeDistributed_new_def)

section \<open>Properties of the device path\<close>



text \<open>
  C5. A layer without output is called twice on the device path, with any two inputs.
  The output tensor created by the first call is the output of the second call, and it
  holds the same texture handle after either call; for the wrapper the scratch copy is
  the same as well. (For the wrapper, under the same assumption on the wrapped layer as
  in C2.)
\<close>

theorem output_resources_reused:
  fixes this :: "'a::zero Activation" and td :: "('a, 'c, 'w) TimeDistributed"
  shows
  "(layerOutput this = None
      \<and> Activation_callGPU E this x \<sigma> = Inr (this1, \<sigma>1)
      \<and> Activation_callGPU E this1 x' \<sigma>1 = Inr (this2, \<sigma>2)
    \<longrightarrow> (\<exists>out h. layerOutput this1 = Some out \<and> layerOutput this2 = Some out
            \<and> out < length (heap \<sigma>1) \<and> out < length (heap \<sigma>2)
            \<and> glTexture (heap \<sigma>1 ! out) = Some h \<and> glTexture (heap \<sigma>2 ! out) = Some h))
 \<and> (stays_resident (wrappedClass td) I \<and> I (wrappedLayer td) \<and> layerOutput td = None
      \<and> TimeDistributed_callGPU E td y \<tau> = Inr (td1, \<tau>1)
      \<and> TimeDistributed_callGPU E td1 y' \<tau>1 = Inr (td2, \<tau>2)
    \<longrightarrow> (\<exists>out h. layerOutput td1 = Some out \<and> layerOutput td2 = Some out
            \<and> outputCopy td2 = outputCopy td1
            \<and> out < length (heap \<tau>1) \<and> out < length (heap \<tau>2)
            \<and> glTexture (heap \<tau>1 ! out) = Some h \<and> glTexture (heap \<tau>2 ! out) = Some h))"
proof (intro conjI impI)
  assume a: "layerOutput this = None
      \<and> Activation_callGPU E this x \<sigma> = Inr (this1, \<sigma>1)
      \<and> Activation_callGPU E this1 x' \<sigma>1 = Inr (this2, \<sigma>2)"
  then have r: "output_resident this \<sigma>" by (simp add: output_resident_def)
  from Activation_callGPU_policy [OF _ r] a obtain out where
    o1: "layerOutput this1 = Some out"
    and tp: "terminal_policy ReshapeFrom2D (outbound this) out \<sigma> \<sigma>1"
    by fastforce
  from tp obtain h where v1: "out < length (heap \<sigma>1)" and g1: "glTexture (heap \<sigma>1 ! out) = Some h"
    by (auto simp: terminal_policy_def Let_def)
  from Activation_callGPU_reuse [OF _ o1 v1 g1] a
  have "layerOutput this2 = Some out \<and> out < length (heap \<sigma>2) \<and> glTexture (heap \<sigma>2 ! out) = Some h"
    by blast
  with o1 v1 g1 show "\<exists>out h. layerOutput this1 = Some out \<and> layerOutput this2 = Some out
            \<and> out < length (heap \<sigma>1) \<and> out < length (heap \<sigma>2)
            \<and> glTexture (heap \<sigma>1 ! out) = Some h \<and> glTexture (heap \<sigma>2 ! out) = Some h"
    by blast
next
  assume a: "stays_resident (wrappedClass td) I \<and> I (wrappedLayer td) \<and> layerOutput td = None
      \<and> TimeDistributed_callGPU E td y \<tau> = Inr (td1, \<tau>1)
      \<and> TimeDistributed_callGPU E td1 y' \<tau>1 = Inr (td2, \<tau>2)"
  then have r: "output_resident td \<tau>" by (simp add: output_resident_def)
  from a have w: "stays_resident (wrappedClass td) I" and i: "I (wrappedLayer td)"
    and c1: "TimeDistributed_callGPU E td y \<tau> = Inr (td1, \<tau>1)"
    and c2: "TimeDistributed_callGPU E td1 y' \<tau>1 = Inr (td2, \<tau>2)" by simp_all
  from TimeDistributed_callGPU_policy [OF w i c1 r] obtain out where
    o1: "layerOutput td1 = Some out"
    and tp: "terminal_policy ReshapeFrom2DSquare (outbound td) out \<tau> \<tau>1"
    and k: "keeps td td1" and i1: "I (wrappedLayer td1)"
    by blast
  from k w have w1: "stays_resident (wrappedClass td1) I" by (simp add: keeps_def)
  from tp obtain h where v1: "out < length (heap \<tau>1)" and g1: "glTexture (heap \<tau>1 ! out) = Some h"
    by (auto simp: terminal_policy_def Let_def)
  from TimeDistributed_callGPU_reuse [OF w1 i1 c2 o1 v1 g1] o1 v1 g1
  show "\<exists>out h. layerOutput td1 = Some out \<and> layerOutput td2 = Some out
            \<and> outputCopy td2 = outputCopy td1
            \<and> out < length (heap \<tau>1) \<and> out < length (heap \<tau>2)
            \<and> glTexture (heap \<tau>1 ! out) = Some h \<and> glTexture (heap \<tau>2 ! out) = Some h"
    by blast
qed

theorem output_resources_reused_witness:
  "layerOutput terminal_relu_layer = None
   \<and> (\<exists>this1 \<sigma>1 this2 \<sigma>2 out h.
         Activation_callGPU example_env terminal_relu_layer 0 video_world = Inr (this1, \<sigma>1)
       \<and> Activation_callGPU example_env this1 1 \<sigma>1 = Inr (this2, \<sigma>2)
       \<and> layerOutput this1 = Some out \<and> layerOutput this2 = Some out
       \<and> glTexture (heap \<sigma>1 ! out) = Some h \<and> glTexture (heap \<sigma>2 ! out) = Some h)
   \<and> stays_resident (wrappedClass example_wrapper) (\<lambda>w. outbound w \<noteq> [])
   \<and> outbound (wrappedLayer example_wrapper) \<noteq> []
   \<and> layerOutput example_wrapper = None
   \<and> (\<exists>td1 \<tau>1 td2 \<tau>2 out h.
         TimeDistributed_callGPU example_env example_wrapper 0 video_world = Inr (td1, \<tau>1)
       \<and> TimeDistributed_callGPU example_env td1 1 \<tau>1 = Inr (td2, \<tau>2)
       \<and> layerOutput td1 = Some out \<and> layerOutput td2 = Some out
       \<and> outputCopy td2 = outputCopy td1
       \<and> glTexture (heap \<tau>1 ! out) = Some h \<and> glTexture (heap \<tau>2 ! out) = Some h)"
proof -
  have n1: "layerOutput terminal_relu_layer = None" and n2: "layerOutput example_wrapper = None"
    by (simp_all add: terminal_relu_layer_def relu_gpu_layer_def example_wrapper_def)
  have w: "stays_resident (wrappedClass example_wrapper) (\<lambda>w. outbound w \<noteq> [])"
    by (simp add: example_wrapper_def Activation_stays_resident)
  have i: "outbound (wrappedLayer example_wrapper) \<noteq> []"
    by (simp add: example_wrapper_def relu_gpu_layer_def)
  from eval_terminal_relu_twice obtain a1 s1 a2 s2 where
    c1: "Activation_callGPU example_env terminal_relu_layer 0 video_world = Inr (a1, s1)"
    and c2: "Activation_callGPU example_env a1 1 s1 = Inr (a2, s2)" by blast
  from eval_wrapper_video_twice obtain t1 u1 t2 u2 where
    d1: "TimeDistributed_callGPU example_env example_wrapper 0 video_world = Inr (t1, u1)"
    and d2: "TimeDistributed_callGPU example_env t1 1 u1 = Inr (t2, u2)" by blast
  note t = output_resources_reused
  from t [where this = terminal_relu_layer and \<sigma> = video_world and E = example_env
             and x = 0 and ?this1.0 = a1 and ?\<sigma>1.0 = s1 and x' = 1
             and ?this2.0 = a2 and ?\<sigma>2.0 = s2] n1 c1 c2
  have p1: "\<exists>out h. layerOutput a1 = Some out \<and> layerOutput a2 = Some out
              \<and> glTexture (heap s1 ! out) = Some h \<and> glTexture (heap s2 ! out) = Some h"
    by blast
  from t [where td = example_wrapper and I = "\<lambda>w. outbound w \<noteq> []" and \<tau> = video_world
             and E = example_env and y = 0 and ?td1.0 = t1 and ?\<tau>1.0 = u1 and y' = 1
             and ?td2.0 = t2 and ?\<tau>2.0 = u2] w i n2 d1 d2
  have p2: "\<exists>out h. layerOutput t1 = Some out \<and> layerOutput t2 = Some out
              \<and> outputCopy t2 = outputCopy t1
              \<and> glTexture (heap u1 ! out) = Some h \<and> glTexture (heap u2 ! out) = Some h"
    by blast
  from n1 n2 w i c1 c2 d1 d2 p1 p2 show ?thesis by blast
qed

text \<open>
  C8. The two builders return at once, changing neither the wrapper nor the world, when
  their pair of collections exists; and a call of the wrapper, on either backend, leaves
  a pair of collections that exists exactly as it was.
\<close>

theorem index_maps_built_once:
  fixes this :: "('a::zero, 'c, 'w) TimeDistributed"
  shows
  "(rowIndexMaps this \<noteq> None \<and> colIndexMaps this \<noteq> None
      \<longrightarrow> TimeDistributed_createIndexMap this ix \<sigma> = Inr (this, \<sigma>))
 \<and> (outputRowIndexMaps this \<noteq> None \<and> outputColIndexMaps this \<noteq> None
      \<longrightarrow> TimeDistributed_createOutputIndexMap this ix \<sigma> = Inr (this, \<sigma>))
 \<and> (TimeDistributed_call E this x \<sigma> = Inr (r, this1, \<sigma>1)
      \<longrightarrow> (rowIndexMaps this \<noteq> None \<and> colIndexMaps this \<noteq> None
             \<longrightarrow> rowIndexMaps this1 = rowIndexMaps this \<and> colIndexMaps this1 = colIndexMaps this)
        \<and> (outputRowIndexMaps this \<noteq> None \<and> outputColIndexMaps this \<noteq> None
             \<longrightarrow> outputRowIndexMaps this1 = outputRowIndexMaps this
               \<and> outputColIndexMaps this1 = outputColIndexMaps this))"
proof (intro conjI impI)
  assume "rowIndexMaps this \<noteq> None \<and> colIndexMaps this \<noteq> None"
  then show "TimeDistributed_createIndexMap this ix \<sigma> = Inr (this, \<sigma>)"
    by (simp add: TimeDistributed_createIndexMap_def)
next
  assume "outputRowIndexMaps this \<noteq> None \<and> outputColIndexMaps this \<noteq> None"
  then show "TimeDistributed_createOutputIndexMap this ix \<sigma> = Inr (this, \<sigma>)"
    by (simp add: TimeDistributed_createOutputIndexMap_def)
next
  assume c: "TimeDistributed_call E this x \<sigma> = Inr (r, this1, \<sigma>1)"
  have m: "(rowIndexMaps this \<noteq> None \<and> colIndexMaps this \<noteq> None
             \<longrightarrow> rowIndexMaps this1 = rowIndexMaps this \<and> colIndexMaps this1 = colIndexMaps this)
        \<and> (outputRowIndexMaps this \<noteq> None \<and> outputColIndexMaps this \<noteq> None
             \<longrightarrow> outputRowIndexMaps this1 = outputRowIndexMaps this
               \<and> outputColIndexMaps this1 = outputColIndexMaps this)"
  proof (cases "gpu this")
    case True
    with c have "TimeDistributed_callGPU E this x \<sigma> = Inr (this1, \<sigma>1)"
      by (auto simp: TimeDistributed_call_def bindE_Inr)
    from TimeDistributed_callGPU_keeps [OF this, of "\<lambda>w. True"] show ?thesis
      by (simp add: keeps_def)
  next
    case False
    with c have "TimeDistributed_callCPU this x \<sigma> = Inr (this1, \<sigma>1)"
      by (auto simp: TimeDistributed_call_def bindE_Inr)
    from TimeDistributed_callCPU_frame [OF this, of "\<lambda>w. True"]
    have "this1\<lparr> wrappedLayer := wrappedLayer this, wrappedCalls := wrappedCalls this,
               layerOutput := layerOutput this \<rparr> = this" by simp
    from cpu_frame_fields [OF this] show ?thesis by simp
  qed
  {
    assume "rowIndexMaps this \<noteq> None \<and> colIndexMaps this \<noteq> None"
    with m show "rowIndexMaps this1 = rowIndexMaps this" "colIndexMaps this1 = colIndexMaps this"
      by simp_all
  }
  {
    assume "outputRowIndexMaps this \<noteq> None \<and> outputColIndexMaps this \<noteq> None"
    with m show "outputRowIndexMaps this1 = outputRowIndexMaps this"
      "outputColIndexMaps this1 = outputColIndexMaps this"
      by simp_all
  }
qed

theorem index_maps_built_once_witness:
  "\<exists>r1 td1 \<tau>1 r2 td2 \<tau>2.
      TimeDistributed_call example_env example_wrapper 0 video_world = Inr (r1, td1, \<tau>1)
    \<and> rowIndexMaps td1 \<noteq> None \<and> colIndexMaps td1 \<noteq> None
    \<and> outputRowIndexMaps td1 \<noteq> None \<and> outputColIndexMaps td1 \<noteq> None
    \<and> TimeDistributed_createIndexMap td1 None \<tau>1 = Inr (td1, \<tau>1)
    \<and> TimeDistributed_createOutputIndexMap td1 None \<tau>1 = Inr (td1, \<tau>1)
    \<and> TimeDistributed_call example_env td1 1 \<tau>1 = Inr (r2, td2, \<tau>2)
    \<and> rowIndexMaps td2 = rowIndexMaps td1 \<and> colIndexMaps td2 = colIndexMaps td1
    \<and> outputRowIndexMaps td2 = outputRowIndexMaps td1
    \<and> outputColIndexMaps td2 = outputColIndexMaps td1"
proof -
  from eval_wrapper_call_twice obtain r1 t1 u1 r2 t2 u2 where
    c1: "TimeDistributed_call example_env example_wrapper 0 video_world = Inr (r1, t1, u1)"
    and m: "rowIndexMaps t1 \<noteq> None \<and> colIndexMaps t1 \<noteq> None"
    and om: "outputRowIndexMaps t1 \<noteq> None \<and> outputColIndexMaps t1 \<noteq> None"
    and c2: "TimeDistributed_call example_env t1 1 u1 = Inr (r2, t2, u2)" by blast
  from index_maps_built_once [where this = t1 and ix = None and \<sigma> = u1 and E = example_env
         and x = 1 and r = r2 and ?this1.0 = t2 and ?\<sigma>1.0 = u2] m om c2
  have "TimeDistributed_createIndexMap t1 None u1 = Inr (t1, u1)
      \<and> TimeDistributed_createOutputIndexMap t1 None u1 = Inr (t1, u1)
      \<and> rowIndexMaps t2 = rowIndexMaps t1 \<and> colIndexMaps t2 = colIndexMaps t1
      \<and> outputRowIndexMaps t2 = outputRowIndexMaps t1
      \<and> outputColIndexMaps t2 = outputColIndexMaps t1"
    by blast
  with c1 m om c2 show ?thesis by blast
qed

text \<open>
  C6. The constructor of a wrapper around an Activation sets the outbound list of the
  wrapped layer to \<open>[null]\<close>; every call of the wrapper that returns leaves that list
  as it is; and a call of the device path of an Activation whose outbound list is not
  empty never reaches the transfer: it records no transfer off the device and no
  inversion of a reshape, stays on the device, has an output, and keeps that output
  resident.
\<close>

theorem wrapped_layer_never_materializes:
  fixes td :: "('a::zero, Activation_attrs, 'a Activation) TimeDistributed"
  shows
  "(attrs_layer attrs = Some l \<and> layers (class_name l) = Some (Activation_class E)
      \<and> TimeDistributed_new layers attrs \<sigma> = Inr (td, \<sigma>1)
    \<longrightarrow> wrappedClass td = Activation_class E \<and> outbound (wrappedLayer td) = [None])
 \<and> (wrappedClass td = Activation_class E \<and> outbound (wrappedLayer td) = [None]
      \<and> TimeDistributed_call E' td x \<sigma> = Inr (r, td1, \<sigma>1)
    \<longrightarrow> wrappedClass td1 = Activation_class E \<and> outbound (wrappedLayer td1) = [None])
 \<and> (outbound w \<noteq> [] \<and> Activation_callGPU E w sl \<sigma> = Inr (w1, \<sigma>1)
    \<longrightarrow> outbound w1 = outbound w
      \<and> layerOutput w1 \<noteq> None
      \<and> filter offdevice (new_events \<sigma> \<sigma>1) = []
      \<and> on_device \<sigma> \<sigma>1
      \<and> (output_resident w \<sigma> \<longrightarrow> output_resident w1 \<sigma>1))"
proof (intro conjI impI)
  assume a: "attrs_layer attrs = Some l \<and> layers (class_name l) = Some (Activation_class E)
      \<and> TimeDistributed_new layers attrs \<sigma> = Inr (td, \<sigma>1)"
  then have "wrappedClass td = Activation_class E \<and> outbound (wrappedLayer td) = [None]"
    by (auto simp: TimeDistributed_new_def Let_def bindE_Inr Layer.defs TimeDistributed.defs
          compileProgram_def Activation_class_def split: if_splits)
  then show "wrappedClass td = Activation_class E" "outbound (wrappedLayer td) = [None]"
    by simp_all
next
  assume a: "wrappedClass td = Activation_class E \<and> outbound (wrappedLayer td) = [None]
      \<and> TimeDistributed_call E' td x \<sigma> = Inr (r, td1, \<sigma>1)"
  have "wrappedClass td1 = Activation_class E \<and> outbound (wrappedLayer td1) = [None]"
  proof (cases "gpu td")
    case True
    with a have "TimeDistributed_callGPU E' td x \<sigma> = Inr (td1, \<sigma>1)"
      by (auto simp: TimeDistributed_call_def bindE_Inr)
    from TimeDistributed_callGPU_keeps [OF this, of "\<lambda>w. outbound w = [None]"] a
      Activation_stays_resident_eq [of "[None]" E]
    show ?thesis by (simp add: keeps_def)
  next
    case False
    with a have "TimeDistributed_callCPU td x \<sigma> = Inr (td1, \<sigma>1)"
      by (auto simp: TimeDistributed_call_def bindE_Inr)
    from TimeDistributed_callCPU_frame [OF this, of "\<lambda>w. outbound w = [None]"]
    have f: "td1\<lparr> wrappedLayer := wrappedLayer td, wrappedCalls := wrappedCalls td,
               layerOutput := layerOutput td \<rparr> = td"
      and i: "call_keeps (wrappedClass td) (\<lambda>w. outbound w = [None]) \<and> outbound (wrappedLayer td) = [None]
               \<longrightarrow> outbound (wrappedLayer td1) = [None]" by simp_all
    from cpu_frame_fields(1) [OF f] i a Activation_call_keeps [of E "[None]"]
    show ?thesis by simp
  qed
  then show "wrappedClass td1 = Activation_class E" "outbound (wrappedLayer td1) = [None]"
    by simp_all
next
  assume a: "outbound w \<noteq> [] \<and> Activation_callGPU E w sl \<sigma> = Inr (w1, \<sigma>1)"
  then have c: "Activation_callGPU E w sl \<sigma> = Inr (w1, \<sigma>1)" and ob: "outbound w \<noteq> []"
    by simp_all
  note r = Activation_callGPU_resident [OF c ob]
  from r show "outbound w1 = outbound w" "layerOutput w1 \<noteq> None" "on_device \<sigma> \<sigma>1"
    by simp_all
  from r show "filter offdevice (new_events \<sigma> \<sigma>1) = []" by (simp add: on_device_def)
  {
    assume "output_resident w \<sigma>"
    with r show "output_resident w1 \<sigma>1" by simp
  }
qed

theorem wrapped_layer_never_materializes_witness:
  "attrs_layer relu_gpu_attrs \<noteq> None
   \<and> example_layers ''Activation'' = Some (Activation_class example_env)
   \<and> (\<exists>td \<sigma>1.
         TimeDistributed_new example_layers relu_gpu_attrs empty_world = Inr (td, \<sigma>1)
       \<and> wrappedClass td = Activation_class example_env
       \<and> outbound (wrappedLayer td) = [None])
   \<and> outbound (wrappedLayer example_wrapper) = [None]
   \<and> (\<exists>r td1 \<sigma>1.
         TimeDistributed_call example_env example_wrapper 0 video_world = Inr (r, td1, \<sigma>1)
       \<and> outbound (wrappedLayer td1) = [None])
   \<and> outbound relu_gpu_layer \<noteq> []
   \<and> (\<exists>w1 \<sigma>1.
         Activation_callGPU example_env relu_gpu_layer 0 example_world = Inr (w1, \<sigma>1)
       \<and> filter offdevice (new_events example_world \<sigma>1) = []
       \<and> output_resident w1 \<sigma>1)"
proof -
  have a: "attrs_layer relu_gpu_attrs
             = Some \<lparr> class_name = ''Activation'',
                      config = \<lparr> attrs_activation = Some ''relu'', attrs_gpu = False \<rparr> \<rparr>"
    and l: "example_layers ''Activation'' = Some (Activation_class example_env)"
    by (simp_all add: relu_gpu_attrs_def example_layers_def)
  have wc: "wrappedClass example_wrapper = Activation_class example_env"
    and ob: "outbound (wrappedLayer example_wrapper) = [None]"
    and ob2: "outbound relu_gpu_layer \<noteq> []"
    and r: "output_resident relu_gpu_layer example_world"
    by (simp_all add: example_wrapper_def relu_gpu_layer_def output_resident_def)
  from eval_wrapper_new obtain t0 s0 where
    n: "TimeDistributed_new example_layers relu_gpu_attrs empty_world = Inr (t0, s0)" by blast
  from eval_wrapper_call_twice obtain r1 t1 u1 where
    c: "TimeDistributed_call example_env example_wrapper 0 video_world = Inr (r1, t1, u1)" by blast
  from eval_relu_gpu obtain a2 s2 where
    g: "Activation_callGPU example_env relu_gpu_layer 0 example_world = Inr (a2, s2)" by blast
  note t = wrapped_layer_never_materializes
  from t [where attrs = relu_gpu_attrs and layers = example_layers and E = example_env
            and \<sigma> = empty_world and td = t0 and ?\<sigma>1.0 = s0
            and l = "\<lparr> class_name = ''Activation'',
                      config = \<lparr> attrs_activation = Some ''relu'', attrs_gpu = False \<rparr> \<rparr>"]
    a l n
  have p1: "wrappedClass t0 = Activation_class example_env \<and> outbound (wrappedLayer t0) = [None]"
    by simp
  from t [where td = example_wrapper and E = example_env and E' = example_env and x = 0
            and \<sigma> = video_world and r = r1 and ?td1.0 = t1 and ?\<sigma>1.0 = u1] wc ob c
  have p2: "outbound (wrappedLayer t1) = [None]" by blast
  from t [where w = relu_gpu_layer and E = example_env and sl = 0 and \<sigma> = example_world
            and ?w1.0 = a2 and ?\<sigma>1.0 = s2] ob2 g r
  have p3: "filter offdevice (new_events example_world s2) = [] \<and> output_resident a2 s2"
    by blast
  from a l n c g ob ob2 p1 p2 p3 show ?thesis by auto
qed

section \<open>Properties of the CPU path of TimeDistributed\<close>

text \<open>
  C1. The wrapped layer computes a function \<open>F\<close> of the contents of its input
  (\<open>pure_layer\<close>), and the input \<open>x\<close> has shape \<open>T # s\<close> with \<open>T \<ge> 1\<close> and a buffer of
  that size. Then \<open>_callCPU\<close> returns; it has called the wrapped layer's \<open>call\<close> exactly
  \<open>T\<close> times; its output has shape \<open>T # stepOutputShape\<close>, where \<open>stepOutputShape\<close> is
  the shape of \<open>F\<close> of the first slice; and for every \<open>t < T\<close> the slice \<open>t\<close> of the
  output is \<open>F\<close> of the slice \<open>t\<close> of the input.
\<close>

theorem TimeDistributed_callCPU_timesteps:
  fixes this :: "('a::zero, 'c, 'w) TimeDistributed"
  assumes W: "pure_layer (wrappedClass this) I F" and iw: "I (wrappedLayer this)"
    and vx: "x < length (heap \<sigma>)"
    and X: "shape (tensor (heap \<sigma> ! x)) = T # s"
           "length (data (tensor (heap \<sigma> ! x))) = T * prod_list s"
    and T: "0 < T"
  shows "\<exists>out this1 \<sigma>1.
       TimeDistributed_callCPU this x \<sigma> = Inr (this1, \<sigma>1)
     \<and> wrappedCalls this1 = wrappedCalls this + T
     \<and> layerOutput this1 = Some out \<and> out < length (heap \<sigma>1)
     \<and> (\<exists>v. pick (tensor (heap \<sigma> ! x)) 0 = Inr v
            \<and> shape (tensor (heap \<sigma>1 ! out)) = T # shape (F v))
     \<and> (\<forall>t<T. \<exists>v. pick (tensor (heap \<sigma> ! x)) t = Inr v
                  \<and> pick (tensor (heap \<sigma>1 ! out)) t = Inr (F v))"
proof -
  define X0 where "X0 = heap \<sigma> ! x"
  define step where "step = length (heap \<sigma>)"
  define \<sigma>a where "\<sigma>a = \<sigma>\<lparr> heap := heap \<sigma> @ [new_Tensor [] s] \<rparr>"
  note X0 = X [folded X0_def]
  have al: "alloc (new_Tensor [] s) \<sigma> = (step, \<sigma>a)"
    by (simp add: alloc_def step_def \<sigma>a_def)
  have xa: "x < length (heap \<sigma>a)" and sa: "step < length (heap \<sigma>a)"
    and hxa: "heap \<sigma>a ! x = X0" and hsa: "heap \<sigma>a ! step = new_Tensor [] s"
    and xs: "x \<noteq> step"
    using vx by (simp_all add: \<sigma>a_def step_def X0_def nth_append)
  have Sa: "shape (tensor (heap \<sigma>a ! step)) = s"
    "length (data (tensor (heap \<sigma>a ! step))) = prod_list s"
    by (simp_all add: hsa new_Tensor_def)
  from assign_step_ok [OF xa sa X0 [folded hxa] T Sa] hxa obtain v0 where
    pv: "pick (tensor X0) 0 = Inr v0" and sv: "shape v0 = s"
    and lv: "length (data v0) = prod_list s"
    and a1: "assign_step step x 0 \<sigma>a
               = Inr (\<sigma>a\<lparr> heap := (heap \<sigma>a)[step := (heap \<sigma>a ! step)\<lparr> tensor := v0 \<rparr>] \<rparr>)"
    by auto
  define \<sigma>2 where "\<sigma>2 = \<sigma>a\<lparr> heap := (heap \<sigma>a)[step := (heap \<sigma>a ! step)\<lparr> tensor := v0 \<rparr>] \<rparr>"
  have l2: "length (heap \<sigma>2) = Suc step" by (simp add: \<sigma>2_def \<sigma>a_def step_def)
  have x2: "heap \<sigma>2 ! x = X0" using xs hxa by (simp add: \<sigma>2_def)
  have s2: "tensor (heap \<sigma>2 ! step) = v0" using sa by (simp add: \<sigma>2_def)
  have vs2: "step < length (heap \<sigma>2)" using l2 by simp
  from pure_layer_call [OF W iw vs2] obtain r1 w1 \<sigma>3 where
    c: "call_method (wrappedClass this) (wrappedLayer this) step \<sigma>2 = Inr (Some r1, w1, \<sigma>3)"
    and iw1: "I w1"
    and vr: "r1 < length (heap \<sigma>3)" and l3: "length (heap \<sigma>2) \<le> length (heap \<sigma>3)"
    and p3: "\<And>i. i < length (heap \<sigma>2) \<Longrightarrow> heap \<sigma>3 ! i = heap \<sigma>2 ! i"
    and f: "tensor (heap \<sigma>3 ! r1) = F (tensor (heap \<sigma>2 ! step))"
    by blast
  define this1 where "this1 = this\<lparr> wrappedLayer := w1, wrappedCalls := wrappedCalls this + 1 \<rparr>"
  have a2: "TimeDistributed_callWrapped this step \<sigma>2 = Inr (r1, this1, \<sigma>3)"
    using c by (simp add: TimeDistributed_callWrapped_def this1_def Let_def)
  have vx2: "x < length (heap \<sigma>2)" using vx l2 by (simp add: step_def)
  have x3: "heap \<sigma>3 ! x = X0" using p3 [OF vx2] x2 by simp
  have s3: "tensor (heap \<sigma>3 ! step) = v0" using p3 [OF vs2] s2 by simp
  have fv: "tensor (heap \<sigma>3 ! r1) = F v0" using f s2 by simp
  define so where "so = shape (F v0)"
  have so: "\<And>v. shape v = s \<Longrightarrow> shape (F v) = so"
    using W sv unfolding pure_layer_def so_def by metis
  from W lv sv have lf: "length (data (F v0)) = prod_list so"
    unfolding pure_layer_def so_def by metis
  define out where "out = length (heap \<sigma>3)"
  define \<sigma>4 where "\<sigma>4 = \<sigma>3\<lparr> heap := heap \<sigma>3 @ [new_Tensor [] (T # so)] \<rparr>"
  define this2 where "this2 = this1\<lparr> layerOutput := Some out \<rparr>"
  have a3: "TimeDistributed_newOutput this1 x r1 \<sigma>3 = Inr (this2, \<sigma>4)"
    using X0 by (simp add: TimeDistributed_newOutput_def x3 fv alloc_def Let_def so_def
        out_def \<sigma>4_def this2_def)
  have vx3: "x < length (heap \<sigma>3)" and vs3: "step < length (heap \<sigma>3)"
    using vx2 vs2 l3 by simp_all
  have x4: "heap \<sigma>4 ! x = X0" and s4: "tensor (heap \<sigma>4 ! step) = v0"
    and r4: "tensor (heap \<sigma>4 ! r1) = F v0"
    and o4: "heap \<sigma>4 ! out = new_Tensor [] (T # so)"
    and l4: "length (heap \<sigma>4) = Suc out"
    using vx3 vs3 vr x3 s3 fv by (simp_all add: \<sigma>4_def nth_append out_def)
  have O4: "shape (tensor (heap \<sigma>4 ! out)) = T # so"
    "length (data (tensor (heap \<sigma>4 ! out))) = T * prod_list so"
    by (simp_all add: o4 new_Tensor_def)
  from assign_pick_ok [OF O4 so [OF sv] lf T] obtain d where
    ad: "assign_pick (tensor (heap \<sigma>4 ! out)) 0 (F v0) = Inr d" and sd: "shape d = T # so"
    and ld: "length (data d) = T * prod_list so" and pk: "pick d 0 = Inr (F v0)"
    by blast
  define \<sigma>5 where "\<sigma>5 = \<sigma>4\<lparr> heap := (heap \<sigma>4)[out := (heap \<sigma>4 ! out)\<lparr> tensor := d \<rparr>] \<rparr>"
  have lo2: "layerOutput this2 = Some out" by (simp add: this2_def)
  have a4: "TimeDistributed_writeOutput this2 0 r1 \<sigma>4 = Inr \<sigma>5"
    using lo2 ad by (simp add: TimeDistributed_writeOutput_def assign_output_def r4 \<sigma>5_def)
  have xo: "x \<noteq> out" and os: "out \<noteq> step" using vx3 vs3 by (simp_all add: out_def)
  have l5: "length (heap \<sigma>5) = Suc out" using l4 by (simp add: \<sigma>5_def)
  have x5: "heap \<sigma>5 ! x = X0" using xo x4 by (simp add: \<sigma>5_def)
  have s5: "tensor (heap \<sigma>5 ! step) = v0" using os s4 by (simp add: \<sigma>5_def)
  have o5: "tensor (heap \<sigma>5 ! out) = d" using l4 by (simp add: \<sigma>5_def)
  have inv: "cpu_inv (wrappedClass this) I F X0 T s so x step out (wrappedCalls this) 1 (this2, \<sigma>5)"
    unfolding cpu_inv_def
    using iw1 vx3 vs3 xs xo os l5 x5 s5 o5 sv lv sd ld pv pk
    by (simp add: this2_def this1_def out_def)
  from T have "1 \<le> T" by simp
  from cpu_loop_inv [OF W X0 so inv this] obtain this3 \<sigma>6 where
    lp: "for_loop [1..<T] (TimeDistributed_cpuStep step x) (this2, \<sigma>5) = Inr (this3, \<sigma>6)"
    and fin: "cpu_inv (wrappedClass this) I F X0 T s so x step out (wrappedCalls this) T (this3, \<sigma>6)"
    by blast
  have sh5: "shape (tensor (heap \<sigma>5 ! x)) = T # s" using x5 X0 by simp
  have r: "TimeDistributed_callCPU this x \<sigma> = Inr (this3, \<sigma>6)"
    unfolding TimeDistributed_callCPU_def Let_def X
    using al a1 [folded \<sigma>2_def] a2 a3 a4 lp by (simp add: sh5)
  from fin have "wrappedCalls this3 = wrappedCalls this + T" "layerOutput this3 = Some out"
    "out < length (heap \<sigma>6)" "shape (tensor (heap \<sigma>6 ! out)) = T # so"
    "\<forall>t<T. \<exists>v. pick (tensor X0) t = Inr v \<and> pick (tensor (heap \<sigma>6 ! out)) t = Inr (F v)"
    by (simp_all add: cpu_inv_def)
  with r pv show ?thesis unfolding X0_def so_def by blast
qed

theorem TimeDistributed_callCPU_timesteps_witness:
  "pure_layer (wrappedClass cpu_wrapper)
     (\<lambda>w. \<not> gpu w \<and> activation w = ''relu'' \<and> activationFunc w = Some relu)
     (\<lambda>a. tensor (relu (new_Tensor (data a) (shape a))))
   \<and> \<not> gpu (wrappedLayer cpu_wrapper) \<and> activation (wrappedLayer cpu_wrapper) = ''relu''
   \<and> activationFunc (wrappedLayer cpu_wrapper) = Some relu
   \<and> (0::nat) < length (heap clip_world)
   \<and> shape (tensor (heap clip_world ! 0)) = 3 # [1, 2]
   \<and> length (data (tensor (heap clip_world ! 0))) = 3 * prod_list [1, 2]
   \<and> (\<exists>out this1 \<sigma>1.
         TimeDistributed_callCPU cpu_wrapper 0 clip_world = Inr (this1, \<sigma>1)
       \<and> wrappedCalls this1 = 3
       \<and> layerOutput this1 = Some out
       \<and> shape (tensor (heap \<sigma>1 ! out)) = [3, 1, 2]
       \<and> pick (tensor (heap \<sigma>1 ! out)) 0 = Inr \<lparr> data = [0, 1], shape = [1, 2] \<rparr>
       \<and> pick (tensor (heap \<sigma>1 ! out)) 1 = Inr \<lparr> data = [2, 0], shape = [1, 2] \<rparr>
       \<and> pick (tensor (heap \<sigma>1 ! out)) 2 = Inr \<lparr> data = [0, 3], shape = [1, 2] \<rparr>)"
proof -
  let ?I = "\<lambda>w :: int Activation. \<not> gpu w \<and> activation w = ''relu'' \<and> activationFunc w = Some relu"
  let ?F = "\<lambda>a :: int ndarray. tensor (relu (new_Tensor (data a) (shape a)))"
  have w: "pure_layer (wrappedClass cpu_wrapper) ?I ?F"
    by (simp add: cpu_wrapper_def relu_layer_pure)
  have i: "?I (wrappedLayer cpu_wrapper)"
    by (simp add: cpu_wrapper_def relu_layer_def)
  have v: "(0::nat) < length (heap clip_world)"
    and s: "shape (tensor (heap clip_world ! 0)) = 3 # [1, 2]"
    and l: "length (data (tensor (heap clip_world ! 0))) = 3 * prod_list [1, 2]"
    by (simp_all add: clip_world_def new_Tensor_def)
  have p: "pick (tensor (heap clip_world ! 0)) 0 = Inr \<lparr> data = [- 1, 1], shape = [1, 2] \<rparr>"
    "pick (tensor (heap clip_world ! 0)) 1 = Inr \<lparr> data = [2, - 2], shape = [1, 2] \<rparr>"
    "pick (tensor (heap clip_world ! 0)) 2 = Inr \<lparr> data = [0, 3], shape = [1, 2] \<rparr>"
    by (simp_all add: clip_world_def new_Tensor_def pick_def)
  have f: "?F \<lparr> data = [- 1, 1], shape = [1, 2] \<rparr> = \<lparr> data = [0, 1], shape = [1, 2] \<rparr>"
    "?F \<lparr> data = [2, - 2], shape = [1, 2] \<rparr> = \<lparr> data = [2, 0], shape = [1, 2] \<rparr>"
    "?F \<lparr> data = [0, 3], shape = [1, 2] \<rparr> = \<lparr> data = [0, 3], shape = [1, 2] \<rparr>"
    by (simp_all add: relu_def new_Tensor_def)
  have c0: "wrappedCalls cpu_wrapper = 0" by (simp add: cpu_wrapper_def)
  from TimeDistributed_callCPU_timesteps [where this = cpu_wrapper and I = ?I and F = ?F
      and x = 0 and \<sigma> = clip_world and T = 3 and s = "[1, 2]", OF w i v s l]
  obtain out this1 \<sigma>1 where
    r: "TimeDistributed_callCPU cpu_wrapper 0 clip_world = Inr (this1, \<sigma>1)"
    and n: "wrappedCalls this1 = wrappedCalls cpu_wrapper + 3"
    and o: "layerOutput this1 = Some out"
    and sh: "\<exists>v. pick (tensor (heap clip_world ! 0)) 0 = Inr v
               \<and> shape (tensor (heap \<sigma>1 ! out)) = 3 # shape (?F v)"
    and pk: "\<forall>t<3. \<exists>v. pick (tensor (heap clip_world ! 0)) t = Inr v
               \<and> pick (tensor (heap \<sigma>1 ! out)) t = Inr (?F v)"
    by auto
  from sh p(1) f(1) have sh': "shape (tensor (heap \<sigma>1 ! out)) = [3, 1, 2]" by simp
  from pk [rule_format, of 0] p(1) f(1)
  have p0: "pick (tensor (heap \<sigma>1 ! out)) 0 = Inr \<lparr> data = [0, 1], shape = [1, 2] \<rparr>" by simp
  from pk [rule_format, of 1] p(2) f(2)
  have p1: "pick (tensor (heap \<sigma>1 ! out)) 1 = Inr \<lparr> data = [2, 0], shape = [1, 2] \<rparr>" by simp
  from pk [rule_format, of 2] p(3) f(3)
  have p2: "pick (tensor (heap \<sigma>1 ! out)) 2 = Inr \<lparr> data = [0, 3], shape = [1, 2] \<rparr>" by simp
  from n c0 have n': "wrappedCalls this1 = 3" by simp
  from w i v s l r n' o sh' p0 p1 p2 show ?thesis by blast
qed

end
